theory Spec2Isabelle
  imports Main "HOL-Library.Word"
begin

unbundle bit_operations_syntax

section \<open>Byte slices and runtime panics\<close>

type_synonym byte = "8 word"

text \<open>A Go \<^verbatim>\<open>[]byte\<close> that the code only indexes, slices and measures is a list of bytes
  (a nil slice and an empty one cannot be told apart by those operations). Where the code
  tests a slice against nil, the slice is an option and \<open>None\<close> is nil.\<close>

type_synonym bytes = "byte list"

datatype panic = IndexOutOfRange | NilDereference | TypeAssertion

text \<open>Ranging over a slice that may be nil visits no element when it is nil.\<close>

fun elems :: "'a list option \<Rightarrow> 'a list" where
  "elems None = []"
| "elems (Some xs) = xs"

text \<open>\<^verbatim>\<open>bytes.Equal\<close>: equal length and equal content; a nil argument is an empty slice.\<close>

definition bytes_Equal :: "bytes option \<Rightarrow> bytes option \<Rightarrow> bool" where
  "bytes_Equal a b = (elems a = elems b)"

text \<open>An indexed store into a slice of fixed length, which panics out of range.\<close>

definition store :: "'a list \<Rightarrow> nat \<Rightarrow> 'a \<Rightarrow> panic + 'a list" where
  "store xs i v = (if i < length xs then Inr (xs[i := v]) else Inl IndexOutOfRange)"

section \<open>RTP packets\<close>

text \<open>The fields of \<^verbatim>\<open>rtp.Packet\<close> (package pion/rtp) that the processors read or write.\<close>

record rtp_packet =
  Padding :: bool
  Marker :: bool
  PayloadType :: byte
  SequenceNumber :: "16 word"
  Timestamp :: "32 word"
  SSRC :: "32 word"
  Payload :: bytes
  PaddingSize :: byte

text \<open>The big-endian 16-bit size that precedes each NAL unit of an aggregation packet:
  \<^verbatim>\<open>uint16(payload[0])<<8 | uint16(payload[1])\<close>.\<close>

definition be_uint16 :: "byte \<Rightarrow> byte \<Rightarrow> 16 word" where
  "be_uint16 b0 b1 = push_bit 8 (ucast b0) OR ucast b1"

section \<open>H.264: formatprocessor/h264.go\<close>

text \<open>NAL unit types of package \<^verbatim>\<open>mediacommon/pkg/codecs/h264\<close> (ITU-T H.264, table 7-1, and
  RFC 6184 for the aggregation packet).\<close>

definition h264_NALUTypeIDR :: byte where "h264_NALUTypeIDR = 5"

definition h264_NALUTypeSPS :: byte where "h264_NALUTypeSPS = 7"

definition h264_NALUTypePPS :: byte where "h264_NALUTypePPS = 8"

definition h264_NALUTypeAccessUnitDelimiter :: byte where "h264_NALUTypeAccessUnitDelimiter = 9"

definition h264_NALUTypeSTAPA :: byte where "h264_NALUTypeSTAPA = 24"

text \<open>\<^verbatim>\<open>h264.NALUType(b & 0x1F)\<close>\<close>

definition h264_NALUType :: "byte \<Rightarrow> byte" where
  "h264_NALUType b = b AND 0x1F"

record h264_format =
  h264_PayloadTyp :: byte
  h264_SPS :: "bytes option"
  h264_PPS :: "bytes option"
  h264_PacketizationMode :: int

text \<open>\<^verbatim>\<open>SafeSetParams\<close> of the format stores both parameters (under the format's mutex).\<close>

definition h264_SafeSetParams :: "h264_format \<Rightarrow> bytes option \<Rightarrow> bytes option \<Rightarrow> h264_format" where
  "h264_SafeSetParams f sps pps = f\<lparr>h264_SPS := sps, h264_PPS := pps\<rparr>"

text \<open>The first loop of \<^verbatim>\<open>remuxAccessUnit\<close>: it counts the slots of the result and looks for
  a key frame. Reading \<^verbatim>\<open>nalu[0]\<close> of an empty NAL unit panics.\<close>

fun h264_remux_count :: "h264_format \<Rightarrow> bytes list \<Rightarrow> bool \<Rightarrow> nat \<Rightarrow> panic + bool \<times> nat" where
  "h264_remux_count f [] isKeyFrame n = Inr (isKeyFrame, n)"
| "h264_remux_count f ([] # au) isKeyFrame n = Inl IndexOutOfRange"
| "h264_remux_count f ((b # bs) # au) isKeyFrame n =
     (let typ = h264_NALUType b in
      if typ = h264_NALUTypeSPS \<or> typ = h264_NALUTypePPS then h264_remux_count f au isKeyFrame n
      else if typ = h264_NALUTypeAccessUnitDelimiter then h264_remux_count f au isKeyFrame n
      else if typ = h264_NALUTypeIDR then
        (if \<not> isKeyFrame then
           h264_remux_count f au True
             ((if h264_SPS f \<noteq> None \<and> h264_PPS f \<noteq> None then n + 2 else n) + 1)
         else h264_remux_count f au isKeyFrame (n + 1))
      else h264_remux_count f au isKeyFrame (n + 1))"

text \<open>The second loop: it copies the NAL units that are kept into \<^verbatim>\<open>filteredNALUs\<close>,
  from index \<open>i\<close> on.\<close>

fun h264_remux_fill :: "bytes list \<Rightarrow> bytes list \<Rightarrow> nat \<Rightarrow> panic + bytes list" where
  "h264_remux_fill [] filteredNALUs i = Inr filteredNALUs"
| "h264_remux_fill ([] # au) filteredNALUs i = Inl IndexOutOfRange"
| "h264_remux_fill ((b # bs) # au) filteredNALUs i =
     (let typ = h264_NALUType b in
      if typ = h264_NALUTypeSPS \<or> typ = h264_NALUTypePPS then h264_remux_fill au filteredNALUs i
      else if typ = h264_NALUTypeAccessUnitDelimiter then h264_remux_fill au filteredNALUs i
      else (case store filteredNALUs i (b # bs) of
              Inl p \<Rightarrow> Inl p
            | Inr filteredNALUs' \<Rightarrow> h264_remux_fill au filteredNALUs' (i + 1)))"

text \<open>\<^verbatim>\<open>remuxAccessUnit\<close>; the result \<open>None\<close> is the nil slice.\<close>

definition h264_remuxAccessUnit :: "h264_format \<Rightarrow> bytes list \<Rightarrow> panic + bytes list option" where
  "h264_remuxAccessUnit f au =
     (case h264_remux_count f au False 0 of
        Inl p \<Rightarrow> Inl p
      | Inr (isKeyFrame, n) \<Rightarrow>
          if n = 0 then Inr None
          else
            (let filteredNALUs = replicate n [] in
             case (if isKeyFrame \<and> h264_SPS f \<noteq> None \<and> h264_PPS f \<noteq> None then
                     (case store filteredNALUs 0 (elems (h264_SPS f)) of
                        Inl p \<Rightarrow> Inl p
                      | Inr f0 \<Rightarrow>
                          (case store f0 1 (elems (h264_PPS f)) of
                             Inl p \<Rightarrow> Inl p
                           | Inr f1 \<Rightarrow> Inr (f1, 2)))
                   else Inr (filteredNALUs, 0)) of
               Inl p \<Rightarrow> Inl p
             | Inr (filteredNALUs', i) \<Rightarrow>
                 (case h264_remux_fill au filteredNALUs' i of
                    Inl p \<Rightarrow> Inl p
                  | Inr r \<Rightarrow> Inr (Some r))))"

text \<open>The loop of \<^verbatim>\<open>rtpH264ExtractSPSPPS\<close> over the NAL units of a STAP-A packet. The read
  \<^verbatim>\<open>nalu[0]\<close> is in range: \<open>size\<close> is positive and at most the length of the payload.\<close>

fun h264_stapa_loop :: "bytes \<Rightarrow> bytes option \<Rightarrow> bytes option \<Rightarrow> bytes option \<times> bytes option" where
  "h264_stapa_loop [] sps pps = (sps, pps)"
| "h264_stapa_loop [b0] sps pps = (sps, pps)"
| "h264_stapa_loop (b0 # b1 # payload) sps pps =
     (let size = be_uint16 b0 b1 in
      if size = 0 then (sps, pps)
      else if unat size > length payload then (None, None)
      else
        (let nalu = take (unat size) payload;
             payload' = drop (unat size) payload;
             typ = h264_NALUType (nalu ! 0)
         in if typ = h264_NALUTypeSPS then h264_stapa_loop payload' (Some nalu) pps
            else if typ = h264_NALUTypePPS then h264_stapa_loop payload' sps (Some nalu)
            else h264_stapa_loop payload' sps pps))"

text \<open>\<^verbatim>\<open>rtpH264ExtractSPSPPS\<close>: extract SPS and PPS without decoding RTP packets.\<close>

definition rtpH264ExtractSPSPPS :: "rtp_packet \<Rightarrow> bytes option \<times> bytes option" where
  "rtpH264ExtractSPSPPS pkt =
     (if length (Payload pkt) < 1 then (None, None)
      else
        (let typ = h264_NALUType (Payload pkt ! 0) in
         if typ = h264_NALUTypeSPS then (Some (Payload pkt), None)
         else if typ = h264_NALUTypePPS then (None, Some (Payload pkt))
         else if typ = h264_NALUTypeSTAPA then h264_stapa_loop (drop 1 (Payload pkt)) None None
         else (None, None)))"

text \<open>\<^verbatim>\<open>updateTrackParametersFromRTPPacket\<close>, on the format the processor points to.\<close>

definition h264_updateTrackParametersFromRTPPacket :: "h264_format \<Rightarrow> rtp_packet \<Rightarrow> h264_format" where
  "h264_updateTrackParametersFromRTPPacket f pkt =
     (case rtpH264ExtractSPSPPS pkt of
        (sps, pps) \<Rightarrow>
          (let update0 = False;
               update1 = (if sps \<noteq> None \<and> \<not> bytes_Equal sps (h264_SPS f) then True else update0);
               update = (if pps \<noteq> None \<and> \<not> bytes_Equal pps (h264_PPS f) then True else update1)
           in if update then
                (let sps' = (if sps = None then h264_SPS f else sps);
                     pps' = (if pps = None then h264_PPS f else pps)
                 in h264_SafeSetParams f sps' pps')
              else f))"

text \<open>The loop of \<^verbatim>\<open>updateTrackParametersFromAU\<close>: each SPS or PPS of the access unit is
  compared with the local \<open>sps\<close> or \<open>pps\<close>, which starts as the stored one.\<close>

fun h264_updateAU_loop ::
  "bytes list \<Rightarrow> bytes option \<Rightarrow> bytes option \<Rightarrow> bool \<Rightarrow> panic + bytes option \<times> bytes option \<times> bool" where
  "h264_updateAU_loop [] sps pps update = Inr (sps, pps, update)"
| "h264_updateAU_loop ([] # au) sps pps update = Inl IndexOutOfRange"
| "h264_updateAU_loop ((b # bs) # au) sps pps update =
     (let typ = h264_NALUType b in
      if typ = h264_NALUTypeSPS then
        (if \<not> bytes_Equal (Some (b # bs)) sps then h264_updateAU_loop au (Some (b # bs)) pps True
         else h264_updateAU_loop au sps pps update)
      else if typ = h264_NALUTypePPS then
        (if \<not> bytes_Equal (Some (b # bs)) pps then h264_updateAU_loop au sps (Some (b # bs)) True
         else h264_updateAU_loop au sps pps update)
      else h264_updateAU_loop au sps pps update)"

definition h264_updateTrackParametersFromAU :: "h264_format \<Rightarrow> bytes list \<Rightarrow> panic + h264_format" where
  "h264_updateTrackParametersFromAU f au =
     (case h264_updateAU_loop au (h264_SPS f) (h264_PPS f) False of
        Inl p \<Rightarrow> Inl p
      | Inr (sps, pps, update) \<Rightarrow> Inr (if update then h264_SafeSetParams f sps pps else f))"

section \<open>H.265: formatprocessor/h265.go\<close>

text \<open>NAL unit types of package \<^verbatim>\<open>mediacommon/pkg/codecs/h265\<close> (ITU-T H.265, table 7-1, and
  RFC 7798 for the aggregation packet).\<close>

definition h265_NALUType_IDR_W_RADL :: byte where "h265_NALUType_IDR_W_RADL = 19"

definition h265_NALUType_IDR_N_LP :: byte where "h265_NALUType_IDR_N_LP = 20"

definition h265_NALUType_CRA_NUT :: byte where "h265_NALUType_CRA_NUT = 21"

definition h265_NALUType_VPS_NUT :: byte where "h265_NALUType_VPS_NUT = 32"

definition h265_NALUType_SPS_NUT :: byte where "h265_NALUType_SPS_NUT = 33"

definition h265_NALUType_PPS_NUT :: byte where "h265_NALUType_PPS_NUT = 34"

definition h265_NALUType_AUD_NUT :: byte where "h265_NALUType_AUD_NUT = 35"

definition h265_NALUType_AggregationUnit :: byte where "h265_NALUType_AggregationUnit = 48"

text \<open>\<^verbatim>\<open>h265.NALUType((b >> 1) & 0b111111)\<close>\<close>

definition h265_NALUType :: "byte \<Rightarrow> byte" where
  "h265_NALUType b = drop_bit 1 b AND 0x3F"

record h265_format =
  h265_PayloadTyp :: byte
  h265_VPS :: "bytes option"
  h265_SPS :: "bytes option"
  h265_PPS :: "bytes option"
  h265_MaxDONDiff :: int

definition h265_SafeSetParams ::
  "h265_format \<Rightarrow> bytes option \<Rightarrow> bytes option \<Rightarrow> bytes option \<Rightarrow> h265_format" where
  "h265_SafeSetParams f vps sps pps = f\<lparr>h265_VPS := vps, h265_SPS := sps, h265_PPS := pps\<rparr>"

text \<open>The loop of \<^verbatim>\<open>rtpH265ExtractVPSSPSPPS\<close> over the NAL units of an aggregation packet.
  The type of each NAL unit is read from \<^verbatim>\<open>pkt.Payload[0]\<close>, the first byte of the packet
  (\<open>pktPayload\<close>, which has at least two bytes here), as the source does.\<close>

fun h265_ap_loop ::
  "bytes \<Rightarrow> bytes \<Rightarrow> bytes option \<Rightarrow> bytes option \<Rightarrow> bytes option
   \<Rightarrow> bytes option \<times> bytes option \<times> bytes option" where
  "h265_ap_loop pktPayload [] vps sps pps = (vps, sps, pps)"
| "h265_ap_loop pktPayload [b0] vps sps pps = (vps, sps, pps)"
| "h265_ap_loop pktPayload (b0 # b1 # payload) vps sps pps =
     (let size = be_uint16 b0 b1 in
      if size = 0 then (vps, sps, pps)
      else if unat size > length payload then (None, None, None)
      else
        (let nalu = take (unat size) payload;
             payload' = drop (unat size) payload;
             typ = h265_NALUType (pktPayload ! 0)
         in if typ = h265_NALUType_VPS_NUT then h265_ap_loop pktPayload payload' (Some nalu) sps pps
            else if typ = h265_NALUType_SPS_NUT then h265_ap_loop pktPayload payload' vps (Some nalu) pps
            else if typ = h265_NALUType_PPS_NUT then h265_ap_loop pktPayload payload' vps sps (Some nalu)
            else h265_ap_loop pktPayload payload' vps sps pps))"

text \<open>\<^verbatim>\<open>rtpH265ExtractVPSSPSPPS\<close>: extract VPS, SPS and PPS without decoding RTP packets.\<close>

definition rtpH265ExtractVPSSPSPPS :: "rtp_packet \<Rightarrow> bytes option \<times> bytes option \<times> bytes option" where
  "rtpH265ExtractVPSSPSPPS pkt =
     (if length (Payload pkt) < 2 then (None, None, None)
      else
        (let typ = h265_NALUType (Payload pkt ! 0) in
         if typ = h265_NALUType_VPS_NUT then (Some (Payload pkt), None, None)
         else if typ = h265_NALUType_SPS_NUT then (None, Some (Payload pkt), None)
         else if typ = h265_NALUType_PPS_NUT then (None, None, Some (Payload pkt))
         else if typ = h265_NALUType_AggregationUnit then
           h265_ap_loop (Payload pkt) (drop 2 (Payload pkt)) None None None
         else (None, None, None)))"

definition h265_updateTrackParametersFromRTPPacket :: "h265_format \<Rightarrow> rtp_packet \<Rightarrow> h265_format" where
  "h265_updateTrackParametersFromRTPPacket f pkt =
     (case rtpH265ExtractVPSSPSPPS pkt of
        (vps, sps, pps) \<Rightarrow>
          (let update0 = False;
               update1 = (if vps \<noteq> None \<and> \<not> bytes_Equal vps (h265_VPS f) then True else update0);
               update2 = (if sps \<noteq> None \<and> \<not> bytes_Equal sps (h265_SPS f) then True else update1);
               update = (if pps \<noteq> None \<and> \<not> bytes_Equal pps (h265_PPS f) then True else update2)
           in if update then
                (let vps' = (if vps = None then h265_VPS f else vps);
                     sps' = (if sps = None then h265_SPS f else sps);
                     pps' = (if pps = None then h265_PPS f else pps)
                 in h265_SafeSetParams f vps' sps' pps')
              else f))"

text \<open>The loop of \<^verbatim>\<open>updateTrackParametersFromAU\<close>: each VPS, SPS or PPS of the access unit
  is compared with the one stored in the format \<open>f\<close>, which the loop does not change.\<close>

fun h265_updateAU_loop ::
  "h265_format \<Rightarrow> bytes list \<Rightarrow> bytes option \<Rightarrow> bytes option \<Rightarrow> bytes option \<Rightarrow> bool
   \<Rightarrow> panic + bytes option \<times> bytes option \<times> bytes option \<times> bool" where
  "h265_updateAU_loop f [] vps sps pps update = Inr (vps, sps, pps, update)"
| "h265_updateAU_loop f ([] # au) vps sps pps update = Inl IndexOutOfRange"
| "h265_updateAU_loop f ((b # bs) # au) vps sps pps update =
     (let typ = h265_NALUType b in
      if typ = h265_NALUType_VPS_NUT then
        (if \<not> bytes_Equal (Some (b # bs)) (h265_VPS f)
         then h265_updateAU_loop f au (Some (b # bs)) sps pps True
         else h265_updateAU_loop f au vps sps pps update)
      else if typ = h265_NALUType_SPS_NUT then
        (if \<not> bytes_Equal (Some (b # bs)) (h265_SPS f)
         then h265_updateAU_loop f au vps (Some (b # bs)) pps True
         else h265_updateAU_loop f au vps sps pps update)
      else if typ = h265_NALUType_PPS_NUT then
        (if \<not> bytes_Equal (Some (b # bs)) (h265_PPS f)
         then h265_updateAU_loop f au vps sps (Some (b # bs)) True
         else h265_updateAU_loop f au vps sps pps update)
      else h265_updateAU_loop f au vps sps pps update)"

definition h265_updateTrackParametersFromAU :: "h265_format \<Rightarrow> bytes list \<Rightarrow> panic + h265_format" where
  "h265_updateTrackParametersFromAU f au =
     (case h265_updateAU_loop f au (h265_VPS f) (h265_SPS f) (h265_PPS f) False of
        Inl p \<Rightarrow> Inl p
      | Inr (vps, sps, pps, update) \<Rightarrow>
          Inr (if update then h265_SafeSetParams f vps sps pps else f))"

text \<open>The two loops of the H.265 \<^verbatim>\<open>remuxAccessUnit\<close>.\<close>

fun h265_remux_count :: "h265_format \<Rightarrow> bytes list \<Rightarrow> bool \<Rightarrow> nat \<Rightarrow> panic + bool \<times> nat" where
  "h265_remux_count f [] isKeyFrame n = Inr (isKeyFrame, n)"
| "h265_remux_count f ([] # au) isKeyFrame n = Inl IndexOutOfRange"
| "h265_remux_count f ((b # bs) # au) isKeyFrame n =
     (let typ = h265_NALUType b in
      if typ = h265_NALUType_VPS_NUT \<or> typ = h265_NALUType_SPS_NUT \<or> typ = h265_NALUType_PPS_NUT
        then h265_remux_count f au isKeyFrame n
      else if typ = h265_NALUType_AUD_NUT then h265_remux_count f au isKeyFrame n
      else if typ = h265_NALUType_IDR_W_RADL \<or> typ = h265_NALUType_IDR_N_LP
              \<or> typ = h265_NALUType_CRA_NUT then
        (if \<not> isKeyFrame then
           h265_remux_count f au True
             ((if h265_VPS f \<noteq> None \<and> h265_SPS f \<noteq> None \<and> h265_PPS f \<noteq> None then n + 3 else n) + 1)
         else h265_remux_count f au isKeyFrame (n + 1))
      else h265_remux_count f au isKeyFrame (n + 1))"

fun h265_remux_fill :: "bytes list \<Rightarrow> bytes list \<Rightarrow> nat \<Rightarrow> panic + bytes list" where
  "h265_remux_fill [] filteredNALUs i = Inr filteredNALUs"
| "h265_remux_fill ([] # au) filteredNALUs i = Inl IndexOutOfRange"
| "h265_remux_fill ((b # bs) # au) filteredNALUs i =
     (let typ = h265_NALUType b in
      if typ = h265_NALUType_VPS_NUT \<or> typ = h265_NALUType_SPS_NUT \<or> typ = h265_NALUType_PPS_NUT
        then h265_remux_fill au filteredNALUs i
      else if typ = h265_NALUType_AUD_NUT then h265_remux_fill au filteredNALUs i
      else (case store filteredNALUs i (b # bs) of
              Inl p \<Rightarrow> Inl p
            | Inr filteredNALUs' \<Rightarrow> h265_remux_fill au filteredNALUs' (i + 1)))"

definition h265_remuxAccessUnit :: "h265_format \<Rightarrow> bytes list \<Rightarrow> panic + bytes list option" where
  "h265_remuxAccessUnit f au =
     (case h265_remux_count f au False 0 of
        Inl p \<Rightarrow> Inl p
      | Inr (isKeyFrame, n) \<Rightarrow>
          if n = 0 then Inr None
          else
            (let filteredNALUs = replicate n [] in
             case (if isKeyFrame \<and> h265_VPS f \<noteq> None \<and> h265_SPS f \<noteq> None \<and> h265_PPS f \<noteq> None then
                     (case store filteredNALUs 0 (elems (h265_VPS f)) of
                        Inl p \<Rightarrow> Inl p
                      | Inr f0 \<Rightarrow>
                          (case store f0 1 (elems (h265_SPS f)) of
                             Inl p \<Rightarrow> Inl p
                           | Inr f1 \<Rightarrow>
                               (case store f1 2 (elems (h265_PPS f)) of
                                  Inl p \<Rightarrow> Inl p
                                | Inr f2 \<Rightarrow> Inr (f2, 3))))
                   else Inr (filteredNALUs, 0)) of
               Inl p \<Rightarrow> Inl p
             | Inr (filteredNALUs', i) \<Rightarrow>
                 (case h265_remux_fill au filteredNALUs' i of
                    Inl p \<Rightarrow> Inl p
                  | Inr r \<Rightarrow> Inr (Some r))))"

section \<open>Units, processors and the RTP library\<close>

text \<open>The errors a processor sees: the two sentinel errors of the RTP decoder packages
  (\<^verbatim>\<open>rtph264\<close>, \<^verbatim>\<open>rtph265\<close>, \<^verbatim>\<open>rtpvp9\<close>, \<^verbatim>\<open>rtpmpeg1audio\<close>, \<^verbatim>\<open>rtpmpeg1video\<close>) that the
  processors compare with (of package \<^verbatim>\<open>rtpmpeg4video\<close> the code names only
  \<^verbatim>\<open>ErrMorePacketsNeeded\<close>), the payload size error the processors build with \<^verbatim>\<open>fmt.Errorf\<close>,
  and any other error.\<close>

datatype error =
  ErrNonStartingPacketAndNoPrevious
| ErrMorePacketsNeeded
| ErrPayloadSize int int
| ErrOther string

text \<open>\<^verbatim>\<open>unit.Base\<close>, and the units that extend it: \<^verbatim>\<open>unit.H264\<close> and \<^verbatim>\<open>unit.H265\<close> (both
  are the base and an access unit), \<^verbatim>\<open>unit.VP9\<close> and \<^verbatim>\<open>unit.MPEG1Audio\<close>. \<open>None\<close> is nil.\<close>

record unit_Base =
  RTPPackets :: "rtp_packet list option"
  NTP :: int
  PTS :: int

record unit_AU = unit_Base +
  AU :: "bytes list option"



text \<open>The exported fields of \<^verbatim>\<open>rtph264.Encoder\<close> and \<^verbatim>\<open>rtph265.Encoder\<close> (the first has
  \<^verbatim>\<open>PacketizationMode\<close>, the second \<^verbatim>\<open>MaxDONDiff\<close>; the field a codec lacks stays 0), and the
  unexported state of the library.\<close>

record 'x rtp_Encoder =
  PayloadMaxSize :: int
  enc_PayloadType :: byte
  enc_SSRC :: "32 word option"
  InitialSequenceNumber :: "16 word option"
  PacketizationMode :: int
  MaxDONDiff :: int
  unexported :: 'x

text \<open>A format processor (\<^verbatim>\<open>formatProcessorH264\<close>, \<^verbatim>\<open>formatProcessorH265\<close>,
  \<^verbatim>\<open>formatProcessorVP9\<close>, \<^verbatim>\<open>formatProcessorMPEG1Audio\<close>, \<^verbatim>\<open>formatProcessorMPEG1Video\<close>,
  \<^verbatim>\<open>formatProcessorMPEG4Video\<close>): \<open>'f\<close> is the format, \<open>'d\<close> the decoder of the library.\<close>

record ('f, 'x, 'd) formatProcessor =
  udpMaxPayloadSize :: int
  format :: 'f
  encoder :: "'x rtp_Encoder option"
  decoder :: "'d option"

text \<open>The operations of pion/rtp and gortsplib that the processors call, and
  \<^verbatim>\<open>setTimestamp\<close> of this package, whose source is not part of the files at hand; they are
  parameters of the model. \<open>Decode\<close> and \<open>Encode\<close> return the new state of the decoder or
  encoder with their result; \<open>'p\<close> is the decoded payload.\<close>

record ('f, 'x, 'd, 'p) rtp_lib =
  MarshalSize :: "rtp_packet \<Rightarrow> int"
  encoder_zero :: 'x
  encoder_Init :: "'x rtp_Encoder \<Rightarrow> 'x rtp_Encoder \<times> error option"
  CreateDecoder :: "'f \<Rightarrow> error + 'd"
  Decode :: "'d \<Rightarrow> rtp_packet \<Rightarrow> 'd \<times> (error + 'p)"
  Encode :: "'x rtp_Encoder \<Rightarrow> bytes list \<Rightarrow> 'x rtp_Encoder \<times> (error + rtp_packet list)"
  setTimestamp :: "rtp_packet list \<Rightarrow> rtp_packet list option \<Rightarrow> int \<Rightarrow> int \<Rightarrow> rtp_packet list"
  ClockRate :: "'f \<Rightarrow> int"

text \<open>\<^verbatim>\<open>pkt.Header.Padding = false; pkt.PaddingSize = 0\<close>\<close>

definition remove_padding :: "rtp_packet \<Rightarrow> rtp_packet" where
  "remove_padding pkt = pkt\<lparr>Padding := False, PaddingSize := 0\<rparr>"

text \<open>\<^verbatim>\<open>if t.decoder == nil { t.decoder, err = t.format.CreateDecoder() ... }\<close>\<close>

definition decoder_or_create ::
  "('f, 'x, 'd, 'p) rtp_lib \<Rightarrow> ('f, 'x, 'd) formatProcessor \<Rightarrow> error + 'd" where
  "decoder_or_create lib t =
     (case decoder t of None \<Rightarrow> CreateDecoder lib (format t) | Some d \<Rightarrow> Inr d)"

section \<open>H.264: Process\<close>

text \<open>\<^verbatim>\<open>createEncoder\<close>: the encoder is stored in the processor before \<^verbatim>\<open>Init\<close> runs, and
  the error of \<^verbatim>\<open>Init\<close> is returned.\<close>

definition h264_createEncoder ::
  "(h264_format, 'x, 'd, 'p) rtp_lib \<Rightarrow> (h264_format, 'x, 'd) formatProcessor
   \<Rightarrow> 32 word option \<Rightarrow> 16 word option \<Rightarrow> (h264_format, 'x, 'd) formatProcessor \<times> error option" where
  "h264_createEncoder lib t ssrc initialSequenceNumber =
     (case encoder_Init lib
             \<lparr>PayloadMaxSize = udpMaxPayloadSize t - 12,
              enc_PayloadType = h264_PayloadTyp (format t),
              enc_SSRC = ssrc,
              InitialSequenceNumber = initialSequenceNumber,
              PacketizationMode = h264_PacketizationMode (format t),
              MaxDONDiff = 0,
              unexported = encoder_zero lib\<rparr> of
        (e, err) \<Rightarrow> (t\<lparr>encoder := Some e\<rparr>, err))"

text \<open>The block ``decode from RTP'' of \<^verbatim>\<open>Process\<close>. The third component of the result is
  \<open>Some r\<close> when the block returns from \<^verbatim>\<open>Process\<close> with \<open>r\<close> (an error or nil), and \<open>None\<close>
  when control goes on after the block.\<close>

definition h264_decode_from_RTP ::
  "(h264_format, 'x, 'd, bytes list) rtp_lib \<Rightarrow> (h264_format, 'x, 'd) formatProcessor \<Rightarrow> unit_AU
   \<Rightarrow> rtp_packet \<Rightarrow> bool
   \<Rightarrow> panic + (h264_format, 'x, 'd) formatProcessor \<times> unit_AU \<times> error option option" where
  "h264_decode_from_RTP lib t tunit pkt hasNonRTSPReaders =
     (if hasNonRTSPReaders \<or> decoder t \<noteq> None \<or> encoder t \<noteq> None then
        (case decoder_or_create lib t of
           Inl err \<Rightarrow> Inr (t, tunit, Some (Some err))
         | Inr d \<Rightarrow>
             (case Decode lib d pkt of
                (d', Inl err) \<Rightarrow>
                  (let t' = t\<lparr>decoder := Some d'\<rparr> in
                   if err = ErrNonStartingPacketAndNoPrevious \<or> err = ErrMorePacketsNeeded then
                     Inr (t', (if encoder t' \<noteq> None then tunit\<lparr>RTPPackets := None\<rparr> else tunit),
                          Some None)
                   else Inr (t', tunit, Some (Some err)))
              | (d', Inr au) \<Rightarrow>
                  (let t' = t\<lparr>decoder := Some d'\<rparr> in
                   case h264_remuxAccessUnit (format t') au of
                     Inl p \<Rightarrow> Inl p
                   | Inr au' \<Rightarrow> Inr (t', tunit\<lparr>AU := au'\<rparr>, None))))
      else Inr (t, tunit, None))"

text \<open>The block ``encode into RTP'' of \<^verbatim>\<open>Process\<close>. Calling \<^verbatim>\<open>Encode\<close> on a nil encoder
  dereferences nil.\<close>

definition h264_encode_into_RTP ::
  "(h264_format, 'x, 'd, bytes list) rtp_lib \<Rightarrow> (h264_format, 'x, 'd) formatProcessor \<Rightarrow> unit_AU
   \<Rightarrow> panic + (h264_format, 'x, 'd) formatProcessor \<times> unit_AU \<times> error option" where
  "h264_encode_into_RTP lib t tunit =
     (if length (elems (AU tunit)) \<noteq> 0 then
        (case encoder t of
           None \<Rightarrow> Inl NilDereference
         | Some e \<Rightarrow>
             (case Encode lib e (elems (AU tunit)) of
                (e', Inl err) \<Rightarrow> Inr (t\<lparr>encoder := Some e'\<rparr>, tunit, Some err)
              | (e', Inr pkts) \<Rightarrow>
                  Inr (t\<lparr>encoder := Some e'\<rparr>,
                       tunit\<lparr>RTPPackets :=
                         Some (setTimestamp lib pkts (RTPPackets tunit) (ClockRate lib (format t))
                                 (PTS tunit))\<rparr>,
                       None)))
      else Inr (t, tunit\<lparr>RTPPackets := None\<rparr>, None))"

text \<open>\<^verbatim>\<open>Process\<close>. The result is the processor and the unit as the call leaves them, and the
  error it returns. The packet \<^verbatim>\<open>pkt\<close> is the first element of \<^verbatim>\<open>tunit.RTPPackets\<close> itself
  (a pointer), so removing its padding changes the unit's packet.\<close>

definition h264_Process ::
  "(h264_format, 'x, 'd, bytes list) rtp_lib \<Rightarrow> (h264_format, 'x, 'd) formatProcessor \<Rightarrow> unit_AU
   \<Rightarrow> bool \<Rightarrow> panic + (h264_format, 'x, 'd) formatProcessor \<times> unit_AU \<times> error option" where
  "h264_Process lib t tunit hasNonRTSPReaders =
     (case RTPPackets tunit of
        Some pkts \<Rightarrow>
          (case pkts of
             [] \<Rightarrow> Inl IndexOutOfRange
           | pkt # rest \<Rightarrow>
               (let t1 = t\<lparr>format := h264_updateTrackParametersFromRTPPacket (format t) pkt\<rparr> in
                case (if encoder t1 = None then
                        (let pkt' = remove_padding pkt in
                         if MarshalSize lib pkt' > udpMaxPayloadSize t1 then
                           (case h264_createEncoder lib t1 (Some (SSRC pkt')) (Some (SequenceNumber pkt')) of
                              (t2, err) \<Rightarrow> (t2, pkt', err))
                         else (t1, pkt', None))
                      else (t1, pkt, None)) of
                  (t2, pkt2, Some err) \<Rightarrow> Inr (t2, tunit\<lparr>RTPPackets := Some (pkt2 # rest)\<rparr>, Some err)
                | (t2, pkt2, None) \<Rightarrow>
                    (case h264_decode_from_RTP lib t2 (tunit\<lparr>RTPPackets := Some (pkt2 # rest)\<rparr>) pkt2
                            hasNonRTSPReaders of
                       Inl p \<Rightarrow> Inl p
                     | Inr (t3, tunit3, Some r) \<Rightarrow> Inr (t3, tunit3, r)
                     | Inr (t3, tunit3, None) \<Rightarrow>
                         if encoder t3 = None then Inr (t3, tunit3, None)
                         else h264_encode_into_RTP lib t3 tunit3)))
      | None \<Rightarrow>
          (case h264_updateTrackParametersFromAU (format t) (elems (AU tunit)) of
             Inl p \<Rightarrow> Inl p
           | Inr f' \<Rightarrow>
               (let t1 = t\<lparr>format := f'\<rparr> in
                case h264_remuxAccessUnit (format t1) (elems (AU tunit)) of
                  Inl p \<Rightarrow> Inl p
                | Inr au' \<Rightarrow> h264_encode_into_RTP lib t1 (tunit\<lparr>AU := au'\<rparr>))))"

section \<open>H.265: Process\<close>

text \<open>\<^verbatim>\<open>createEncoder\<close>: the encoder is stored in the processor before \<^verbatim>\<open>Init\<close> runs, and
  the error of \<^verbatim>\<open>Init\<close> is returned.\<close>

definition h265_createEncoder ::
  "(h265_format, 'x, 'd, 'p) rtp_lib \<Rightarrow> (h265_format, 'x, 'd) formatProcessor
   \<Rightarrow> 32 word option \<Rightarrow> 16 word option \<Rightarrow> (h265_format, 'x, 'd) formatProcessor \<times> error option" where
  "h265_createEncoder lib t ssrc initialSequenceNumber =
     (case encoder_Init lib
             \<lparr>PayloadMaxSize = udpMaxPayloadSize t - 12,
              enc_PayloadType = h265_PayloadTyp (format t),
              enc_SSRC = ssrc,
              InitialSequenceNumber = initialSequenceNumber,
              PacketizationMode = 0,
              MaxDONDiff = h265_MaxDONDiff (format t),
              unexported = encoder_zero lib\<rparr> of
        (e, err) \<Rightarrow> (t\<lparr>encoder := Some e\<rparr>, err))"

text \<open>The block ``decode from RTP'' of \<^verbatim>\<open>Process\<close>. The third component of the result is
  \<open>Some r\<close> when the block returns from \<^verbatim>\<open>Process\<close> with \<open>r\<close> (an error or nil), and \<open>None\<close>
  when control goes on after the block.\<close>

definition h265_decode_from_RTP ::
  "(h265_format, 'x, 'd, bytes list) rtp_lib \<Rightarrow> (h265_format, 'x, 'd) formatProcessor \<Rightarrow> unit_AU
   \<Rightarrow> rtp_packet \<Rightarrow> bool
   \<Rightarrow> panic + (h265_format, 'x, 'd) formatProcessor \<times> unit_AU \<times> error option option" where
  "h265_decode_from_RTP lib t tunit pkt hasNonRTSPReaders =
     (if hasNonRTSPReaders \<or> decoder t \<noteq> None \<or> encoder t \<noteq> None then
        (case decoder_or_create lib t of
           Inl err \<Rightarrow> Inr (t, tunit, Some (Some err))
         | Inr d \<Rightarrow>
             (case Decode lib d pkt of
                (d', Inl err) \<Rightarrow>
                  (let t' = t\<lparr>decoder := Some d'\<rparr> in
                   if err = ErrNonStartingPacketAndNoPrevious \<or> err = ErrMorePacketsNeeded then
                     Inr (t', (if encoder t' \<noteq> None then tunit\<lparr>RTPPackets := None\<rparr> else tunit),
                          Some None)
                   else Inr (t', tunit, Some (Some err)))
              | (d', Inr au) \<Rightarrow>
                  (let t' = t\<lparr>decoder := Some d'\<rparr> in
                   case h265_remuxAccessUnit (format t') au of
                     Inl p \<Rightarrow> Inl p
                   | Inr au' \<Rightarrow> Inr (t', tunit\<lparr>AU := au'\<rparr>, None))))
      else Inr (t, tunit, None))"

text \<open>The block ``encode into RTP'' of \<^verbatim>\<open>Process\<close>. Calling \<^verbatim>\<open>Encode\<close> on a nil encoder
  dereferences nil.\<close>

definition h265_encode_into_RTP ::
  "(h265_format, 'x, 'd, bytes list) rtp_lib \<Rightarrow> (h265_format, 'x, 'd) formatProcessor \<Rightarrow> unit_AU
   \<Rightarrow> panic + (h265_format, 'x, 'd) formatProcessor \<times> unit_AU \<times> error option" where
  "h265_encode_into_RTP lib t tunit =
     (if length (elems (AU tunit)) \<noteq> 0 then
        (case encoder t of
           None \<Rightarrow> Inl NilDereference
         | Some e \<Rightarrow>
             (case Encode lib e (elems (AU tunit)) of
                (e', Inl err) \<Rightarrow> Inr (t\<lparr>encoder := Some e'\<rparr>, tunit, Some err)
              | (e', Inr pkts) \<Rightarrow>
                  Inr (t\<lparr>encoder := Some e'\<rparr>,
                       tunit\<lparr>RTPPackets :=
                         Some (setTimestamp lib pkts (RTPPackets tunit) (ClockRate lib (format t))
                                 (PTS tunit))\<rparr>,
                       None)))
      else Inr (t, tunit\<lparr>RTPPackets := None\<rparr>, None))"

text \<open>\<^verbatim>\<open>Process\<close>. The result is the processor and the unit as the call leaves them, and the
  error it returns. The packet \<^verbatim>\<open>pkt\<close> is the first element of \<^verbatim>\<open>tunit.RTPPackets\<close> itself
  (a pointer), so removing its padding changes the unit's packet.\<close>

definition h265_Process ::
  "(h265_format, 'x, 'd, bytes list) rtp_lib \<Rightarrow> (h265_format, 'x, 'd) formatProcessor \<Rightarrow> unit_AU
   \<Rightarrow> bool \<Rightarrow> panic + (h265_format, 'x, 'd) formatProcessor \<times> unit_AU \<times> error option" where
  "h265_Process lib t tunit hasNonRTSPReaders =
     (case RTPPackets tunit of
        Some pkts \<Rightarrow>
          (case pkts of
             [] \<Rightarrow> Inl IndexOutOfRange
           | pkt # rest \<Rightarrow>
               (let t1 = t\<lparr>format := h265_updateTrackParametersFromRTPPacket (format t) pkt\<rparr> in
                case (if encoder t1 = None then
                        (let pkt' = remove_padding pkt in
                         if MarshalSize lib pkt' > udpMaxPayloadSize t1 then
                           (case h265_createEncoder lib t1 (Some (SSRC pkt')) (Some (SequenceNumber pkt')) of
                              (t2, err) \<Rightarrow> (t2, pkt', err))
                         else (t1, pkt', None))
                      else (t1, pkt, None)) of
                  (t2, pkt2, Some err) \<Rightarrow> Inr (t2, tunit\<lparr>RTPPackets := Some (pkt2 # rest)\<rparr>, Some err)
                | (t2, pkt2, None) \<Rightarrow>
                    (case h265_decode_from_RTP lib t2 (tunit\<lparr>RTPPackets := Some (pkt2 # rest)\<rparr>) pkt2
                            hasNonRTSPReaders of
                       Inl p \<Rightarrow> Inl p
                     | Inr (t3, tunit3, Some r) \<Rightarrow> Inr (t3, tunit3, r)
                     | Inr (t3, tunit3, None) \<Rightarrow>
                         if encoder t3 = None then Inr (t3, tunit3, None)
                         else h265_encode_into_RTP lib t3 tunit3)))
      | None \<Rightarrow>
          (case h265_updateTrackParametersFromAU (format t) (elems (AU tunit)) of
             Inl p \<Rightarrow> Inl p
           | Inr f' \<Rightarrow>
               (let t1 = t\<lparr>format := f'\<rparr> in
                case h265_remuxAccessUnit (format t1) (elems (AU tunit)) of
                  Inl p \<Rightarrow> Inl p
                | Inr au' \<Rightarrow> h265_encode_into_RTP lib t1 (tunit\<lparr>AU := au'\<rparr>))))"

section \<open>VP9 and MPEG-1 audio: ProcessRTPPacket\<close>



section \<open>MPEG-1 video: ProcessRTPPacket\<close>




section \<open>MPEG-4 video: formatprocessor/mpeg4_video.go\<close>











section \<open>The path: core/path.go\<close>

text \<open>Identities of the collaborators of a path: readers, publishers, streams, response
  channels; durations; the media description of a source.\<close>

type_synonym reader = nat

type_synonym publisher = nat

type_synonym stream = nat

type_synonym chan = nat

type_synonym duration = int

type_synonym medias = nat

text \<open>The dynamic type of the interface value \<^verbatim>\<open>pa.source\<close>: a \<^verbatim>\<open>*sourceRedirect\<close>, a
  \<^verbatim>\<open>*sourceStatic\<close> or a publisher. A nil source is \<open>None\<close>.\<close>

datatype source = SourceRedirect | SourceStatic | SourcePublisher publisher

datatype pathOnDemandState =
  pathOnDemandStateInitial
| pathOnDemandStateWaitingReady
| pathOnDemandStateReady
| pathOnDemandStateClosing

text \<open>A \<^verbatim>\<open>*time.Timer\<close>: \<^verbatim>\<open>newEmptyTimer()\<close> never fires, \<^verbatim>\<open>time.NewTimer(d)\<close> fires after \<open>d\<close>.\<close>

datatype timer = EmptyTimer | Timer duration

text \<open>The fields of \<^verbatim>\<open>conf.PathConf\<close> the path reads. Package \<^verbatim>\<open>conf\<close> is not among the files
  at hand: the results of its methods \<^verbatim>\<open>HasStaticSource()\<close>, \<^verbatim>\<open>HasOnDemandStaticSource()\<close>
  and \<^verbatim>\<open>HasOnDemandPublisher()\<close>, which depend on the configuration only, are taken as three
  more fields, with no assumption on how they are computed. \<open>Regexp\<close> is \<open>None\<close> for a
  configuration entry with a static name.\<close>

record PathConf =
  Regexp :: "string option"
  Source :: string
  SourceRedirect_url :: string
  SourceOnDemand :: bool
  SourceOnDemandStartTimeout :: duration
  SourceOnDemandCloseAfter :: duration
  DisablePublisherOverride :: bool
  Fallback :: string
  RunOnDemand :: string
  RunOnDemandStartTimeout :: duration
  RunOnDemandCloseAfter :: duration
  RunOnReady :: string
  HasStaticSource :: bool
  HasOnDemandStaticSource :: bool
  HasOnDemandPublisher :: bool

text \<open>The fields of \<^verbatim>\<open>url.URL\<close> that \<^verbatim>\<open>handleDescribe\<close> copies.\<close>

record url =
  Scheme :: string
  User :: "string option"
  Host :: string
  Path :: string

datatype path_error =
  pathErrNoOnePublishing string
| ErrSourceTimedOut string
| ErrSourceNotPublisher string
| ErrAlreadyPublishing string
| ErrPublisherNotAssigned
| ErrNewStream string
| ErrNotInUse
| ErrTerminated

record pathDescribeRes =
  describe_stream :: "stream option"
  describe_redirect :: string
  describe_err :: "path_error option"

record pathDescribeReq =
  describe_url :: url
  describe_res :: chan

text \<open>In the results that carry the path itself the field \<open>path\<close> tells whether it is set.\<close>

record pathReaderSetupPlayRes =
  setup_path :: bool
  setup_stream :: "stream option"
  setup_err :: "path_error option"

record pathReaderAddReq =
  reader_author :: reader
  reader_res :: chan

record pathPublisherAnnounceRes =
  announce_path :: bool
  announce_err :: "path_error option"

record pathPublisherAddReq =
  publisher_author :: publisher
  publisher_res :: chan

record pathPublisherRecordRes =
  record_stream :: "stream option"
  record_err :: "path_error option"

text \<open>What the path does to the world around it, in order: the responses it sends on the
  channels of the requests, and the calls to its source, readers, stream, parent and external
  commands. Closing the readers ranges over a Go map, in no fixed order, so it is one effect.\<close>

datatype effect =
  SendDescribeRes chan pathDescribeRes
| SendReaderAddRes chan pathReaderSetupPlayRes
| SendPublisherAddRes chan pathPublisherAnnounceRes
| SendPublisherStartRes chan pathPublisherRecordRes
| SendSourceStaticSetReadyRes chan pathPublisherRecordRes
| SendAPIPathsGetRes chan
| CloseChan chan
| SourceStaticStart
| SourceStaticStop
| SourceStaticReloadConf PathConf
| PublisherClose publisher
| ReadersClose "reader set"
| StreamClose stream
| ParentPathSourceReady
| ParentPathSourceNotReady
| OnDemandCmdStart string
| OnDemandCmdClose
| OnReadyCmdStart string
| OnReadyCmdClose

record path =
  conf :: PathConf
  name :: string
  source :: "source option"
  stream :: "stream option"
  readers :: "reader set"
  describeRequestsOnHold :: "pathDescribeReq list"
  readerAddRequestsOnHold :: "pathReaderAddReq list"
  onDemandCmd :: bool
  onReadyCmd :: bool
  onDemandStaticSourceState :: pathOnDemandState
  onDemandStaticSourceReadyTimer :: timer
  onDemandStaticSourceCloseTimer :: timer
  onDemandPublisherState :: pathOnDemandState
  onDemandPublisherReadyTimer :: timer
  onDemandPublisherCloseTimer :: timer
  effects :: "effect list"

text \<open>What the path calls outside this file: \<^verbatim>\<open>newStream\<close> (which may fail) and the
  \<^verbatim>\<open>String()\<close> method of a URL.\<close>

record path_env =
  newStream :: "medias \<Rightarrow> bool \<Rightarrow> string + stream"
  url_String :: "url \<Rightarrow> string"

definition emit :: "effect \<Rightarrow> path \<Rightarrow> path" where
  "emit e pa = pa\<lparr>effects := effects pa @ [e]\<rparr>"

text \<open>\<^verbatim>\<open>newPath\<close>, and the part of \<^verbatim>\<open>run\<close> before the loop, which binds the source of a
  redirect or static path.\<close>

definition newPath :: "PathConf \<Rightarrow> string \<Rightarrow> path" where
  "newPath cnf nm =
     \<lparr>conf = cnf, name = nm, source = None, stream = None, readers = {},
      describeRequestsOnHold = [], readerAddRequestsOnHold = [],
      onDemandCmd = False, onReadyCmd = False,
      onDemandStaticSourceState = pathOnDemandStateInitial,
      onDemandStaticSourceReadyTimer = EmptyTimer,
      onDemandStaticSourceCloseTimer = EmptyTimer,
      onDemandPublisherState = pathOnDemandStateInitial,
      onDemandPublisherReadyTimer = EmptyTimer,
      onDemandPublisherCloseTimer = EmptyTimer,
      effects = []\<rparr>"

definition run_init :: "path \<Rightarrow> path" where
  "run_init pa =
     (if Source (conf pa) = ''redirect'' then pa\<lparr>source := Some SourceRedirect\<rparr>
      else if HasStaticSource (conf pa) then
        (let pa1 = pa\<lparr>source := Some SourceStatic\<rparr> in
         if \<not> SourceOnDemand (conf pa1) then emit SourceStaticStart pa1 else pa1)
      else pa)"

text \<open>\<^verbatim>\<open>shouldClose\<close>\<close>

definition shouldClose :: "path \<Rightarrow> bool" where
  "shouldClose pa =
     (Regexp (conf pa) \<noteq> None \<and> source pa = None \<and> readers pa = {}
      \<and> length (describeRequestsOnHold pa) = 0 \<and> length (readerAddRequestsOnHold pa) = 0)"

text \<open>The on-demand helpers. The type assertion \<^verbatim>\<open>pa.source.(*sourceStatic)\<close> panics when the
  source is not a static source, \<^verbatim>\<open>pa.source.(publisher)\<close> when it is not a publisher.\<close>

definition onDemandStaticSourceStart :: "path \<Rightarrow> panic + path" where
  "onDemandStaticSourceStart pa =
     (if source pa = Some SourceStatic then
        Inr ((emit SourceStaticStart pa)
               \<lparr>onDemandStaticSourceReadyTimer := Timer (SourceOnDemandStartTimeout (conf pa)),
                onDemandStaticSourceState := pathOnDemandStateWaitingReady\<rparr>)
      else Inl TypeAssertion)"

definition onDemandStaticSourceScheduleClose :: "path \<Rightarrow> path" where
  "onDemandStaticSourceScheduleClose pa =
     pa\<lparr>onDemandStaticSourceCloseTimer := Timer (SourceOnDemandCloseAfter (conf pa)),
        onDemandStaticSourceState := pathOnDemandStateClosing\<rparr>"

definition onDemandStaticSourceStop :: "path \<Rightarrow> panic + path" where
  "onDemandStaticSourceStop pa =
     (let pa1 = (if onDemandStaticSourceState pa = pathOnDemandStateClosing
                 then pa\<lparr>onDemandStaticSourceCloseTimer := EmptyTimer\<rparr> else pa);
          pa2 = pa1\<lparr>onDemandStaticSourceState := pathOnDemandStateInitial\<rparr>
      in if source pa2 = Some SourceStatic then Inr (emit SourceStaticStop pa2)
         else Inl TypeAssertion)"

definition onDemandPublisherStart :: "path \<Rightarrow> path" where
  "onDemandPublisherStart pa =
     (emit (OnDemandCmdStart (RunOnDemand (conf pa))) pa)
       \<lparr>onDemandCmd := True,
        onDemandPublisherReadyTimer := Timer (RunOnDemandStartTimeout (conf pa)),
        onDemandPublisherState := pathOnDemandStateWaitingReady\<rparr>"

definition onDemandPublisherScheduleClose :: "path \<Rightarrow> path" where
  "onDemandPublisherScheduleClose pa =
     pa\<lparr>onDemandPublisherCloseTimer := Timer (RunOnDemandCloseAfter (conf pa)),
        onDemandPublisherState := pathOnDemandStateClosing\<rparr>"

text \<open>\<^verbatim>\<open>doReaderRemove\<close>, \<^verbatim>\<open>sourceSetNotReady\<close> and \<^verbatim>\<open>doPublisherRemove\<close>\<close>

definition doReaderRemove :: "reader \<Rightarrow> path \<Rightarrow> path" where
  "doReaderRemove r pa = pa\<lparr>readers := readers pa - {r}\<rparr>"

definition sourceSetNotReady :: "path \<Rightarrow> path" where
  "sourceSetNotReady pa =
     (let pa1 = emit ParentPathSourceNotReady pa;
          pa2 = (emit (ReadersClose (readers pa1)) pa1)\<lparr>readers := {}\<rparr>;
          pa3 = (if onReadyCmd pa2 then (emit OnReadyCmdClose pa2)\<lparr>onReadyCmd := False\<rparr> else pa2)
      in case stream pa3 of
           Some st \<Rightarrow> (emit (StreamClose st) pa3)\<lparr>stream := None\<rparr>
         | None \<Rightarrow> pa3)"

definition doPublisherRemove :: "path \<Rightarrow> path" where
  "doPublisherRemove pa =
     (let pa1 = (if stream pa \<noteq> None then sourceSetNotReady pa else pa)
      in pa1\<lparr>source := None\<rparr>)"

definition onDemandPublisherStop :: "path \<Rightarrow> panic + path" where
  "onDemandPublisherStop pa =
     (case (case source pa of
              None \<Rightarrow> Inr pa
            | Some (SourcePublisher p) \<Rightarrow> Inr (doPublisherRemove (emit (PublisherClose p) pa))
            | Some _ \<Rightarrow> Inl TypeAssertion) of
        Inl e \<Rightarrow> Inl e
      | Inr pa1 \<Rightarrow>
          (let pa2 = (if onDemandPublisherState pa1 = pathOnDemandStateClosing
                      then pa1\<lparr>onDemandPublisherCloseTimer := EmptyTimer\<rparr> else pa1);
               pa3 = pa2\<lparr>onDemandPublisherState := pathOnDemandStateInitial\<rparr>
           in Inr (if onDemandCmd pa3 then (emit OnDemandCmdClose pa3)\<lparr>onDemandCmd := False\<rparr>
                   else pa3)))"

text \<open>\<^verbatim>\<open>sourceSetReady\<close>: the path and the error it returns.\<close>

definition sourceSetReady :: "path_env \<Rightarrow> path \<Rightarrow> medias \<Rightarrow> bool \<Rightarrow> path \<times> path_error option" where
  "sourceSetReady env pa ms allocateEncoder =
     (case newStream env ms allocateEncoder of
        Inl err \<Rightarrow> (pa, Some (ErrNewStream err))
      | Inr st \<Rightarrow>
          (let pa1 = pa\<lparr>stream := Some st\<rparr>;
               pa2 = (if RunOnReady (conf pa1) \<noteq> []
                      then (emit (OnReadyCmdStart (RunOnReady (conf pa1))) pa1)\<lparr>onReadyCmd := True\<rparr>
                      else pa1)
           in (emit ParentPathSourceReady pa2, None)))"

text \<open>\<^verbatim>\<open>handleReaderAddPost\<close>, and the loops over the requests on hold.\<close>

definition handleReaderAddPost :: "pathReaderAddReq \<Rightarrow> path \<Rightarrow> path" where
  "handleReaderAddPost req pa =
     (let pa1 = pa\<lparr>readers := insert (reader_author req) (readers pa)\<rparr>;
          pa2 =
            (if HasOnDemandStaticSource (conf pa1) then
               (if onDemandStaticSourceState pa1 = pathOnDemandStateClosing
                then pa1\<lparr>onDemandStaticSourceState := pathOnDemandStateReady,
                         onDemandStaticSourceCloseTimer := EmptyTimer\<rparr>
                else pa1)
             else if HasOnDemandPublisher (conf pa1) then
               (if onDemandPublisherState pa1 = pathOnDemandStateClosing
                then pa1\<lparr>onDemandPublisherState := pathOnDemandStateReady,
                         onDemandPublisherCloseTimer := EmptyTimer\<rparr>
                else pa1)
             else pa1)
      in emit (SendReaderAddRes (reader_res req)
                 \<lparr>setup_path = True, setup_stream = stream pa2, setup_err = None\<rparr>) pa2)"

definition answer_describes_on_hold :: "pathDescribeRes \<Rightarrow> path \<Rightarrow> path" where
  "answer_describes_on_hold res pa =
     (fold (\<lambda>req. emit (SendDescribeRes (describe_res req) res)) (describeRequestsOnHold pa) pa)
       \<lparr>describeRequestsOnHold := []\<rparr>"

definition fail_reader_adds_on_hold :: "path_error \<Rightarrow> path \<Rightarrow> path" where
  "fail_reader_adds_on_hold err pa =
     (fold (\<lambda>req. emit (SendReaderAddRes (reader_res req)
                          \<lparr>setup_path = False, setup_stream = None, setup_err = Some err\<rparr>))
        (readerAddRequestsOnHold pa) pa)
       \<lparr>readerAddRequestsOnHold := []\<rparr>"

definition add_readers_on_hold :: "path \<Rightarrow> path" where
  "add_readers_on_hold pa =
     (fold handleReaderAddPost (readerAddRequestsOnHold pa) pa)\<lparr>readerAddRequestsOnHold := []\<rparr>"

text \<open>\<^verbatim>\<open>handleDescribe\<close>\<close>

definition handleDescribe :: "path_env \<Rightarrow> pathDescribeReq \<Rightarrow> path \<Rightarrow> panic + path" where
  "handleDescribe env req pa =
     (if source pa = Some SourceRedirect then
        Inr (emit (SendDescribeRes (describe_res req)
                     \<lparr>describe_stream = None, describe_redirect = SourceRedirect_url (conf pa),
                      describe_err = None\<rparr>) pa)
      else if stream pa \<noteq> None then
        Inr (emit (SendDescribeRes (describe_res req)
                     \<lparr>describe_stream = stream pa, describe_redirect = [],
                      describe_err = None\<rparr>) pa)
      else if HasOnDemandStaticSource (conf pa) then
        (case (if onDemandStaticSourceState pa = pathOnDemandStateInitial
               then onDemandStaticSourceStart pa else Inr pa) of
           Inl e \<Rightarrow> Inl e
         | Inr pa1 \<Rightarrow> Inr (pa1\<lparr>describeRequestsOnHold := describeRequestsOnHold pa1 @ [req]\<rparr>))
      else if HasOnDemandPublisher (conf pa) then
        (let pa1 = (if onDemandPublisherState pa = pathOnDemandStateInitial
                    then onDemandPublisherStart pa else pa)
         in Inr (pa1\<lparr>describeRequestsOnHold := describeRequestsOnHold pa1 @ [req]\<rparr>))
      else if Fallback (conf pa) \<noteq> [] then
        (let fallbackURL =
               (if take 1 (Fallback (conf pa)) = ''/''
                then url_String env
                       \<lparr>Scheme = Scheme (describe_url req), User = User (describe_url req),
                        Host = Host (describe_url req), Path = Fallback (conf pa)\<rparr>
                else Fallback (conf pa))
         in Inr (emit (SendDescribeRes (describe_res req)
                         \<lparr>describe_stream = None, describe_redirect = fallbackURL,
                          describe_err = None\<rparr>) pa))
      else
        Inr (emit (SendDescribeRes (describe_res req)
                     \<lparr>describe_stream = None, describe_redirect = [],
                      describe_err = Some (pathErrNoOnePublishing (name pa))\<rparr>) pa))"

text \<open>\<^verbatim>\<open>handlePublisherRemove\<close>, \<^verbatim>\<open>handlePublisherAdd\<close>, \<^verbatim>\<open>handlePublisherStart\<close> and
  \<^verbatim>\<open>handlePublisherStop\<close>\<close>

definition handlePublisherRemove :: "publisher \<Rightarrow> chan \<Rightarrow> path \<Rightarrow> path" where
  "handlePublisherRemove author res pa =
     emit (CloseChan res)
       (if source pa = Some (SourcePublisher author) then doPublisherRemove pa else pa)"

definition handlePublisherAdd :: "pathPublisherAddReq \<Rightarrow> path \<Rightarrow> panic + path" where
  "handlePublisherAdd req pa =
     (if Source (conf pa) \<noteq> ''publisher'' then
        Inr (emit (SendPublisherAddRes (publisher_res req)
                     \<lparr>announce_path = False,
                      announce_err = Some (ErrSourceNotPublisher (name pa))\<rparr>) pa)
      else
        (case (case source pa of
                 None \<Rightarrow> Inr (pa, False)
               | Some src \<Rightarrow>
                   if DisablePublisherOverride (conf pa) then
                     Inr (emit (SendPublisherAddRes (publisher_res req)
                                  \<lparr>announce_path = False,
                                   announce_err = Some (ErrAlreadyPublishing (name pa))\<rparr>) pa,
                          True)
                   else
                     (case src of
                        SourcePublisher p \<Rightarrow> Inr (doPublisherRemove (emit (PublisherClose p) pa), False)
                      | _ \<Rightarrow> Inl TypeAssertion)) of
           Inl e \<Rightarrow> Inl e
         | Inr (pa1, True) \<Rightarrow> Inr pa1
         | Inr (pa1, False) \<Rightarrow>
             Inr (emit (SendPublisherAddRes (publisher_res req)
                          \<lparr>announce_path = True, announce_err = None\<rparr>)
                    (pa1\<lparr>source := Some (SourcePublisher (publisher_author req))\<rparr>))))"

definition handlePublisherStart ::
  "path_env \<Rightarrow> publisher \<Rightarrow> medias \<Rightarrow> bool \<Rightarrow> chan \<Rightarrow> path \<Rightarrow> path" where
  "handlePublisherStart env author ms generateRTPPackets res pa =
     (if source pa \<noteq> Some (SourcePublisher author) then
        emit (SendPublisherStartRes res
                \<lparr>record_stream = None, record_err = Some ErrPublisherNotAssigned\<rparr>) pa
      else
        (case sourceSetReady env pa ms generateRTPPackets of
           (pa1, Some err) \<Rightarrow>
             emit (SendPublisherStartRes res \<lparr>record_stream = None, record_err = Some err\<rparr>) pa1
         | (pa1, None) \<Rightarrow>
             (let pa2 =
                    (if HasOnDemandPublisher (conf pa1) then
                       add_readers_on_hold
                         (answer_describes_on_hold
                            \<lparr>describe_stream = stream pa1, describe_redirect = [],
                             describe_err = None\<rparr>
                            (onDemandPublisherScheduleClose
                               (pa1\<lparr>onDemandPublisherReadyTimer := EmptyTimer\<rparr>)))
                     else pa1)
              in emit (SendPublisherStartRes res
                         \<lparr>record_stream = stream pa2, record_err = None\<rparr>) pa2)))"

definition handlePublisherStop :: "publisher \<Rightarrow> chan \<Rightarrow> path \<Rightarrow> path" where
  "handlePublisherStop author res pa =
     emit (CloseChan res)
       (if Some (SourcePublisher author) = source pa \<and> stream pa \<noteq> None
        then sourceSetNotReady pa else pa)"

text \<open>\<^verbatim>\<open>handleReaderRemove\<close>, \<^verbatim>\<open>handleReaderAdd\<close> and \<^verbatim>\<open>handleAPIPathsGet\<close>\<close>

definition handleReaderRemove :: "reader \<Rightarrow> chan \<Rightarrow> path \<Rightarrow> path" where
  "handleReaderRemove author res pa =
     (let pa1 = (if author \<in> readers pa then doReaderRemove author pa else pa);
          pa2 = emit (CloseChan res) pa1
      in if readers pa2 = {} then
           (if HasOnDemandStaticSource (conf pa2) then
              (if onDemandStaticSourceState pa2 = pathOnDemandStateReady
               then onDemandStaticSourceScheduleClose pa2 else pa2)
            else if HasOnDemandPublisher (conf pa2) then
              (if onDemandPublisherState pa2 = pathOnDemandStateReady
               then onDemandPublisherScheduleClose pa2 else pa2)
            else pa2)
         else pa2)"

definition handleReaderAdd :: "pathReaderAddReq \<Rightarrow> path \<Rightarrow> panic + path" where
  "handleReaderAdd req pa =
     (if stream pa \<noteq> None then Inr (handleReaderAddPost req pa)
      else if HasOnDemandStaticSource (conf pa) then
        (case (if onDemandStaticSourceState pa = pathOnDemandStateInitial
               then onDemandStaticSourceStart pa else Inr pa) of
           Inl e \<Rightarrow> Inl e
         | Inr pa1 \<Rightarrow> Inr (pa1\<lparr>readerAddRequestsOnHold := readerAddRequestsOnHold pa1 @ [req]\<rparr>))
      else if HasOnDemandPublisher (conf pa) then
        (let pa1 = (if onDemandPublisherState pa = pathOnDemandStateInitial
                    then onDemandPublisherStart pa else pa)
         in Inr (pa1\<lparr>readerAddRequestsOnHold := readerAddRequestsOnHold pa1 @ [req]\<rparr>))
      else
        Inr (emit (SendReaderAddRes (reader_res req)
                     \<lparr>setup_path = False, setup_stream = None,
                      setup_err = Some (pathErrNoOnePublishing (name pa))\<rparr>) pa))"

definition handleAPIPathsGet :: "chan \<Rightarrow> path \<Rightarrow> path" where
  "handleAPIPathsGet res pa = emit (SendAPIPathsGetRes res) pa"

text \<open>The events the loop of \<^verbatim>\<open>run\<close> selects on: the four timers, the channels of the path
  and the cancellation of its context.\<close>

datatype event =
  OnDemandStaticSourceReadyTimer
| OnDemandStaticSourceCloseTimer
| OnDemandPublisherReadyTimer
| OnDemandPublisherCloseTimer
| ReloadConf PathConf
| SourceStaticSetReady medias bool chan
| SourceStaticSetNotReady chan
| Describe pathDescribeReq
| PublisherRemove publisher chan
| PublisherAdd pathPublisherAddReq
| PublisherStart publisher medias bool chan
| PublisherStop publisher chan
| ReaderAdd pathReaderAddReq
| ReaderRemove reader chan
| APIPathsGet chan
| CtxDone

text \<open>\<^verbatim>\<open>if pa.shouldClose() { return fmt.Errorf("not in use") }\<close>: \<open>Some err\<close> leaves the loop
  with \<open>err\<close>, \<open>None\<close> goes on to the next iteration.\<close>

definition check_shouldClose :: "path \<Rightarrow> path \<times> path_error option" where
  "check_shouldClose pa = (pa, if shouldClose pa then Some ErrNotInUse else None)"

text \<open>The answers to the requests on hold when a ready timer fires.\<close>

definition timed_out :: "path \<Rightarrow> path" where
  "timed_out pa =
     fail_reader_adds_on_hold (ErrSourceTimedOut (name pa))
       (answer_describes_on_hold
          \<lparr>describe_stream = None, describe_redirect = [],
           describe_err = Some (ErrSourceTimedOut (name pa))\<rparr> pa)"

text \<open>One iteration of the loop of \<^verbatim>\<open>run\<close>, for the event that the select takes.\<close>

definition run_step :: "path_env \<Rightarrow> path \<Rightarrow> event \<Rightarrow> panic + path \<times> path_error option" where
  "run_step env pa ev =
     (case ev of
        OnDemandStaticSourceReadyTimer \<Rightarrow>
          (case onDemandStaticSourceStop (timed_out pa) of
             Inl e \<Rightarrow> Inl e | Inr pa1 \<Rightarrow> Inr (check_shouldClose pa1))
      | OnDemandStaticSourceCloseTimer \<Rightarrow>
          (case onDemandStaticSourceStop (sourceSetNotReady pa) of
             Inl e \<Rightarrow> Inl e | Inr pa1 \<Rightarrow> Inr (check_shouldClose pa1))
      | OnDemandPublisherReadyTimer \<Rightarrow>
          (case onDemandPublisherStop (timed_out pa) of
             Inl e \<Rightarrow> Inl e | Inr pa1 \<Rightarrow> Inr (check_shouldClose pa1))
      | OnDemandPublisherCloseTimer \<Rightarrow>
          (case onDemandPublisherStop pa of
             Inl e \<Rightarrow> Inl e | Inr pa1 \<Rightarrow> Inr (check_shouldClose pa1))
      | ReloadConf newConf \<Rightarrow>
          (if HasStaticSource (conf pa) then
             (if source pa = Some SourceStatic
              then Inr ((emit (SourceStaticReloadConf newConf) pa)\<lparr>conf := newConf\<rparr>, None)
              else Inl TypeAssertion)
           else Inr (pa\<lparr>conf := newConf\<rparr>, None))
      | SourceStaticSetReady ms generateRTPPackets res \<Rightarrow>
          (case sourceSetReady env pa ms generateRTPPackets of
             (pa1, Some err) \<Rightarrow>
               Inr (emit (SendSourceStaticSetReadyRes res
                            \<lparr>record_stream = None, record_err = Some err\<rparr>) pa1, None)
           | (pa1, None) \<Rightarrow>
               (let pa2 =
                      (if HasOnDemandStaticSource (conf pa1) then
                         add_readers_on_hold
                           (answer_describes_on_hold
                              \<lparr>describe_stream = stream pa1, describe_redirect = [],
                               describe_err = None\<rparr>
                              (onDemandStaticSourceScheduleClose
                                 (pa1\<lparr>onDemandStaticSourceReadyTimer := EmptyTimer\<rparr>)))
                       else pa1)
                in Inr (emit (SendSourceStaticSetReadyRes res
                                \<lparr>record_stream = stream pa2, record_err = None\<rparr>) pa2, None)))
      | SourceStaticSetNotReady res \<Rightarrow>
          (let pa1 = emit (CloseChan res) (sourceSetNotReady pa) in
           case (if HasOnDemandStaticSource (conf pa1)
                    \<and> onDemandStaticSourceState pa1 \<noteq> pathOnDemandStateInitial
                 then onDemandStaticSourceStop pa1 else Inr pa1) of
             Inl e \<Rightarrow> Inl e | Inr pa2 \<Rightarrow> Inr (check_shouldClose pa2))
      | Describe req \<Rightarrow>
          (case handleDescribe env req pa of
             Inl e \<Rightarrow> Inl e | Inr pa1 \<Rightarrow> Inr (check_shouldClose pa1))
      | PublisherRemove author res \<Rightarrow> Inr (check_shouldClose (handlePublisherRemove author res pa))
      | PublisherAdd req \<Rightarrow>
          (case handlePublisherAdd req pa of Inl e \<Rightarrow> Inl e | Inr pa1 \<Rightarrow> Inr (pa1, None))
      | PublisherStart author ms generateRTPPackets res \<Rightarrow>
          Inr (handlePublisherStart env author ms generateRTPPackets res pa, None)
      | PublisherStop author res \<Rightarrow> Inr (check_shouldClose (handlePublisherStop author res pa))
      | ReaderAdd req \<Rightarrow>
          (case handleReaderAdd req pa of
             Inl e \<Rightarrow> Inl e | Inr pa1 \<Rightarrow> Inr (check_shouldClose pa1))
      | ReaderRemove author res \<Rightarrow> Inr (handleReaderRemove author res pa, None)
      | APIPathsGet res \<Rightarrow> Inr (handleAPIPathsGet res pa, None)
      | CtxDone \<Rightarrow> Inr (pa, Some ErrTerminated))"

text \<open>The loop of \<^verbatim>\<open>run\<close> over the events it receives, until an iteration leaves the loop:
  the state, and the error the loop returned if it did.\<close>

fun run_loop :: "path_env \<Rightarrow> path \<Rightarrow> event list \<Rightarrow> panic + path \<times> path_error option" where
  "run_loop env pa [] = Inr (pa, None)"
| "run_loop env pa (ev # evs) =
     (case run_step env pa ev of
        Inl e \<Rightarrow> Inl e
      | Inr (pa1, Some err) \<Rightarrow> Inr (pa1, Some err)
      | Inr (pa1, None) \<Rightarrow> run_loop env pa1 evs)"

section \<open>The canonical remux rules, in the words of the specification\<close>

text \<open>The NAL units that the remux rule strips (parameter sets and the access unit delimiter),
  the key-frame NAL units, and the rule itself: strip, then prepend the stored parameter sets
  when a key frame remains and all of them are stored; nothing remaining gives nil.\<close>

definition h264_is_parameter_or_aud :: "bytes \<Rightarrow> bool" where
  "h264_is_parameter_or_aud nalu =
     (case nalu of [] \<Rightarrow> False
      | b # _ \<Rightarrow> h264_NALUType b = h264_NALUTypeSPS \<or> h264_NALUType b = h264_NALUTypePPS
                 \<or> h264_NALUType b = h264_NALUTypeAccessUnitDelimiter)"

definition h264_is_idr :: "bytes \<Rightarrow> bool" where
  "h264_is_idr nalu = (case nalu of [] \<Rightarrow> False | b # _ \<Rightarrow> h264_NALUType b = h264_NALUTypeIDR)"

definition h264_remaining :: "bytes list \<Rightarrow> bytes list" where
  "h264_remaining au = filter (\<lambda>nalu. \<not> h264_is_parameter_or_aud nalu) au"

definition h264_remux_spec :: "h264_format \<Rightarrow> bytes list \<Rightarrow> bytes list option" where
  "h264_remux_spec f au =
     (let remaining = h264_remaining au in
      if remaining = [] then None
      else if list_ex h264_is_idr remaining \<and> h264_SPS f \<noteq> None \<and> h264_PPS f \<noteq> None
        then Some (elems (h264_SPS f) # elems (h264_PPS f) # remaining)
      else Some remaining)"

definition h265_is_parameter_or_aud :: "bytes \<Rightarrow> bool" where
  "h265_is_parameter_or_aud nalu =
     (case nalu of [] \<Rightarrow> False
      | b # _ \<Rightarrow> h265_NALUType b = h265_NALUType_VPS_NUT \<or> h265_NALUType b = h265_NALUType_SPS_NUT
                 \<or> h265_NALUType b = h265_NALUType_PPS_NUT \<or> h265_NALUType b = h265_NALUType_AUD_NUT)"

definition h265_is_key :: "bytes \<Rightarrow> bool" where
  "h265_is_key nalu =
     (case nalu of [] \<Rightarrow> False
      | b # _ \<Rightarrow> h265_NALUType b = h265_NALUType_IDR_W_RADL \<or> h265_NALUType b = h265_NALUType_IDR_N_LP
                 \<or> h265_NALUType b = h265_NALUType_CRA_NUT)"

definition h265_remaining :: "bytes list \<Rightarrow> bytes list" where
  "h265_remaining au = filter (\<lambda>nalu. \<not> h265_is_parameter_or_aud nalu) au"

definition h265_remux_spec :: "h265_format \<Rightarrow> bytes list \<Rightarrow> bytes list option" where
  "h265_remux_spec f au =
     (let remaining = h265_remaining au in
      if remaining = [] then None
      else if list_ex h265_is_key remaining
              \<and> h265_VPS f \<noteq> None \<and> h265_SPS f \<noteq> None \<and> h265_PPS f \<noteq> None
        then Some (elems (h265_VPS f) # elems (h265_SPS f) # elems (h265_PPS f) # remaining)
      else Some remaining)"

text \<open>Each stored parameter set starts with a byte that encodes its own NAL unit type.\<close>

definition h264_params_typed :: "h264_format \<Rightarrow> bool" where
  "h264_params_typed f =
     ((case h264_SPS f of None \<Rightarrow> True
       | Some s \<Rightarrow> (case s of [] \<Rightarrow> False | b # _ \<Rightarrow> h264_NALUType b = h264_NALUTypeSPS))
      \<and> (case h264_PPS f of None \<Rightarrow> True
         | Some p \<Rightarrow> (case p of [] \<Rightarrow> False | b # _ \<Rightarrow> h264_NALUType b = h264_NALUTypePPS)))"

definition h265_params_typed :: "h265_format \<Rightarrow> bool" where
  "h265_params_typed f =
     ((case h265_VPS f of None \<Rightarrow> True
       | Some v \<Rightarrow> (case v of [] \<Rightarrow> False | b # _ \<Rightarrow> h265_NALUType b = h265_NALUType_VPS_NUT))
      \<and> (case h265_SPS f of None \<Rightarrow> True
         | Some s \<Rightarrow> (case s of [] \<Rightarrow> False | b # _ \<Rightarrow> h265_NALUType b = h265_NALUType_SPS_NUT))
      \<and> (case h265_PPS f of None \<Rightarrow> True
         | Some p \<Rightarrow> (case p of [] \<Rightarrow> False | b # _ \<Rightarrow> h265_NALUType b = h265_NALUType_PPS_NUT)))"

section \<open>Sequences of parameter updates\<close>

text \<open>The kinds of NAL unit that carry a parameter set.\<close>

definition h264_is_sps :: "bytes \<Rightarrow> bool" where
  "h264_is_sps nalu = (case nalu of [] \<Rightarrow> False | b # _ \<Rightarrow> h264_NALUType b = h264_NALUTypeSPS)"

definition h264_is_pps :: "bytes \<Rightarrow> bool" where
  "h264_is_pps nalu = (case nalu of [] \<Rightarrow> False | b # _ \<Rightarrow> h264_NALUType b = h264_NALUTypePPS)"

definition h265_is_vps :: "bytes \<Rightarrow> bool" where
  "h265_is_vps nalu = (case nalu of [] \<Rightarrow> False | b # _ \<Rightarrow> h265_NALUType b = h265_NALUType_VPS_NUT)"

definition h265_is_sps :: "bytes \<Rightarrow> bool" where
  "h265_is_sps nalu = (case nalu of [] \<Rightarrow> False | b # _ \<Rightarrow> h265_NALUType b = h265_NALUType_SPS_NUT)"

definition h265_is_pps :: "bytes \<Rightarrow> bool" where
  "h265_is_pps nalu = (case nalu of [] \<Rightarrow> False | b # _ \<Rightarrow> h265_NALUType b = h265_NALUType_PPS_NUT)"

text \<open>The two ways a processor observes parameters: in the first RTP packet of a unit
  (\<^verbatim>\<open>updateTrackParametersFromRTPPacket\<close>) or in a decoded access unit
  (\<^verbatim>\<open>updateTrackParametersFromAU\<close>). An access unit is well formed when no NAL unit is empty.\<close>

datatype param_input = FromRTPPacket rtp_packet | FromAU "bytes list"

fun input_wf :: "param_input \<Rightarrow> bool" where
  "input_wf (FromRTPPacket pkt) = True"
| "input_wf (FromAU au) = ([] \<notin> set au)"

fun h264_update :: "h264_format \<Rightarrow> param_input \<Rightarrow> panic + h264_format" where
  "h264_update f (FromRTPPacket pkt) = Inr (h264_updateTrackParametersFromRTPPacket f pkt)"
| "h264_update f (FromAU au) = h264_updateTrackParametersFromAU f au"

fun h264_updates :: "h264_format \<Rightarrow> param_input list \<Rightarrow> panic + h264_format" where
  "h264_updates f [] = Inr f"
| "h264_updates f (x # xs) =
     (case h264_update f x of Inl p \<Rightarrow> Inl p | Inr f' \<Rightarrow> h264_updates f' xs)"

text \<open>The parameters of each kind that an input shows: what the extraction helper returns for
  an RTP packet, the NAL units of that type for an access unit.\<close>

fun h264_observed_SPS :: "param_input \<Rightarrow> bytes list" where
  "h264_observed_SPS (FromRTPPacket pkt) =
     (case fst (rtpH264ExtractSPSPPS pkt) of None \<Rightarrow> [] | Some s \<Rightarrow> [s])"
| "h264_observed_SPS (FromAU au) = filter h264_is_sps au"

fun h264_observed_PPS :: "param_input \<Rightarrow> bytes list" where
  "h264_observed_PPS (FromRTPPacket pkt) =
     (case snd (rtpH264ExtractSPSPPS pkt) of None \<Rightarrow> [] | Some s \<Rightarrow> [s])"
| "h264_observed_PPS (FromAU au) = filter h264_is_pps au"

text \<open>Auxiliary notions: a slice that is nil or non-empty; the observed value if there is
  one, else the stored one; the last element of a list, else the stored value; the NAL units
  of a kind that differ from the stored parameter.\<close>

definition nonempty_opt :: "bytes option \<Rightarrow> bool" where
  "nonempty_opt x = (case x of None \<Rightarrow> True | Some s \<Rightarrow> s \<noteq> [])"

definition observed_or :: "bytes option \<Rightarrow> bytes option \<Rightarrow> bytes option" where
  "observed_or x stored = (case x of None \<Rightarrow> stored | Some s \<Rightarrow> Some s)"

definition last_or :: "bytes list \<Rightarrow> bytes option \<Rightarrow> bytes option" where
  "last_or xs stored = (case xs of [] \<Rightarrow> stored | _ # _ \<Rightarrow> Some (last xs))"

definition h265_differing :: "(bytes \<Rightarrow> bool) \<Rightarrow> bytes option \<Rightarrow> bytes list \<Rightarrow> bytes list" where
  "h265_differing is_kind stored au =
     filter (\<lambda>nalu. is_kind nalu \<and> \<not> bytes_Equal (Some nalu) stored) au"

fun h265_update :: "h265_format \<Rightarrow> param_input \<Rightarrow> panic + h265_format" where
  "h265_update g (FromRTPPacket pkt) = Inr (h265_updateTrackParametersFromRTPPacket g pkt)"
| "h265_update g (FromAU au) = h265_updateTrackParametersFromAU g au"

fun h265_updates :: "h265_format \<Rightarrow> param_input list \<Rightarrow> panic + h265_format" where
  "h265_updates g [] = Inr g"
| "h265_updates g (x # xs) =
     (case h265_update g x of Inl p \<Rightarrow> Inl p | Inr g' \<Rightarrow> h265_updates g' xs)"

fun h265_observed_VPS :: "param_input \<Rightarrow> bytes list" where
  "h265_observed_VPS (FromRTPPacket pkt) =
     (case fst (rtpH265ExtractVPSSPSPPS pkt) of None \<Rightarrow> [] | Some s \<Rightarrow> [s])"
| "h265_observed_VPS (FromAU au) = filter h265_is_vps au"

fun h265_observed_SPS :: "param_input \<Rightarrow> bytes list" where
  "h265_observed_SPS (FromRTPPacket pkt) =
     (case fst (snd (rtpH265ExtractVPSSPSPPS pkt)) of None \<Rightarrow> [] | Some s \<Rightarrow> [s])"
| "h265_observed_SPS (FromAU au) = filter h265_is_sps au"

fun h265_observed_PPS :: "param_input \<Rightarrow> bytes list" where
  "h265_observed_PPS (FromRTPPacket pkt) =
     (case snd (snd (rtpH265ExtractVPSSPSPPS pkt)) of None \<Rightarrow> [] | Some s \<Rightarrow> [s])"
| "h265_observed_PPS (FromAU au) = filter h265_is_pps au"

text \<open>A stored parameter changes only to an observed one that differs from it, keeps its
  value when none is observed, and never goes back to nil.\<close>

definition replaced_only_by_observed :: "bytes option \<Rightarrow> bytes option \<Rightarrow> bytes list \<Rightarrow> bool" where
  "replaced_only_by_observed stored stored' observed =
     ((stored' \<noteq> stored \<longrightarrow> (\<exists>s\<in>set observed. Some s \<noteq> stored \<and> stored' = Some s))
      \<and> (observed = [] \<longrightarrow> stored' = stored)
      \<and> (stored \<noteq> None \<longrightarrow> stored' \<noteq> None))"

section \<open>Concrete inputs\<close>

definition h264_format_example :: h264_format where
  "h264_format_example =
     \<lparr>h264_PayloadTyp = 96, h264_SPS = Some [0x67, 1], h264_PPS = Some [0x68, 2],
      h264_PacketizationMode = 1\<rparr>"

definition h265_format_example :: h265_format where
  "h265_format_example =
     \<lparr>h265_PayloadTyp = 96, h265_VPS = Some [0x40, 1], h265_SPS = Some [0x42, 2],
      h265_PPS = Some [0x44, 3], h265_MaxDONDiff = 0\<rparr>"

definition h265_format_empty :: h265_format where
  "h265_format_empty =
     \<lparr>h265_PayloadTyp = 96, h265_VPS = None, h265_SPS = None, h265_PPS = None, h265_MaxDONDiff = 0\<rparr>"

definition rtp_packet_example :: "bytes \<Rightarrow> rtp_packet" where
  "rtp_packet_example payload =
     \<lparr>Padding = False, Marker = True, PayloadType = 96, SequenceNumber = 123, Timestamp = 45343,
      SSRC = 563423, Payload = payload, PaddingSize = 0\<rparr>"

definition param_inputs_example :: "param_input list" where
  "param_inputs_example =
     [FromRTPPacket (rtp_packet_example [0x67, 7]), FromAU [[0x68, 8], [0x65, 0]],
      FromRTPPacket (rtp_packet_example [0x40, 1, 2, 3]), FromAU [[0x42, 4], [0x44, 5], [0x26, 0]]]"

section \<open>Re-encoding: decode, remux, encode\<close>

text \<open>The two decoder errors that are not fatal.\<close>

definition soft_decoder_error :: "error \<Rightarrow> bool" where
  "soft_decoder_error err = (err = ErrNonStartingPacketAndNoPrevious \<or> err = ErrMorePacketsNeeded)"

text \<open>The way of a unit once the encoder \<open>e\<close> exists, as the specification names it
  (decode, remux, re-encode): its first packet is decoded, the access unit is remuxed and encoded
  again, and the packets of the encoder replace those of the unit. There are no packets to put in
  the unit when the decoder needs more packets or when nothing is left after the remux; an error
  of the decoder or the encoder is returned.\<close>

definition h264_decode_remux_reencode ::
  "(h264_format, 'x, 'd, bytes list) rtp_lib \<Rightarrow> (h264_format, 'x, 'd) formatProcessor
   \<Rightarrow> 'x rtp_Encoder \<Rightarrow> unit_AU \<Rightarrow> rtp_packet
   \<Rightarrow> panic + (h264_format, 'x, 'd) formatProcessor \<times> unit_AU \<times> error option" where
  "h264_decode_remux_reencode lib t e tunit pkt =
     (case decoder_or_create lib t of
        Inl err \<Rightarrow> Inr (t, tunit, Some err)
      | Inr d \<Rightarrow>
          (case Decode lib d pkt of
             (d', Inl err) \<Rightarrow>
               if soft_decoder_error err
               then Inr (t\<lparr>decoder := Some d'\<rparr>, tunit\<lparr>RTPPackets := None\<rparr>, None)
               else Inr (t\<lparr>decoder := Some d'\<rparr>, tunit, Some err)
           | (d', Inr au) \<Rightarrow>
               (case h264_remuxAccessUnit (format t) au of
                  Inl p \<Rightarrow> Inl p
                | Inr au' \<Rightarrow>
                    if elems au' = []
                    then Inr (t\<lparr>decoder := Some d'\<rparr>, tunit\<lparr>AU := au', RTPPackets := None\<rparr>, None)
                    else
                      (case Encode lib e (elems au') of
                         (e', Inl err) \<Rightarrow>
                           Inr (t\<lparr>decoder := Some d', encoder := Some e'\<rparr>, tunit\<lparr>AU := au'\<rparr>, Some err)
                       | (e', Inr pkts) \<Rightarrow>
                           Inr (t\<lparr>decoder := Some d', encoder := Some e'\<rparr>,
                                tunit\<lparr>AU := au',
                                  RTPPackets :=
                                    Some (setTimestamp lib pkts (RTPPackets tunit)
                                            (ClockRate lib (format t)) (PTS tunit))\<rparr>,
                                None)))))"

definition h265_decode_remux_reencode ::
  "(h265_format, 'x, 'd, bytes list) rtp_lib \<Rightarrow> (h265_format, 'x, 'd) formatProcessor
   \<Rightarrow> 'x rtp_Encoder \<Rightarrow> unit_AU \<Rightarrow> rtp_packet
   \<Rightarrow> panic + (h265_format, 'x, 'd) formatProcessor \<times> unit_AU \<times> error option" where
  "h265_decode_remux_reencode lib t e tunit pkt =
     (case decoder_or_create lib t of
        Inl err \<Rightarrow> Inr (t, tunit, Some err)
      | Inr d \<Rightarrow>
          (case Decode lib d pkt of
             (d', Inl err) \<Rightarrow>
               if soft_decoder_error err
               then Inr (t\<lparr>decoder := Some d'\<rparr>, tunit\<lparr>RTPPackets := None\<rparr>, None)
               else Inr (t\<lparr>decoder := Some d'\<rparr>, tunit, Some err)
           | (d', Inr au) \<Rightarrow>
               (case h265_remuxAccessUnit (format t) au of
                  Inl p \<Rightarrow> Inl p
                | Inr au' \<Rightarrow>
                    if elems au' = []
                    then Inr (t\<lparr>decoder := Some d'\<rparr>, tunit\<lparr>AU := au', RTPPackets := None\<rparr>, None)
                    else
                      (case Encode lib e (elems au') of
                         (e', Inl err) \<Rightarrow>
                           Inr (t\<lparr>decoder := Some d', encoder := Some e'\<rparr>, tunit\<lparr>AU := au'\<rparr>, Some err)
                       | (e', Inr pkts) \<Rightarrow>
                           Inr (t\<lparr>decoder := Some d', encoder := Some e'\<rparr>,
                                tunit\<lparr>AU := au',
                                  RTPPackets :=
                                    Some (setTimestamp lib pkts (RTPPackets tunit)
                                            (ClockRate lib (format t)) (PTS tunit))\<rparr>,
                                None)))))"

text \<open>A small RTP library to run the processors on: a packet with the marker bit decodes to its
  payload, one without needs more packets; the encoder puts every NAL unit in a packet.\<close>

definition lib_example :: "(bytes \<Rightarrow> 'p) \<Rightarrow> ('f, unit, unit, 'p) rtp_lib" where
  "lib_example wrap =
     \<lparr>MarshalSize = (\<lambda>pkt. 12 + int (length (Payload pkt)) + uint (PaddingSize pkt)),
      encoder_zero = (),
      encoder_Init = (\<lambda>e. (e, None)),
      CreateDecoder = (\<lambda>f. Inr ()),
      Decode = (\<lambda>d pkt. (d, if Marker pkt then Inr (wrap (Payload pkt)) else Inl ErrMorePacketsNeeded)),
      Encode = (\<lambda>e au. (e, Inr (map rtp_packet_example au))),
      setTimestamp = (\<lambda>pkts old clockRate pts. pkts),
      ClockRate = (\<lambda>f. 90000)\<rparr>"

definition encoder_example :: "unit rtp_Encoder" where
  "encoder_example =
     \<lparr>PayloadMaxSize = 1460, enc_PayloadType = 96, enc_SSRC = Some 563423,
      InitialSequenceNumber = Some 124, PacketizationMode = 0, MaxDONDiff = 0, unexported = ()\<rparr>"

definition processor_example :: "'f \<Rightarrow> unit rtp_Encoder option \<Rightarrow> ('f, unit, unit) formatProcessor" where
  "processor_example f e = \<lparr>udpMaxPayloadSize = 1472, format = f, encoder = e, decoder = None\<rparr>"

definition unit_example :: "rtp_packet \<Rightarrow> unit_AU" where
  "unit_example pkt = \<lparr>RTPPackets = Some [pkt], NTP = 0, PTS = 0, AU = None\<rparr>"

definition oversize_packet :: rtp_packet where
  "oversize_packet = rtp_packet_example (0x01 # replicate 1999 2)"


definition small_packet :: rtp_packet where
  "small_packet = rtp_packet_example [0x65, 1]"

definition lib_h264_example :: "(h264_format, unit, unit, bytes list) rtp_lib" where
  "lib_h264_example = lib_example (\<lambda>b. [b])"

definition lib_h265_example :: "(h265_format, unit, unit, bytes list) rtp_lib" where
  "lib_h265_example = lib_example (\<lambda>b. [b])"







section \<open>The describe resolution order, in the words of the specification\<close>

text \<open>The five outcomes in their order: the redirect of a redirect source; the stream when the
  source is ready; parking when an on-demand source or publisher is configured; the fallback,
  rewritten against the URL of the request when it begins with a slash; the error.\<close>

datatype describe_outcome = Redirected string | GotStream stream | Parked | Failed path_error

definition describe_resolution :: "path_env \<Rightarrow> pathDescribeReq \<Rightarrow> path \<Rightarrow> describe_outcome" where
  "describe_resolution env req pa =
     (if source pa = Some SourceRedirect then Redirected (SourceRedirect_url (conf pa))
      else
        (case stream pa of
           Some st \<Rightarrow> GotStream st
         | None \<Rightarrow>
             if HasOnDemandStaticSource (conf pa) \<or> HasOnDemandPublisher (conf pa) then Parked
             else if Fallback (conf pa) \<noteq> [] then
               Redirected
                 (if hd (Fallback (conf pa)) = CHR ''/''
                  then url_String env
                         \<lparr>Scheme = Scheme (describe_url req), User = User (describe_url req),
                          Host = Host (describe_url req), Path = Fallback (conf pa)\<rparr>
                  else Fallback (conf pa))
             else Failed (pathErrNoOnePublishing (name pa))))"

text \<open>Starting what is on demand when it is in the initial state: the source or the command
  is started, the ready timer is armed and the state becomes waiting.\<close>

definition start_on_demand :: "path \<Rightarrow> path" where
  "start_on_demand pa =
     (if HasOnDemandStaticSource (conf pa) then
        (if onDemandStaticSourceState pa = pathOnDemandStateInitial then
           (emit SourceStaticStart pa)
             \<lparr>onDemandStaticSourceReadyTimer := Timer (SourceOnDemandStartTimeout (conf pa)),
              onDemandStaticSourceState := pathOnDemandStateWaitingReady\<rparr>
         else pa)
      else
        (if onDemandPublisherState pa = pathOnDemandStateInitial then
           (emit (OnDemandCmdStart (RunOnDemand (conf pa))) pa)
             \<lparr>onDemandCmd := True,
              onDemandPublisherReadyTimer := Timer (RunOnDemandStartTimeout (conf pa)),
              onDemandPublisherState := pathOnDemandStateWaitingReady\<rparr>
         else pa))"

text \<open>The path after the describe request: a response is sent, or the request is put on hold.\<close>

definition describe_result :: "path_env \<Rightarrow> pathDescribeReq \<Rightarrow> path \<Rightarrow> path" where
  "describe_result env req pa =
     (case describe_resolution env req pa of
        Redirected u \<Rightarrow>
          emit (SendDescribeRes (describe_res req)
                  \<lparr>describe_stream = None, describe_redirect = u, describe_err = None\<rparr>) pa
      | GotStream st \<Rightarrow>
          emit (SendDescribeRes (describe_res req)
                  \<lparr>describe_stream = Some st, describe_redirect = [], describe_err = None\<rparr>) pa
      | Parked \<Rightarrow>
          (start_on_demand pa)\<lparr>describeRequestsOnHold := describeRequestsOnHold pa @ [req]\<rparr>
      | Failed e \<Rightarrow>
          emit (SendDescribeRes (describe_res req)
                  \<lparr>describe_stream = None, describe_redirect = [], describe_err = Some e\<rparr>) pa)"

text \<open>Concrete environments, configurations and requests.\<close>

definition env_example :: path_env where
  "env_example =
     \<lparr>newStream = (\<lambda>ms allocateEncoder. Inr ms),
      url_String = (\<lambda>u. Scheme u @ ''://'' @ Host u @ Path u)\<rparr>"

definition conf_example :: PathConf where
  "conf_example =
     \<lparr>Regexp = None, Source = ''publisher'', SourceRedirect_url = [], SourceOnDemand = False,
      SourceOnDemandStartTimeout = 10, SourceOnDemandCloseAfter = 10,
      DisablePublisherOverride = False, Fallback = [], RunOnDemand = [],
      RunOnDemandStartTimeout = 10, RunOnDemandCloseAfter = 10, RunOnReady = [],
      HasStaticSource = False, HasOnDemandStaticSource = False, HasOnDemandPublisher = False\<rparr>"

definition conf_on_demand_camera :: PathConf where
  "conf_on_demand_camera =
     conf_example\<lparr>Source := ''rtsp://camera/stream'', SourceOnDemand := True,
                  HasStaticSource := True, HasOnDemandStaticSource := True\<rparr>"

definition conf_camera :: PathConf where
  "conf_camera = conf_example\<lparr>Source := ''rtsp://camera/stream'', HasStaticSource := True\<rparr>"

definition conf_fallback :: PathConf where
  "conf_fallback = conf_example\<lparr>Fallback := ''/other''\<rparr>"

definition conf_regexp :: PathConf where
  "conf_regexp = conf_example\<lparr>Regexp := Some ''~^live/(.+)$''\<rparr>"

definition describe_req_example :: pathDescribeReq where
  "describe_req_example =
     \<lparr>describe_url = \<lparr>Scheme = ''rtsp'', User = None, Host = ''host:8554'', Path = ''/cam''\<rparr>,
      describe_res = 1\<rparr>"

definition publisher_add_example :: pathPublisherAddReq where
  "publisher_add_example = \<lparr>publisher_author = 2, publisher_res = 7\<rparr>"

text \<open>A path with a publisher, a stream and two readers.\<close>

definition path_publishing :: path where
  "path_publishing =
     (newPath conf_example ''live'')
       \<lparr>source := Some (SourcePublisher 1), stream := Some 5, readers := {3, 4}\<rparr>"

text \<open>The same path, with the override disabled.\<close>

definition path_publishing_no_override :: path where
  "path_publishing_no_override =
     path_publishing\<lparr>conf := conf_example\<lparr>DisablePublisherOverride := True\<rparr>\<rparr>"

section \<open>Where a publisher is bound\<close>

text \<open>A publisher is bound only to a path that is configured for publishers.\<close>

definition publisher_bound_ok :: "path \<Rightarrow> bool" where
  "publisher_bound_ok pa =
     (case source pa of
        Some (SourcePublisher p) \<Rightarrow> Source (conf pa) = ''publisher''
      | _ \<Rightarrow> True)"

text \<open>The path manager reloads the configuration of a running path only when
  \<^verbatim>\<open>pathConfCanBeUpdated\<close> holds, that is when the new configuration is the old one in all but
  the settings of the Raspberry Pi camera; otherwise it closes the path. So a reload that reaches
  the loop keeps \<^verbatim>\<open>Source\<close>.\<close>

definition keeps_Source :: "string \<Rightarrow> event \<Rightarrow> bool" where
  "keeps_Source s ev = (case ev of ReloadConf newConf \<Rightarrow> Source newConf = s | _ \<Rightarrow> True)"

section \<open>The events after which the loop checks shouldClose\<close>

definition checks_shouldClose :: "event \<Rightarrow> bool" where
  "checks_shouldClose ev =
     (case ev of
        OnDemandStaticSourceReadyTimer \<Rightarrow> True
      | OnDemandStaticSourceCloseTimer \<Rightarrow> True
      | OnDemandPublisherReadyTimer \<Rightarrow> True
      | OnDemandPublisherCloseTimer \<Rightarrow> True
      | SourceStaticSetNotReady res \<Rightarrow> True
      | Describe req \<Rightarrow> True
      | PublisherRemove author res \<Rightarrow> True
      | PublisherStop author res \<Rightarrow> True
      | ReaderAdd req \<Rightarrow> True
      | _ \<Rightarrow> False)"

text \<open>A reload that keeps the entry one with a static name.\<close>

definition keeps_static_name :: "event \<Rightarrow> bool" where
  "keeps_static_name ev = (case ev of ReloadConf newConf \<Rightarrow> Regexp newConf = None | _ \<Rightarrow> True)"

text \<open>The response to a describe request when no one is publishing.\<close>

definition no_one_publishing_res :: "string \<Rightarrow> effect" where
  "no_one_publishing_res nm =
     SendDescribeRes 1
       \<lparr>describe_stream = None, describe_redirect = [],
        describe_err = Some (pathErrNoOnePublishing nm)\<rparr>"

section \<open>The remux functions compute the canonical rule\<close>

lemma h264_idr_not_removed: "h264_is_idr nalu \<Longrightarrow> \<not> h264_is_parameter_or_aud nalu"
  by (cases nalu) (auto simp: h264_is_idr_def h264_is_parameter_or_aud_def h264_NALUTypeIDR_def
      h264_NALUTypeSPS_def h264_NALUTypePPS_def h264_NALUTypeAccessUnitDelimiter_def)

lemma h264_remux_count_eq:
  "[] \<notin> set au \<Longrightarrow>
   h264_remux_count f au k n =
     Inr (k \<or> list_ex h264_is_idr (h264_remaining au),
          n + length (h264_remaining au)
            + (if \<not> k \<and> list_ex h264_is_idr (h264_remaining au)
                  \<and> h264_SPS f \<noteq> None \<and> h264_PPS f \<noteq> None then 2 else 0))"
proof (induction au arbitrary: k n)
  case Nil
  then show ?case by (simp add: h264_remaining_def)
next
  case (Cons nalu au)
  then obtain b bs where nalu: "nalu = b # bs" by (cases nalu) auto
  from Cons.prems have ne: "[] \<notin> set au" by auto
  note IH = Cons.IH [OF ne]
  show ?case
    unfolding nalu
    by (simp add: IH Let_def h264_remaining_def h264_is_parameter_or_aud_def h264_is_idr_def
        h264_NALUTypeIDR_def h264_NALUTypeSPS_def h264_NALUTypePPS_def
        h264_NALUTypeAccessUnitDelimiter_def)
qed

lemma store_take_drop:
  "i < length xs \<Longrightarrow> store xs i v = Inr (take i xs @ v # drop (Suc i) xs)"
  by (simp add: store_def upd_conv_take_nth_drop)

lemma h264_remux_fill_eq:
  "[] \<notin> set au \<Longrightarrow> i + length (h264_remaining au) \<le> length out \<Longrightarrow>
   h264_remux_fill au out i =
     Inr (take i out @ h264_remaining au @ drop (i + length (h264_remaining au)) out)"
proof (induction au arbitrary: out i)
  case Nil
  then show ?case by (simp add: h264_remaining_def)
next
  case (Cons nalu au)
  then obtain b bs where nalu: "nalu = b # bs" by (cases nalu) auto
  from Cons.prems have ne: "[] \<notin> set au" by auto
  show ?case
  proof (cases "h264_is_parameter_or_aud nalu")
    case True
    then have rem: "h264_remaining (nalu # au) = h264_remaining au"
      by (simp add: h264_remaining_def)
    from True have "h264_remux_fill (nalu # au) out i = h264_remux_fill au out i"
      unfolding nalu by (auto simp: h264_is_parameter_or_aud_def Let_def)
    with Cons.IH [OF ne, of i out] Cons.prems(2) rem show ?thesis by simp
  next
    case False
    then have rem: "h264_remaining (nalu # au) = nalu # h264_remaining au"
      by (simp add: h264_remaining_def)
    with Cons.prems(2) have i: "i < length out"
      and le: "Suc i + length (h264_remaining au) \<le> length (take i out @ nalu # drop (Suc i) out)"
      by auto
    from False i have "h264_remux_fill (nalu # au) out i
        = h264_remux_fill au (take i out @ nalu # drop (Suc i) out) (Suc i)"
      unfolding nalu by (auto simp: h264_is_parameter_or_aud_def Let_def store_take_drop)
    also have "\<dots> = Inr (take (Suc i) (take i out @ nalu # drop (Suc i) out) @ h264_remaining au
          @ drop (Suc i + length (h264_remaining au)) (take i out @ nalu # drop (Suc i) out))"
      by (rule Cons.IH [OF ne le])
    also have "take (Suc i) (take i out @ nalu # drop (Suc i) out) = take i out @ [nalu]"
      using i by simp
    also have "drop (Suc i + length (h264_remaining au)) (take i out @ nalu # drop (Suc i) out)
        = drop (i + length (h264_remaining (nalu # au))) out"
      using i by (simp add: rem add.commute)
    finally show ?thesis by (simp add: rem)
  qed
qed

lemma h264_remux_refines:
  "[] \<notin> set au \<Longrightarrow> h264_remuxAccessUnit f au = Inr (h264_remux_spec f au)"
proof -
  assume ne: "[] \<notin> set au"
  let ?r = "h264_remaining au"
  show ?thesis
  proof (cases "list_ex h264_is_idr ?r \<and> h264_SPS f \<noteq> None \<and> h264_PPS f \<noteq> None")
    case True
    then obtain s p where sp: "h264_SPS f = Some s" "h264_PPS f = Some p" by auto
    from True have r: "?r \<noteq> []" by auto
    have fill: "h264_remux_fill au (s # p # replicate (length ?r) []) 2 = Inr (s # p # ?r)"
      using h264_remux_fill_eq [OF ne, of 2 "s # p # replicate (length ?r) []"] by simp
    show ?thesis
      using True r fill
      by (simp add: h264_remuxAccessUnit_def h264_remux_count_eq [OF ne] h264_remux_spec_def sp
          store_def Let_def)
  next
    case False
    have fill: "h264_remux_fill au (replicate (length ?r) []) 0 = Inr ?r"
      using h264_remux_fill_eq [OF ne, of 0 "replicate (length ?r) []"] by simp
    show ?thesis
      using False fill
      by (auto simp add: h264_remuxAccessUnit_def h264_remux_count_eq [OF ne] h264_remux_spec_def
          store_def Let_def)
  qed
qed

lemma h265_key_not_removed: "h265_is_key nalu \<Longrightarrow> \<not> h265_is_parameter_or_aud nalu"
  by (cases nalu) (auto simp: h265_is_key_def h265_is_parameter_or_aud_def h265_NALUType_IDR_W_RADL_def h265_NALUType_IDR_N_LP_def h265_NALUType_CRA_NUT_def
      h265_NALUType_VPS_NUT_def h265_NALUType_SPS_NUT_def h265_NALUType_PPS_NUT_def h265_NALUType_AUD_NUT_def)

lemma h265_remux_count_eq:
  "[] \<notin> set au \<Longrightarrow>
   h265_remux_count f au k n =
     Inr (k \<or> list_ex h265_is_key (h265_remaining au),
          n + length (h265_remaining au)
            + (if \<not> k \<and> list_ex h265_is_key (h265_remaining au)
                  \<and> h265_VPS f \<noteq> None \<and> h265_SPS f \<noteq> None \<and> h265_PPS f \<noteq> None then 3 else 0))"
proof (induction au arbitrary: k n)
  case Nil
  then show ?case by (simp add: h265_remaining_def)
next
  case (Cons nalu au)
  then obtain b bs where nalu: "nalu = b # bs" by (cases nalu) auto
  from Cons.prems have ne: "[] \<notin> set au" by auto
  note IH = Cons.IH [OF ne]
  show ?case
    unfolding nalu
    by (simp add: IH Let_def h265_remaining_def h265_is_parameter_or_aud_def h265_is_key_def
        h265_NALUType_IDR_W_RADL_def h265_NALUType_IDR_N_LP_def h265_NALUType_CRA_NUT_def h265_NALUType_VPS_NUT_def h265_NALUType_SPS_NUT_def h265_NALUType_PPS_NUT_def
        h265_NALUType_AUD_NUT_def)
qed

lemma h265_remux_fill_eq:
  "[] \<notin> set au \<Longrightarrow> i + length (h265_remaining au) \<le> length out \<Longrightarrow>
   h265_remux_fill au out i =
     Inr (take i out @ h265_remaining au @ drop (i + length (h265_remaining au)) out)"
proof (induction au arbitrary: out i)
  case Nil
  then show ?case by (simp add: h265_remaining_def)
next
  case (Cons nalu au)
  then obtain b bs where nalu: "nalu = b # bs" by (cases nalu) auto
  from Cons.prems have ne: "[] \<notin> set au" by auto
  show ?case
  proof (cases "h265_is_parameter_or_aud nalu")
    case True
    then have rem: "h265_remaining (nalu # au) = h265_remaining au"
      by (simp add: h265_remaining_def)
    from True have "h265_remux_fill (nalu # au) out i = h265_remux_fill au out i"
      unfolding nalu by (auto simp: h265_is_parameter_or_aud_def Let_def)
    with Cons.IH [OF ne, of i out] Cons.prems(2) rem show ?thesis by simp
  next
    case False
    then have rem: "h265_remaining (nalu # au) = nalu # h265_remaining au"
      by (simp add: h265_remaining_def)
    with Cons.prems(2) have i: "i < length out"
      and le: "Suc i + length (h265_remaining au) \<le> length (take i out @ nalu # drop (Suc i) out)"
      by auto
    from False i have "h265_remux_fill (nalu # au) out i
        = h265_remux_fill au (take i out @ nalu # drop (Suc i) out) (Suc i)"
      unfolding nalu by (auto simp: h265_is_parameter_or_aud_def Let_def store_take_drop)
    also have "\<dots> = Inr (take (Suc i) (take i out @ nalu # drop (Suc i) out) @ h265_remaining au
          @ drop (Suc i + length (h265_remaining au)) (take i out @ nalu # drop (Suc i) out))"
      by (rule Cons.IH [OF ne le])
    also have "take (Suc i) (take i out @ nalu # drop (Suc i) out) = take i out @ [nalu]"
      using i by simp
    also have "drop (Suc i + length (h265_remaining au)) (take i out @ nalu # drop (Suc i) out)
        = drop (i + length (h265_remaining (nalu # au))) out"
      using i by (simp add: rem add.commute)
    finally show ?thesis by (simp add: rem)
  qed
qed

lemma h265_remux_refines:
  "[] \<notin> set au \<Longrightarrow> h265_remuxAccessUnit f au = Inr (h265_remux_spec f au)"
proof -
  assume ne: "[] \<notin> set au"
  let ?r = "h265_remaining au"
  show ?thesis
  proof (cases "list_ex h265_is_key ?r \<and> h265_VPS f \<noteq> None \<and> h265_SPS f \<noteq> None \<and> h265_PPS f \<noteq> None")
    case True
    then obtain v s p where sp: "h265_VPS f = Some v" "h265_SPS f = Some s" "h265_PPS f = Some p" by auto
    from True have r: "?r \<noteq> []" by auto
    have fill: "h265_remux_fill au (v # s # p # replicate (length ?r) []) 3 = Inr (v # s # p # ?r)"
      using h265_remux_fill_eq [OF ne, of 3 "v # s # p # replicate (length ?r) []"] by simp
    have rep: "(replicate (length ?r + 3) ([]::bytes))[0 := v, Suc 0 := s, 2 := p]
        = v # s # p # replicate (length ?r) []"
      by (simp add: eval_nat_numeral)
    show ?thesis
      using True r fill
      by (simp add: rep h265_remuxAccessUnit_def h265_remux_count_eq [OF ne] h265_remux_spec_def sp
          store_def Let_def)
  next
    case False
    have fill: "h265_remux_fill au (replicate (length ?r) []) 0 = Inr ?r"
      using h265_remux_fill_eq [OF ne, of 0 "replicate (length ?r) []"] by simp
    show ?thesis
      using False fill
      by (auto simp add: h265_remuxAccessUnit_def h265_remux_count_eq [OF ne] h265_remux_spec_def
          store_def Let_def)
  qed
qed

section \<open>Remuxing twice\<close>

lemma h264_remaining_idem: "h264_remaining (h264_remaining au) = h264_remaining au"
  by (simp add: h264_remaining_def)

lemma h264_remaining_nonempty: "[] \<notin> set au \<Longrightarrow> [] \<notin> set (h264_remaining au)"
  by (simp add: h264_remaining_def)

lemma h264_spec_idem:
  assumes ne: "[] \<notin> set au" and ty: "h264_params_typed f"
  shows "[] \<notin> set (elems (h264_remux_spec f au))
     \<and> h264_remux_spec f (elems (h264_remux_spec f au)) = h264_remux_spec f au"
proof (cases "list_ex h264_is_idr (h264_remaining au) \<and> h264_SPS f \<noteq> None \<and> h264_PPS f \<noteq> None")
  case True
  then obtain s p where sp: "h264_SPS f = Some s" "h264_PPS f = Some p" by auto
  from ty sp have s: "s \<noteq> []" "h264_is_parameter_or_aud s" and p: "p \<noteq> []" "h264_is_parameter_or_aud p"
    by (auto simp: h264_params_typed_def h264_is_parameter_or_aud_def split: list.splits)
  from True have r: "h264_remaining au \<noteq> []" by auto
  have out: "h264_remux_spec f au = Some (s # p # h264_remaining au)"
    using True r by (simp add: h264_remux_spec_def sp)
  have rem: "h264_remaining (s # p # h264_remaining au) = h264_remaining au"
    using s p h264_remaining_idem [of au] by (simp add: h264_remaining_def)
  show ?thesis
    using True r s p h264_remaining_nonempty [OF ne]
    by (simp add: out) (simp add: h264_remux_spec_def rem sp)
next
  case False
  then have out: "h264_remux_spec f au = (if h264_remaining au = [] then None else Some (h264_remaining au))"
    by (auto simp: h264_remux_spec_def)
  show ?thesis
  proof (cases "h264_remaining au = []")
    case True
    with out show ?thesis by (simp add: h264_remux_spec_def h264_remaining_def)
  next
    case nonempty: False
    with out False h264_remaining_nonempty [OF ne] show ?thesis
      by (auto simp: h264_remux_spec_def h264_remaining_idem)
  qed
qed

lemma h265_remaining_idem: "h265_remaining (h265_remaining au) = h265_remaining au"
  by (simp add: h265_remaining_def)

lemma h265_remaining_nonempty: "[] \<notin> set au \<Longrightarrow> [] \<notin> set (h265_remaining au)"
  by (simp add: h265_remaining_def)

lemma h265_spec_idem:
  assumes ne: "[] \<notin> set au" and ty: "h265_params_typed f"
  shows "[] \<notin> set (elems (h265_remux_spec f au))
     \<and> h265_remux_spec f (elems (h265_remux_spec f au)) = h265_remux_spec f au"
proof (cases "list_ex h265_is_key (h265_remaining au)
    \<and> h265_VPS f \<noteq> None \<and> h265_SPS f \<noteq> None \<and> h265_PPS f \<noteq> None")
  case True
  then obtain v s p where sp: "h265_VPS f = Some v" "h265_SPS f = Some s" "h265_PPS f = Some p" by auto
  from ty sp have v: "v \<noteq> []" "h265_is_parameter_or_aud v"
    and s: "s \<noteq> []" "h265_is_parameter_or_aud s" and p: "p \<noteq> []" "h265_is_parameter_or_aud p"
    by (auto simp: h265_params_typed_def h265_is_parameter_or_aud_def split: list.splits)
  from True have r: "h265_remaining au \<noteq> []" by auto
  have out: "h265_remux_spec f au = Some (v # s # p # h265_remaining au)"
    using True r by (simp add: h265_remux_spec_def sp)
  have rem: "h265_remaining (v # s # p # h265_remaining au) = h265_remaining au"
    using v s p h265_remaining_idem [of au] by (simp add: h265_remaining_def)
  show ?thesis
    using True r v s p h265_remaining_nonempty [OF ne]
    by (simp add: out) (simp add: h265_remux_spec_def rem sp)
next
  case False
  then have out: "h265_remux_spec f au = (if h265_remaining au = [] then None else Some (h265_remaining au))"
    by (auto simp: h265_remux_spec_def)
  show ?thesis
  proof (cases "h265_remaining au = []")
    case True
    with out show ?thesis by (simp add: h265_remux_spec_def h265_remaining_def)
  next
    case nonempty: False
    with out False h265_remaining_nonempty [OF ne] show ?thesis
      by (auto simp: h265_remux_spec_def h265_remaining_idem)
  qed
qed

section \<open>Parameter extraction and update\<close>

lemma h264_stapa_loop_nonempty:
  "nonempty_opt sps \<Longrightarrow> nonempty_opt pps \<Longrightarrow>
   nonempty_opt (fst (h264_stapa_loop payload sps pps))
   \<and> nonempty_opt (snd (h264_stapa_loop payload sps pps))"
proof (induction payload sps pps rule: h264_stapa_loop.induct)
  case (3 b0 b1 payload sps pps)
  let ?size = "be_uint16 b0 b1"
  show ?case
  proof (cases "?size = 0 \<or> unat ?size > length payload")
    case True
    with 3 show ?thesis by (auto simp: nonempty_opt_def Let_def)
  next
    case False
    then have sz: "?size \<noteq> 0" "\<not> unat ?size > length payload" by auto
    then have "0 < unat ?size" by (simp add: unat_gt_0)
    with sz have ne: "nonempty_opt (Some (take (unat ?size) payload))"
      by (auto simp: nonempty_opt_def)
    show ?thesis
      using sz ne "3.IH"(1)[OF refl sz refl refl refl _ ne "3.prems"(2)]
        "3.IH"(2)[OF refl sz refl refl refl _ _ "3.prems"(1) ne]
        "3.IH"(3)[OF refl sz refl refl refl _ _ "3.prems"(1) "3.prems"(2)]
      by (auto simp: Let_def)
  qed
qed simp_all

lemma h265_ap_loop_nonempty:
  "nonempty_opt vps \<Longrightarrow> nonempty_opt sps \<Longrightarrow> nonempty_opt pps \<Longrightarrow>
   nonempty_opt (fst (h265_ap_loop pp payload vps sps pps))
   \<and> nonempty_opt (fst (snd (h265_ap_loop pp payload vps sps pps)))
   \<and> nonempty_opt (snd (snd (h265_ap_loop pp payload vps sps pps)))"
proof (induction pp payload vps sps pps rule: h265_ap_loop.induct)
  case (3 pp b0 b1 payload vps sps pps)
  let ?size = "be_uint16 b0 b1"
  show ?case
  proof (cases "?size = 0 \<or> unat ?size > length payload")
    case True
    with 3 show ?thesis by (auto simp: nonempty_opt_def Let_def)
  next
    case False
    then have sz: "?size \<noteq> 0" "\<not> unat ?size > length payload" by auto
    then have "0 < unat ?size" by (simp add: unat_gt_0)
    with sz have ne: "nonempty_opt (Some (take (unat ?size) payload))"
      by (auto simp: nonempty_opt_def)
    show ?thesis
      using sz ne "3.IH"(1)[OF refl sz refl refl refl _ ne "3.prems"(2) "3.prems"(3)]
        "3.IH"(2)[OF refl sz refl refl refl _ _ "3.prems"(1) ne "3.prems"(3)]
        "3.IH"(3)[OF refl sz refl refl refl _ _ _ "3.prems"(1) "3.prems"(2) ne]
        "3.IH"(4)[OF refl sz refl refl refl _ _ _ "3.prems"(1) "3.prems"(2) "3.prems"(3)]
      by (auto simp: Let_def)
  qed
qed simp_all

lemma rtpH264Extract_nonempty:
  "nonempty_opt (fst (rtpH264ExtractSPSPPS pkt)) \<and> nonempty_opt (snd (rtpH264ExtractSPSPPS pkt))"
  using h264_stapa_loop_nonempty [of None None "drop 1 (Payload pkt)"]
  by (auto simp: rtpH264ExtractSPSPPS_def nonempty_opt_def Let_def)

lemma rtpH265Extract_nonempty:
  "nonempty_opt (fst (rtpH265ExtractVPSSPSPPS pkt))
   \<and> nonempty_opt (fst (snd (rtpH265ExtractVPSSPSPPS pkt)))
   \<and> nonempty_opt (snd (snd (rtpH265ExtractVPSSPSPPS pkt)))"
  using h265_ap_loop_nonempty [of None None None "Payload pkt" "drop 2 (Payload pkt)"]
  by (auto simp: rtpH265ExtractVPSSPSPPS_def nonempty_opt_def Let_def)

lemma bytes_Equal_Some_iff:
  "s \<noteq> [] \<Longrightarrow> bytes_Equal (Some s) x \<longleftrightarrow> x = Some s"
  by (cases x) (auto simp: bytes_Equal_def)

lemma h264_updateRTP_eq:
  "h264_SPS (h264_updateTrackParametersFromRTPPacket f pkt)
     = observed_or (fst (rtpH264ExtractSPSPPS pkt)) (h264_SPS f)
   \<and> h264_PPS (h264_updateTrackParametersFromRTPPacket f pkt)
     = observed_or (snd (rtpH264ExtractSPSPPS pkt)) (h264_PPS f)"
proof -
  obtain sps pps where e: "rtpH264ExtractSPSPPS pkt = (sps, pps)" by (cases "rtpH264ExtractSPSPPS pkt")
  from rtpH264Extract_nonempty [of pkt] e have ne: "nonempty_opt sps" "nonempty_opt pps" by auto
  show ?thesis
    using ne
    by (cases sps; cases pps)
       (auto simp: h264_updateTrackParametersFromRTPPacket_def e observed_or_def nonempty_opt_def
          h264_SafeSetParams_def bytes_Equal_Some_iff)
qed

lemma h265_updateRTP_eq:
  "h265_VPS (h265_updateTrackParametersFromRTPPacket f pkt)
     = observed_or (fst (rtpH265ExtractVPSSPSPPS pkt)) (h265_VPS f)
   \<and> h265_SPS (h265_updateTrackParametersFromRTPPacket f pkt)
     = observed_or (fst (snd (rtpH265ExtractVPSSPSPPS pkt))) (h265_SPS f)
   \<and> h265_PPS (h265_updateTrackParametersFromRTPPacket f pkt)
     = observed_or (snd (snd (rtpH265ExtractVPSSPSPPS pkt))) (h265_PPS f)"
proof -
  obtain vps sps pps where e: "rtpH265ExtractVPSSPSPPS pkt = (vps, sps, pps)"
    by (cases "rtpH265ExtractVPSSPSPPS pkt")
  from rtpH265Extract_nonempty [of pkt] e
  have ne: "nonempty_opt vps" "nonempty_opt sps" "nonempty_opt pps" by auto
  show ?thesis
    using ne
    by (cases vps; cases sps; cases pps)
       (auto simp: h265_updateTrackParametersFromRTPPacket_def e observed_or_def nonempty_opt_def
          h265_SafeSetParams_def bytes_Equal_Some_iff)
qed

lemma last_or_Cons: "last_or (x # xs) stored = last_or xs (Some x)"
  by (cases xs) (simp_all add: last_or_def)

lemma h264_updateAU_loop_eq:
  "[] \<notin> set au \<Longrightarrow>
   \<exists>u'. h264_updateAU_loop au sps pps u
       = Inr (last_or (filter h264_is_sps au) sps, last_or (filter h264_is_pps au) pps, u')
     \<and> (u \<longrightarrow> u')
     \<and> (\<not> u' \<longrightarrow> last_or (filter h264_is_sps au) sps = sps \<and> last_or (filter h264_is_pps au) pps = pps)"
proof (induction au arbitrary: sps pps u)
  case Nil
  then show ?case by (simp add: last_or_def)
next
  case (Cons nalu au)
  then obtain b bs where nalu: "nalu = b # bs" by (cases nalu) auto
  from Cons.prems have ne: "[] \<notin> set au" by auto
  have d: "h264_NALUTypeSPS \<noteq> h264_NALUTypePPS"
    by (simp add: h264_NALUTypeSPS_def h264_NALUTypePPS_def)
  consider (sps) "h264_is_sps nalu" "\<not> h264_is_pps nalu" | (pps) "h264_is_pps nalu" "\<not> h264_is_sps nalu"
    | (other) "\<not> h264_is_sps nalu" "\<not> h264_is_pps nalu"
    using d by (auto simp: nalu h264_is_sps_def h264_is_pps_def)
  then show ?case
  proof cases
    case sps
    show ?thesis
    proof (cases "bytes_Equal (Some nalu) sps")
      case True
      then have eq: "sps = Some nalu" by (simp add: nalu bytes_Equal_Some_iff)
      from Cons.IH [OF ne, of sps pps u] sps True show ?thesis
        unfolding nalu by (auto simp: h264_is_sps_def h264_is_pps_def last_or_Cons eq [unfolded nalu] Let_def)
    next
      case False
      from Cons.IH [OF ne, of "Some nalu" pps True] sps False show ?thesis
        unfolding nalu by (auto simp: h264_is_sps_def h264_is_pps_def last_or_Cons Let_def)
    qed
  next
    case pps
    show ?thesis
    proof (cases "bytes_Equal (Some nalu) pps")
      case True
      then have eq: "pps = Some nalu" by (simp add: nalu bytes_Equal_Some_iff)
      from Cons.IH [OF ne, of sps pps u] pps True show ?thesis
        unfolding nalu by (auto simp: h264_is_sps_def h264_is_pps_def last_or_Cons eq [unfolded nalu] Let_def)
    next
      case False
      from Cons.IH [OF ne, of sps "Some nalu" True] pps False show ?thesis
        unfolding nalu by (auto simp: h264_is_sps_def h264_is_pps_def last_or_Cons Let_def)
    qed
  next
    case other
    from Cons.IH [OF ne, of sps pps u] other show ?thesis
      unfolding nalu by (auto simp: h264_is_sps_def h264_is_pps_def Let_def)
  qed
qed

lemma h264_updateAU_eq:
  assumes "[] \<notin> set au"
  shows "\<exists>f'. h264_updateTrackParametersFromAU f au = Inr f'
     \<and> h264_SPS f' = last_or (filter h264_is_sps au) (h264_SPS f)
     \<and> h264_PPS f' = last_or (filter h264_is_pps au) (h264_PPS f)"
proof -
  from h264_updateAU_loop_eq [OF assms, of "h264_SPS f" "h264_PPS f" False]
  obtain u' where l: "h264_updateAU_loop au (h264_SPS f) (h264_PPS f) False
       = Inr (last_or (filter h264_is_sps au) (h264_SPS f), last_or (filter h264_is_pps au) (h264_PPS f), u')"
    and u: "\<not> u' \<longrightarrow> last_or (filter h264_is_sps au) (h264_SPS f) = h264_SPS f
        \<and> last_or (filter h264_is_pps au) (h264_PPS f) = h264_PPS f"
    by auto
  show ?thesis
    using u by (cases u') (simp_all add: h264_updateTrackParametersFromAU_def l h264_SafeSetParams_def)
qed

lemma h265_updateAU_loop_eq:
  "[] \<notin> set au \<Longrightarrow>
   \<exists>u'. h265_updateAU_loop f au vps sps pps u
       = Inr (last_or (h265_differing h265_is_vps (h265_VPS f) au) vps,
              last_or (h265_differing h265_is_sps (h265_SPS f) au) sps,
              last_or (h265_differing h265_is_pps (h265_PPS f) au) pps, u')
     \<and> (u \<longrightarrow> u')
     \<and> (\<not> u' \<longrightarrow> h265_differing h265_is_vps (h265_VPS f) au = []
                \<and> h265_differing h265_is_sps (h265_SPS f) au = []
                \<and> h265_differing h265_is_pps (h265_PPS f) au = [])"
proof (induction au arbitrary: vps sps pps u)
  case Nil
  then show ?case by (simp add: last_or_def h265_differing_def)
next
  case (Cons nalu au)
  then obtain b bs where nalu: "nalu = b # bs" by (cases nalu) auto
  from Cons.prems have ne: "[] \<notin> set au" by auto
  have d: "h265_NALUType_VPS_NUT \<noteq> h265_NALUType_SPS_NUT" "h265_NALUType_VPS_NUT \<noteq> h265_NALUType_PPS_NUT"
    "h265_NALUType_SPS_NUT \<noteq> h265_NALUType_PPS_NUT"
    by (simp_all add: h265_NALUType_VPS_NUT_def h265_NALUType_SPS_NUT_def h265_NALUType_PPS_NUT_def)
  consider (vps) "h265_is_vps nalu" "\<not> h265_is_sps nalu" "\<not> h265_is_pps nalu"
    | (sps) "h265_is_sps nalu" "\<not> h265_is_vps nalu" "\<not> h265_is_pps nalu"
    | (pps) "h265_is_pps nalu" "\<not> h265_is_vps nalu" "\<not> h265_is_sps nalu"
    | (other) "\<not> h265_is_vps nalu" "\<not> h265_is_sps nalu" "\<not> h265_is_pps nalu"
    using d by (auto simp: nalu h265_is_vps_def h265_is_sps_def h265_is_pps_def)
  then show ?case
  proof cases
    case vps
    show ?thesis
    proof (cases "bytes_Equal (Some nalu) (h265_VPS f)")
      case True
      from Cons.IH [OF ne, of vps sps pps u] vps True show ?thesis
        unfolding nalu
        by (auto simp: h265_is_vps_def h265_is_sps_def h265_is_pps_def h265_differing_def Let_def)
    next
      case False
      from Cons.IH [OF ne, of "Some nalu" sps pps True] vps False show ?thesis
        unfolding nalu
        by (auto simp: h265_is_vps_def h265_is_sps_def h265_is_pps_def h265_differing_def
            last_or_Cons Let_def)
    qed
  next
    case sps
    show ?thesis
    proof (cases "bytes_Equal (Some nalu) (h265_SPS f)")
      case True
      from Cons.IH [OF ne, of vps sps pps u] sps True show ?thesis
        unfolding nalu
        by (auto simp: h265_is_vps_def h265_is_sps_def h265_is_pps_def h265_differing_def Let_def)
    next
      case False
      from Cons.IH [OF ne, of vps "Some nalu" pps True] sps False show ?thesis
        unfolding nalu
        by (auto simp: h265_is_vps_def h265_is_sps_def h265_is_pps_def h265_differing_def
            last_or_Cons Let_def)
    qed
  next
    case pps
    show ?thesis
    proof (cases "bytes_Equal (Some nalu) (h265_PPS f)")
      case True
      from Cons.IH [OF ne, of vps sps pps u] pps True show ?thesis
        unfolding nalu
        by (auto simp: h265_is_vps_def h265_is_sps_def h265_is_pps_def h265_differing_def Let_def)
    next
      case False
      from Cons.IH [OF ne, of vps sps "Some nalu" True] pps False show ?thesis
        unfolding nalu
        by (auto simp: h265_is_vps_def h265_is_sps_def h265_is_pps_def h265_differing_def
            last_or_Cons Let_def)
    qed
  next
    case other
    from Cons.IH [OF ne, of vps sps pps u] other show ?thesis
      unfolding nalu
      by (auto simp: h265_is_vps_def h265_is_sps_def h265_is_pps_def h265_differing_def Let_def)
  qed
qed

lemma h265_updateAU_eq:
  assumes "[] \<notin> set au"
  shows "\<exists>f'. h265_updateTrackParametersFromAU f au = Inr f'
     \<and> h265_VPS f' = last_or (h265_differing h265_is_vps (h265_VPS f) au) (h265_VPS f)
     \<and> h265_SPS f' = last_or (h265_differing h265_is_sps (h265_SPS f) au) (h265_SPS f)
     \<and> h265_PPS f' = last_or (h265_differing h265_is_pps (h265_PPS f) au) (h265_PPS f)"
proof -
  from h265_updateAU_loop_eq [OF assms, of f "h265_VPS f" "h265_SPS f" "h265_PPS f" False]
  obtain u' where l: "h265_updateAU_loop f au (h265_VPS f) (h265_SPS f) (h265_PPS f) False
       = Inr (last_or (h265_differing h265_is_vps (h265_VPS f) au) (h265_VPS f),
              last_or (h265_differing h265_is_sps (h265_SPS f) au) (h265_SPS f),
              last_or (h265_differing h265_is_pps (h265_PPS f) au) (h265_PPS f), u')"
    and u: "\<not> u' \<longrightarrow> h265_differing h265_is_vps (h265_VPS f) au = []
                \<and> h265_differing h265_is_sps (h265_SPS f) au = []
                \<and> h265_differing h265_is_pps (h265_PPS f) au = []"
    by auto
  show ?thesis
    using u
    by (cases u') (simp_all add: h265_updateTrackParametersFromAU_def l h265_SafeSetParams_def last_or_def)
qed

lemma observed_or_replaced:
  "replaced_only_by_observed stored (observed_or x stored) (case x of None \<Rightarrow> [] | Some s \<Rightarrow> [s])"
  by (cases x) (auto simp: replaced_only_by_observed_def observed_or_def)

lemma last_or_replaced:
  "replaced_only_by_observed stored (last_or (filter P au) stored) (filter P au)"
proof (cases "filter P au")
  case Nil
  then show ?thesis by (simp add: replaced_only_by_observed_def last_or_def)
next
  case (Cons a as)
  then have "last (filter P au) \<in> set (filter P au)" by (metis last_in_set list.distinct(1))
  with Cons show ?thesis
    by (auto simp: replaced_only_by_observed_def last_or_def simp del: set_filter)
qed

lemma last_or_differing_replaced:
  "replaced_only_by_observed stored (last_or (h265_differing P stored au) stored) (filter P au)"
proof (cases "h265_differing P stored au")
  case Nil
  then show ?thesis by (simp add: replaced_only_by_observed_def last_or_def)
next
  case (Cons a as)
  then have "last (h265_differing P stored au) \<in> set (h265_differing P stored au)"
    by (metis last_in_set list.distinct(1))
  then have "last (h265_differing P stored au) \<in> set (filter P au)"
    and "\<not> bytes_Equal (Some (last (h265_differing P stored au))) stored"
    by (auto simp: h265_differing_def)
  moreover have "\<And>s. \<not> bytes_Equal (Some s) stored \<Longrightarrow> Some s \<noteq> stored"
    by (auto simp: bytes_Equal_def)
  ultimately show ?thesis
    using Cons by (auto simp: replaced_only_by_observed_def last_or_def simp del: set_filter)
qed

lemma replaced_not_nil:
  "replaced_only_by_observed stored stored' observed \<Longrightarrow> stored \<noteq> None \<longrightarrow> stored' \<noteq> None"
  by (simp add: replaced_only_by_observed_def)

lemma h264_update_step:
  assumes "input_wf x"
  shows "\<exists>f'. h264_update f x = Inr f'
     \<and> replaced_only_by_observed (h264_SPS f) (h264_SPS f') (h264_observed_SPS x)
     \<and> replaced_only_by_observed (h264_PPS f) (h264_PPS f') (h264_observed_PPS x)"
proof (cases x)
  case (FromRTPPacket pkt)
  then show ?thesis
    using h264_updateRTP_eq [of f pkt] by (simp add: observed_or_replaced)
next
  case (FromAU au)
  with assms have "[] \<notin> set au" by simp
  from h264_updateAU_eq [OF this, of f] obtain f' where
    a: "h264_updateTrackParametersFromAU f au = Inr f'"
    and b: "h264_SPS f' = last_or (filter h264_is_sps au) (h264_SPS f)"
    and c: "h264_PPS f' = last_or (filter h264_is_pps au) (h264_PPS f)"
    by blast
  show ?thesis
    unfolding FromAU by (simp add: a b c last_or_replaced)
qed

lemma h265_update_step:
  assumes "input_wf x"
  shows "\<exists>g'. h265_update g x = Inr g'
     \<and> replaced_only_by_observed (h265_VPS g) (h265_VPS g') (h265_observed_VPS x)
     \<and> replaced_only_by_observed (h265_SPS g) (h265_SPS g') (h265_observed_SPS x)
     \<and> replaced_only_by_observed (h265_PPS g) (h265_PPS g') (h265_observed_PPS x)"
proof (cases x)
  case (FromRTPPacket pkt)
  then show ?thesis
    using h265_updateRTP_eq [of g pkt] by (simp add: observed_or_replaced)
next
  case (FromAU au)
  with assms have "[] \<notin> set au" by simp
  from h265_updateAU_eq [OF this, of g] obtain g' where
    a: "h265_updateTrackParametersFromAU g au = Inr g'"
    and b: "h265_VPS g' = last_or (h265_differing h265_is_vps (h265_VPS g) au) (h265_VPS g)"
    and c: "h265_SPS g' = last_or (h265_differing h265_is_sps (h265_SPS g) au) (h265_SPS g)"
    and d: "h265_PPS g' = last_or (h265_differing h265_is_pps (h265_PPS g) au) (h265_PPS g)"
    by blast
  show ?thesis
    unfolding FromAU by (simp add: a b c d last_or_differing_replaced)
qed

lemma h264_updates_never_nil:
  "\<forall>x\<in>set xs. input_wf x \<Longrightarrow>
   \<exists>f'. h264_updates f xs = Inr f'
     \<and> (h264_SPS f \<noteq> None \<longrightarrow> h264_SPS f' \<noteq> None)
     \<and> (h264_PPS f \<noteq> None \<longrightarrow> h264_PPS f' \<noteq> None)"
proof (induction xs arbitrary: f)
  case Nil
  then show ?case by simp
next
  case (Cons x xs)
  then have wf: "input_wf x" and rest: "\<forall>x\<in>set xs. input_wf x" by simp_all
  from h264_update_step [OF wf, of f] obtain f1 where
    s: "h264_update f x = Inr f1"
    and r1: "replaced_only_by_observed (h264_SPS f) (h264_SPS f1) (h264_observed_SPS x)"
    and r2: "replaced_only_by_observed (h264_PPS f) (h264_PPS f1) (h264_observed_PPS x)"
    by blast
  from Cons.IH [OF rest, of f1] obtain f' where
    t: "h264_updates f1 xs = Inr f'"
    and m1: "h264_SPS f1 \<noteq> None \<longrightarrow> h264_SPS f' \<noteq> None"
    and m2: "h264_PPS f1 \<noteq> None \<longrightarrow> h264_PPS f' \<noteq> None"
    by blast
  show ?case
    using replaced_not_nil [OF r1] replaced_not_nil [OF r2] m1 m2 by (simp add: s t)
qed

lemma h265_updates_never_nil:
  "\<forall>x\<in>set xs. input_wf x \<Longrightarrow>
   \<exists>g'. h265_updates g xs = Inr g'
     \<and> (h265_VPS g \<noteq> None \<longrightarrow> h265_VPS g' \<noteq> None)
     \<and> (h265_SPS g \<noteq> None \<longrightarrow> h265_SPS g' \<noteq> None)
     \<and> (h265_PPS g \<noteq> None \<longrightarrow> h265_PPS g' \<noteq> None)"
proof (induction xs arbitrary: g)
  case Nil
  then show ?case by simp
next
  case (Cons x xs)
  then have wf: "input_wf x" and rest: "\<forall>x\<in>set xs. input_wf x" by simp_all
  from h265_update_step [OF wf, of g] obtain g1 where
    s: "h265_update g x = Inr g1"
    and r1: "replaced_only_by_observed (h265_VPS g) (h265_VPS g1) (h265_observed_VPS x)"
    and r2: "replaced_only_by_observed (h265_SPS g) (h265_SPS g1) (h265_observed_SPS x)"
    and r3: "replaced_only_by_observed (h265_PPS g) (h265_PPS g1) (h265_observed_PPS x)"
    by blast
  from Cons.IH [OF rest, of g1] obtain g' where
    t: "h265_updates g1 xs = Inr g'"
    and m1: "h265_VPS g1 \<noteq> None \<longrightarrow> h265_VPS g' \<noteq> None"
    and m2: "h265_SPS g1 \<noteq> None \<longrightarrow> h265_SPS g' \<noteq> None"
    and m3: "h265_PPS g1 \<noteq> None \<longrightarrow> h265_PPS g' \<noteq> None"
    by blast
  show ?case
    using replaced_not_nil [OF r1] replaced_not_nil [OF r2] replaced_not_nil [OF r3] m1 m2 m3
    by (simp add: s t)
qed

section \<open>The claims about the format processors\<close>

lemmas nalu_type_defs =
  h264_NALUType_def h264_NALUTypeIDR_def h264_NALUTypeSPS_def h264_NALUTypePPS_def
  h264_NALUTypeAccessUnitDelimiter_def h264_NALUTypeSTAPA_def
  h265_NALUType_def h265_NALUType_IDR_W_RADL_def h265_NALUType_IDR_N_LP_def
  h265_NALUType_CRA_NUT_def h265_NALUType_VPS_NUT_def h265_NALUType_SPS_NUT_def
  h265_NALUType_PPS_NUT_def h265_NALUType_AUD_NUT_def h265_NALUType_AggregationUnit_def

lemmas nalu_kind_defs =
  h264_is_parameter_or_aud_def h264_is_idr_def h264_is_sps_def h264_is_pps_def
  h265_is_parameter_or_aud_def h265_is_key_def h265_is_vps_def h265_is_sps_def h265_is_pps_def

lemma h264_Process_nothing_remains:
  assumes ne: "[] \<notin> set (elems (AU tunit))" and no: "RTPPackets tunit = None"
    and em: "h264_remaining (elems (AU tunit)) = []"
  shows "\<exists>t'. h264_Process lib t tunit hasNonRTSPReaders
     = Inr (t', tunit\<lparr>AU := None, RTPPackets := None\<rparr>, None)"
proof -
  from h264_updateAU_eq [OF ne, of "format t"] obtain f' where
    u: "h264_updateTrackParametersFromAU (format t) (elems (AU tunit)) = Inr f'"
    by blast
  have r: "h264_remuxAccessUnit f' (elems (AU tunit)) = Inr None"
    using h264_remux_refines [OF ne, of f'] em by (simp add: h264_remux_spec_def)
  show ?thesis
    using no by (simp add: h264_Process_def u r h264_encode_into_RTP_def Let_def)
qed

lemma h265_Process_nothing_remains:
  assumes ne: "[] \<notin> set (elems (AU tunit))" and no: "RTPPackets tunit = None"
    and em: "h265_remaining (elems (AU tunit)) = []"
  shows "\<exists>t'. h265_Process lib t tunit hasNonRTSPReaders
     = Inr (t', tunit\<lparr>AU := None, RTPPackets := None\<rparr>, None)"
proof -
  from h265_updateAU_eq [OF ne, of "format t"] obtain f' where
    u: "h265_updateTrackParametersFromAU (format t) (elems (AU tunit)) = Inr f'"
    by blast
  have r: "h265_remuxAccessUnit f' (elems (AU tunit)) = Inr None"
    using h265_remux_refines [OF ne, of f'] em by (simp add: h265_remux_spec_def)
  show ?thesis
    using no by (simp add: h265_Process_def u r h265_encode_into_RTP_def Let_def)
qed

text \<open>C1. For every access unit whose NAL units are non-empty (reading the type of an empty one
  panics), \<^verbatim>\<open>remuxAccessUnit\<close> returns the canonical form: SPS, PPS and access unit
  delimiters are removed (H.265: VPS, SPS, PPS and AUD); when one of the remaining NAL units is an
  IDR slice (H.265: IDR_W_RADL, IDR_N_LP or CRA_NUT) and the format stores SPS and PPS (H.265: VPS,
  SPS and PPS), the stored ones are prepended in that order; when nothing remains the result is
  nil, and \<^verbatim>\<open>Process\<close> of a unit with such an access unit leaves the unit without RTP
  packets.\<close>

theorem remuxAccessUnit_canonical:
  assumes "[] \<notin> set au264" and "[] \<notin> set au265"
  shows "h264_remuxAccessUnit f au264 = Inr (h264_remux_spec f au264)
     \<and> h265_remuxAccessUnit g au265 = Inr (h265_remux_spec g au265)
     \<and> (h264_remaining au264 = [] \<longrightarrow>
          (\<exists>t'. h264_Process lib4 t4 \<lparr>RTPPackets = None, NTP = ntp, PTS = pts, AU = Some au264\<rparr>
                   hasNonRTSPReaders
                 = Inr (t', \<lparr>RTPPackets = None, NTP = ntp, PTS = pts, AU = None\<rparr>, None)))
     \<and> (h265_remaining au265 = [] \<longrightarrow>
          (\<exists>t'. h265_Process lib5 t5 \<lparr>RTPPackets = None, NTP = ntp, PTS = pts, AU = Some au265\<rparr>
                   hasNonRTSPReaders
                 = Inr (t', \<lparr>RTPPackets = None, NTP = ntp, PTS = pts, AU = None\<rparr>, None)))"
proof (intro conjI impI)
  show "h264_remuxAccessUnit f au264 = Inr (h264_remux_spec f au264)"
    by (rule h264_remux_refines [OF assms(1)])
  show "h265_remuxAccessUnit g au265 = Inr (h265_remux_spec g au265)"
    by (rule h265_remux_refines [OF assms(2)])
next
  assume "h264_remaining au264 = []"
  with h264_Process_nothing_remains
    [of "\<lparr>RTPPackets = None, NTP = ntp, PTS = pts, AU = Some au264\<rparr>" lib4 t4 hasNonRTSPReaders]
    assms(1)
  show "\<exists>t'. h264_Process lib4 t4 \<lparr>RTPPackets = None, NTP = ntp, PTS = pts, AU = Some au264\<rparr>
                   hasNonRTSPReaders
                 = Inr (t', \<lparr>RTPPackets = None, NTP = ntp, PTS = pts, AU = None\<rparr>, None)"
    by simp
next
  assume "h265_remaining au265 = []"
  with h265_Process_nothing_remains
    [of "\<lparr>RTPPackets = None, NTP = ntp, PTS = pts, AU = Some au265\<rparr>" lib5 t5 hasNonRTSPReaders]
    assms(2)
  show "\<exists>t'. h265_Process lib5 t5 \<lparr>RTPPackets = None, NTP = ntp, PTS = pts, AU = Some au265\<rparr>
                   hasNonRTSPReaders
                 = Inr (t', \<lparr>RTPPackets = None, NTP = ntp, PTS = pts, AU = None\<rparr>, None)"
    by simp
qed

theorem remuxAccessUnit_canonical_witness:
  "[] \<notin> set [[0x09, 0xF0], [0x67, 9], [0x68, 8], [0x65, 3], [0x41, 4 :: byte]]
   \<and> [] \<notin> set [[0x46, 1], [0x40, 9], [0x2A, 5], [0x02, 6 :: byte]]
   \<and> h264_remuxAccessUnit h264_format_example [[0x09, 0xF0], [0x67, 9], [0x68, 8], [0x65, 3], [0x41, 4]]
       = Inr (Some [[0x67, 1], [0x68, 2], [0x65, 3], [0x41, 4]])
   \<and> h265_remuxAccessUnit h265_format_example [[0x46, 1], [0x40, 9], [0x2A, 5], [0x02, 6]]
       = Inr (Some [[0x40, 1], [0x42, 2], [0x44, 3], [0x2A, 5], [0x02, 6]])
   \<and> [] \<notin> set [[0x67, 9], [0x68, 8 :: byte]]
   \<and> [] \<notin> set [[0x40, 10, 11, 12], [0x42, 13, 14, 15], [0x44, 16, 17, 18 :: byte]]
   \<and> h264_remaining [[0x67, 9], [0x68, 8]] = []
   \<and> h265_remaining [[0x40, 10, 11, 12], [0x42, 13, 14, 15], [0x44, 16, 17, 18]] = []
   \<and> (\<exists>t'. h264_Process lib_h264_example (processor_example h264_format_example (Some encoder_example))
               \<lparr>RTPPackets = None, NTP = 0, PTS = 0, AU = Some [[0x67, 9], [0x68, 8]]\<rparr> False
             = Inr (t', \<lparr>RTPPackets = None, NTP = 0, PTS = 0, AU = None\<rparr>, None))
   \<and> (\<exists>t'. h265_Process lib_h265_example (processor_example h265_format_empty (Some encoder_example))
               \<lparr>RTPPackets = None, NTP = 0, PTS = 0,
                AU = Some [[0x40, 10, 11, 12], [0x42, 13, 14, 15], [0x44, 16, 17, 18]]\<rparr> False
             = Inr (t', \<lparr>RTPPackets = None, NTP = 0, PTS = 0, AU = None\<rparr>, None))"
proof -
  have a: "[] \<notin> set [[0x09, 0xF0], [0x67, 9], [0x68, 8], [0x65, 3], [0x41, 4 :: byte]]"
    and b: "[] \<notin> set [[0x46, 1], [0x40, 9], [0x2A, 5], [0x02, 6 :: byte]]"
    and c: "[] \<notin> set [[0x67, 9], [0x68, 8 :: byte]]"
    and d: "[] \<notin> set [[0x40, 10, 11, 12], [0x42, 13, 14, 15], [0x44, 16, 17, 18 :: byte]]"
    by simp_all
  have e: "h264_remaining [[0x67, 9], [0x68, 8]] = []"
    and f: "h265_remaining [[0x40, 10, 11, 12], [0x42, 13, 14, 15], [0x44, 16, 17, 18]] = []"
    by (simp_all add: h264_remaining_def h265_remaining_def nalu_kind_defs nalu_type_defs)
  note T1 = remuxAccessUnit_canonical [OF a b, of h264_format_example h265_format_example]
  note T2 = remuxAccessUnit_canonical [OF c d]
  have r1: "h264_remuxAccessUnit h264_format_example
        [[0x09, 0xF0], [0x67, 9], [0x68, 8], [0x65, 3], [0x41, 4]]
       = Inr (Some [[0x67, 1], [0x68, 2], [0x65, 3], [0x41, 4]])"
    using T1 [THEN conjunct1]
    by (simp add: h264_remux_spec_def h264_remaining_def nalu_kind_defs nalu_type_defs
        h264_format_example_def)
  have r2: "h265_remuxAccessUnit h265_format_example [[0x46, 1], [0x40, 9], [0x2A, 5], [0x02, 6]]
       = Inr (Some [[0x40, 1], [0x42, 2], [0x44, 3], [0x2A, 5], [0x02, 6]])"
    using T1 [THEN conjunct2, THEN conjunct1]
    by (simp add: h265_remux_spec_def h265_remaining_def nalu_kind_defs nalu_type_defs
        h265_format_example_def)
  note r3 = T2 [THEN conjunct2, THEN conjunct2, THEN conjunct1, rule_format, OF e]
  note r4 = T2 [THEN conjunct2, THEN conjunct2, THEN conjunct2, rule_format, OF f]
  from a b r1 r2 c d e f r3 r4 show ?thesis
    by (intro conjI)
qed

text \<open>C10. \<^verbatim>\<open>remuxAccessUnit\<close> is idempotent on access units of non-empty NAL units, for
  stored parameters whose first bytes encode their own types: remuxing the result again gives
  the same result, and a nil result stays nil.\<close>

theorem remuxAccessUnit_idempotent:
  assumes "[] \<notin> set au264" and "h264_params_typed f"
    and "[] \<notin> set au265" and "h265_params_typed g"
  shows "(\<exists>r. h264_remuxAccessUnit f au264 = Inr r \<and> h264_remuxAccessUnit f (elems r) = Inr r)
     \<and> (\<exists>r. h265_remuxAccessUnit g au265 = Inr r \<and> h265_remuxAccessUnit g (elems r) = Inr r)"
proof -
  from h264_spec_idem [OF assms(1,2)] h264_remux_refines [OF assms(1), of f]
    h264_remux_refines [of "elems (h264_remux_spec f au264)" f]
  have "h264_remuxAccessUnit f au264 = Inr (h264_remux_spec f au264)
      \<and> h264_remuxAccessUnit f (elems (h264_remux_spec f au264)) = Inr (h264_remux_spec f au264)"
    by simp
  moreover
  from h265_spec_idem [OF assms(3,4)] h265_remux_refines [OF assms(3), of g]
    h265_remux_refines [of "elems (h265_remux_spec g au265)" g]
  have "h265_remuxAccessUnit g au265 = Inr (h265_remux_spec g au265)
      \<and> h265_remuxAccessUnit g (elems (h265_remux_spec g au265)) = Inr (h265_remux_spec g au265)"
    by simp
  ultimately show ?thesis by blast
qed

theorem remuxAccessUnit_idempotent_witness:
  "[] \<notin> set [[0x09, 0xF0], [0x65, 3], [0x41, 4 :: byte]] \<and> h264_params_typed h264_format_example
   \<and> [] \<notin> set [[0x46, 1], [0x26, 5], [0x02, 6 :: byte]] \<and> h265_params_typed h265_format_example
   \<and> (\<exists>r. h264_remuxAccessUnit h264_format_example [[0x09, 0xF0], [0x65, 3], [0x41, 4]] = Inr r
          \<and> h264_remuxAccessUnit h264_format_example (elems r) = Inr r)
   \<and> (\<exists>r. h265_remuxAccessUnit h265_format_example [[0x46, 1], [0x26, 5], [0x02, 6]] = Inr r
          \<and> h265_remuxAccessUnit h265_format_example (elems r) = Inr r)"
proof -
  have a: "[] \<notin> set [[0x09, 0xF0], [0x65, 3], [0x41, 4 :: byte]]" by simp
  have b: "h264_params_typed h264_format_example"
    by (simp add: h264_params_typed_def h264_format_example_def nalu_type_defs)
  have c: "[] \<notin> set [[0x46, 1], [0x26, 5], [0x02, 6 :: byte]]" by simp
  have d: "h265_params_typed h265_format_example"
    by (simp add: h265_params_typed_def h265_format_example_def nalu_type_defs)
  from remuxAccessUnit_idempotent [OF a b c d] a b c d show ?thesis by blast
qed

text \<open>C2. Parameter-set monotonicity. Along every sequence of updates from RTP packets and
  well-formed access units, a stored SPS or PPS (H.265: VPS, SPS or PPS) that is not nil never
  becomes nil again; and in each single update a stored parameter is replaced only by an observed
  parameter of its kind that differs from it, and keeps its value when none is observed.\<close>

theorem parameter_sets_monotone:
  assumes "list_all input_wf xs" and "input_wf x"
  shows "(\<exists>f'. h264_updates f xs = Inr f'
            \<and> (h264_SPS f \<noteq> None \<longrightarrow> h264_SPS f' \<noteq> None)
            \<and> (h264_PPS f \<noteq> None \<longrightarrow> h264_PPS f' \<noteq> None))
     \<and> (\<exists>g'. h265_updates g xs = Inr g'
            \<and> (h265_VPS g \<noteq> None \<longrightarrow> h265_VPS g' \<noteq> None)
            \<and> (h265_SPS g \<noteq> None \<longrightarrow> h265_SPS g' \<noteq> None)
            \<and> (h265_PPS g \<noteq> None \<longrightarrow> h265_PPS g' \<noteq> None))
     \<and> (\<exists>f'. h264_update f x = Inr f'
            \<and> replaced_only_by_observed (h264_SPS f) (h264_SPS f') (h264_observed_SPS x)
            \<and> replaced_only_by_observed (h264_PPS f) (h264_PPS f') (h264_observed_PPS x))
     \<and> (\<exists>g'. h265_update g x = Inr g'
            \<and> replaced_only_by_observed (h265_VPS g) (h265_VPS g') (h265_observed_VPS x)
            \<and> replaced_only_by_observed (h265_SPS g) (h265_SPS g') (h265_observed_SPS x)
            \<and> replaced_only_by_observed (h265_PPS g) (h265_PPS g') (h265_observed_PPS x))"
proof -
  from assms(1) have wf: "\<forall>x\<in>set xs. input_wf x" by (simp add: list_all_iff)
  show ?thesis
    using h264_updates_never_nil [OF wf, of f] h265_updates_never_nil [OF wf, of g]
      h264_update_step [OF assms(2), of f] h265_update_step [OF assms(2), of g]
    by blast
qed

theorem parameter_sets_monotone_witness:
  "list_all input_wf param_inputs_example \<and> input_wf (FromAU [[0x68, 8], [0x65, 0]])
   \<and> (\<exists>f'. h264_updates h264_format_example param_inputs_example = Inr f'
          \<and> (h264_SPS h264_format_example \<noteq> None \<longrightarrow> h264_SPS f' \<noteq> None)
          \<and> (h264_PPS h264_format_example \<noteq> None \<longrightarrow> h264_PPS f' \<noteq> None))
   \<and> (\<exists>g'. h265_updates h265_format_example param_inputs_example = Inr g'
          \<and> (h265_VPS h265_format_example \<noteq> None \<longrightarrow> h265_VPS g' \<noteq> None)
          \<and> (h265_SPS h265_format_example \<noteq> None \<longrightarrow> h265_SPS g' \<noteq> None)
          \<and> (h265_PPS h265_format_example \<noteq> None \<longrightarrow> h265_PPS g' \<noteq> None))
   \<and> (\<exists>f'. h264_update h264_format_example (FromAU [[0x68, 8], [0x65, 0]]) = Inr f'
          \<and> replaced_only_by_observed (h264_SPS h264_format_example) (h264_SPS f')
               (h264_observed_SPS (FromAU [[0x68, 8], [0x65, 0]]))
          \<and> replaced_only_by_observed (h264_PPS h264_format_example) (h264_PPS f')
               (h264_observed_PPS (FromAU [[0x68, 8], [0x65, 0]])))
   \<and> (\<exists>g'. h265_update h265_format_example (FromAU [[0x68, 8], [0x65, 0]]) = Inr g'
          \<and> replaced_only_by_observed (h265_VPS h265_format_example) (h265_VPS g')
               (h265_observed_VPS (FromAU [[0x68, 8], [0x65, 0]]))
          \<and> replaced_only_by_observed (h265_SPS h265_format_example) (h265_SPS g')
               (h265_observed_SPS (FromAU [[0x68, 8], [0x65, 0]]))
          \<and> replaced_only_by_observed (h265_PPS h265_format_example) (h265_PPS g')
               (h265_observed_PPS (FromAU [[0x68, 8], [0x65, 0]])))"
proof -
  have a: "list_all input_wf param_inputs_example"
    by (simp add: param_inputs_example_def)
  have b: "input_wf (FromAU [[0x68, 8], [0x65, 0]])" by simp
  show ?thesis
    by (rule conjI [OF a conjI [OF b
          parameter_sets_monotone [OF a b, of h264_format_example h265_format_example]]])
qed

text \<open>C3. In an H.265 aggregation packet the helper reads the type of every contained NAL unit
  from the first byte of the packet, which is the aggregation type 48, so a VPS inside the packet
  is not extracted; the H.264 helper reads the type from the NAL unit itself and extracts the SPS
  of a STAP-A packet.\<close>

theorem h265_aggregation_type_from_packet_header:
  "rtpH265ExtractVPSSPSPPS (rtp_packet_example [0x60, 0x01, 0x00, 0x04, 0x40, 0x01, 0x02, 0x03])
     = (None, None, None)
   \<and> rtpH264ExtractSPSPPS (rtp_packet_example [0x18, 0x00, 0x03, 0x67, 0x01, 0x02])
     = (Some [0x67, 0x01, 0x02], None)"
  by (simp add: rtpH265ExtractVPSSPSPPS_def rtpH264ExtractSPSPPS_def rtp_packet_example_def
      be_uint16_def nalu_type_defs)

text \<open>C4, as stated, fails: of two different VPS in one access unit the second is recorded,
  not the first.\<close>

theorem h265_updateAU_first_copy_counterexample:
  "h265_updateTrackParametersFromAU h265_format_empty [[0x40, 1], [0x40, 2]]
     = Inr (h265_format_empty\<lparr>h265_VPS := Some [0x40, 2]\<rparr>)
   \<and> hd (filter h265_is_vps [[0x40, 1], [0x40, 2]]) = [0x40, 1]
   \<and> h265_VPS (h265_format_empty\<lparr>h265_VPS := Some [0x40, 2]\<rparr>)
       \<noteq> Some (hd (filter h265_is_vps [[0x40, 1], [0x40, 2]]))"
  by (simp add: h265_updateTrackParametersFromAU_def h265_format_empty_def h265_SafeSetParams_def
      bytes_Equal_def h265_is_vps_def nalu_type_defs)

text \<open>C4, amended. The H.265 \<^verbatim>\<open>updateTrackParametersFromAU\<close> compares each VPS, SPS or PPS
  of the access unit with the parameter currently stored in the format, and records the last NAL
  unit of each kind that differs from the stored one; a kind without such a NAL unit keeps the
  stored value.\<close>

theorem h265_updateAU_last_differing_copy:
  assumes "[] \<notin> set au"
  shows "\<exists>g'. h265_updateTrackParametersFromAU g au = Inr g'
     \<and> h265_VPS g' = last_or (h265_differing h265_is_vps (h265_VPS g) au) (h265_VPS g)
     \<and> h265_SPS g' = last_or (h265_differing h265_is_sps (h265_SPS g) au) (h265_SPS g)
     \<and> h265_PPS g' = last_or (h265_differing h265_is_pps (h265_PPS g) au) (h265_PPS g)"
  using h265_updateAU_eq [OF assms] .

theorem h265_updateAU_last_differing_copy_witness:
  "[] \<notin> set [[0x40, 1], [0x40, 2 :: byte]]
   \<and> (\<exists>g'. h265_updateTrackParametersFromAU h265_format_empty [[0x40, 1], [0x40, 2]] = Inr g'
          \<and> h265_VPS g' = Some [0x40, 2] \<and> h265_SPS g' = None \<and> h265_PPS g' = None)"
proof -
  have a: "[] \<notin> set [[0x40, 1], [0x40, 2 :: byte]]" by simp
  have v: "last_or (h265_differing h265_is_vps (h265_VPS h265_format_empty) [[0x40, 1], [0x40, 2]])
      (h265_VPS h265_format_empty) = Some [0x40, 2]"
    by (simp add: last_or_def h265_differing_def h265_is_vps_def nalu_type_defs bytes_Equal_def
        h265_format_empty_def)
  have s: "last_or (h265_differing h265_is_sps (h265_SPS h265_format_empty) [[0x40, 1], [0x40, 2]])
      (h265_SPS h265_format_empty) = None"
    by (simp add: last_or_def h265_differing_def h265_is_sps_def nalu_type_defs bytes_Equal_def
        h265_format_empty_def)
  have p: "last_or (h265_differing h265_is_pps (h265_PPS h265_format_empty) [[0x40, 1], [0x40, 2]])
      (h265_PPS h265_format_empty) = None"
    by (simp add: last_or_def h265_differing_def h265_is_pps_def nalu_type_defs bytes_Equal_def
        h265_format_empty_def)
  from h265_updateAU_last_differing_copy [OF a, of h265_format_empty] a show ?thesis
    unfolding v s p by blast
qed

section \<open>Process with and without an encoder\<close>

lemma h264_decode_then_encode:
  assumes enc: "encoder t = Some e"
  shows "(case h264_decode_from_RTP lib t tunit pkt hasNonRTSPReaders of
            Inl p \<Rightarrow> Inl p
          | Inr (t3, tunit3, Some r) \<Rightarrow> Inr (t3, tunit3, r)
          | Inr (t3, tunit3, None) \<Rightarrow>
              if encoder t3 = None then Inr (t3, tunit3, None)
              else h264_encode_into_RTP lib t3 tunit3)
       = h264_decode_remux_reencode lib t e tunit pkt"
proof (cases "decoder_or_create lib t")
  case (Inl err)
  then show ?thesis
    using enc by (simp add: h264_decode_from_RTP_def h264_decode_remux_reencode_def)
next
  case (Inr d)
  obtain d' r where D: "Decode lib d pkt = (d', r)" by (cases "Decode lib d pkt")
  show ?thesis
  proof (cases r)
    case (Inl err)
    then show ?thesis
      using enc Inr D
      by (simp add: h264_decode_from_RTP_def h264_decode_remux_reencode_def
          soft_decoder_error_def Let_def)
  next
    case au: (Inr au)
    show ?thesis
    proof (cases "h264_remuxAccessUnit (format t) au")
      case (Inl p)
      then show ?thesis
        using enc Inr D au
        by (simp add: h264_decode_from_RTP_def h264_decode_remux_reencode_def Let_def)
    next
      case R: (Inr au')
      show ?thesis
      proof (cases "elems au' = []")
        case True
        then show ?thesis
          using enc Inr D au R
          by (simp add: h264_decode_from_RTP_def h264_decode_remux_reencode_def Let_def
              h264_encode_into_RTP_def)
      next
        case False
        obtain e' q where E: "Encode lib e (elems au') = (e', q)" by (cases "Encode lib e (elems au')")
        show ?thesis
          using False enc Inr D au R E
          by (cases q)
             (simp_all add: h264_decode_from_RTP_def h264_decode_remux_reencode_def Let_def
              h264_encode_into_RTP_def)
      qed
    qed
  qed
qed

lemma h264_Process_with_encoder:
  assumes enc: "encoder t = Some e" and pk: "RTPPackets tunit = Some (pkt # rest)"
  shows "h264_Process lib t tunit hasNonRTSPReaders =
     h264_decode_remux_reencode lib
       (t\<lparr>format := h264_updateTrackParametersFromRTPPacket (format t) pkt\<rparr>) e tunit pkt"
proof -
  let ?t1 = "t\<lparr>format := h264_updateTrackParametersFromRTPPacket (format t) pkt\<rparr>"
  have u: "tunit\<lparr>RTPPackets := Some (pkt # rest)\<rparr> = tunit"
    using pk by simp
  have e1: "encoder ?t1 = Some e" using enc by simp
  have "h264_Process lib t tunit hasNonRTSPReaders =
      (case h264_decode_from_RTP lib ?t1 tunit pkt hasNonRTSPReaders of
         Inl p \<Rightarrow> Inl p
       | Inr (t3, tunit3, Some r) \<Rightarrow> Inr (t3, tunit3, r)
       | Inr (t3, tunit3, None) \<Rightarrow>
           if encoder t3 = None then Inr (t3, tunit3, None)
           else h264_encode_into_RTP lib t3 tunit3)"
    using enc pk by (simp add: h264_Process_def Let_def u)
  then show ?thesis
    by (simp only: h264_decode_then_encode [OF e1])
qed

lemma h264_Process_oversize:
  assumes pk: "RTPPackets tunit = Some (pkt # rest)" and ne: "encoder t = None"
    and big: "MarshalSize lib (remove_padding pkt) > udpMaxPayloadSize t"
  shows "\<exists>t2 e2 err.
     h264_createEncoder lib (t\<lparr>format := h264_updateTrackParametersFromRTPPacket (format t) pkt\<rparr>)
         (Some (SSRC pkt)) (Some (SequenceNumber pkt)) = (t2, err)
     \<and> encoder t2 = Some e2
     \<and> h264_Process lib t tunit hasNonRTSPReaders =
         (case err of
            Some er \<Rightarrow> Inr (t2, tunit\<lparr>RTPPackets := Some (remove_padding pkt # rest)\<rparr>, Some er)
          | None \<Rightarrow>
              h264_decode_remux_reencode lib t2 e2
                (tunit\<lparr>RTPPackets := Some (remove_padding pkt # rest)\<rparr>) (remove_padding pkt))"
proof -
  let ?t1 = "t\<lparr>format := h264_updateTrackParametersFromRTPPacket (format t) pkt\<rparr>"
  let ?u = "tunit\<lparr>RTPPackets := Some (remove_padding pkt # rest)\<rparr>"
  obtain t2 err where C: "h264_createEncoder lib ?t1 (Some (SSRC pkt)) (Some (SequenceNumber pkt)) = (t2, err)"
    by (cases "h264_createEncoder lib ?t1 (Some (SSRC pkt)) (Some (SequenceNumber pkt))")
  then obtain e2 where e2: "encoder t2 = Some e2"
    by (auto simp: h264_createEncoder_def split: prod.splits)
  have s: "SSRC (remove_padding pkt) = SSRC pkt"
    "SequenceNumber (remove_padding pkt) = SequenceNumber pkt"
    by (simp_all add: remove_padding_def)
  have P: "h264_Process lib t tunit hasNonRTSPReaders =
      (case err of
         Some er \<Rightarrow> Inr (t2, ?u, Some er)
       | None \<Rightarrow>
          (case h264_decode_from_RTP lib t2 ?u (remove_padding pkt) hasNonRTSPReaders of
             Inl p \<Rightarrow> Inl p
           | Inr (t3, tunit3, Some r) \<Rightarrow> Inr (t3, tunit3, r)
           | Inr (t3, tunit3, None) \<Rightarrow>
               if encoder t3 = None then Inr (t3, tunit3, None)
               else h264_encode_into_RTP lib t3 tunit3))"
    using pk ne big C by (cases err) (simp_all add: h264_Process_def Let_def s)
  have "h264_Process lib t tunit hasNonRTSPReaders =
      (case err of
         Some er \<Rightarrow> Inr (t2, ?u, Some er)
       | None \<Rightarrow> h264_decode_remux_reencode lib t2 e2 ?u (remove_padding pkt))"
    unfolding P by (simp only: h264_decode_then_encode [OF e2])
  with C e2 show ?thesis by blast
qed

lemma h264_updateRTP_keeps:
  "h264_PayloadTyp (h264_updateTrackParametersFromRTPPacket f pkt) = h264_PayloadTyp f"
  "h264_PacketizationMode (h264_updateTrackParametersFromRTPPacket f pkt) = h264_PacketizationMode f"
  by (simp_all add: h264_updateTrackParametersFromRTPPacket_def h264_SafeSetParams_def Let_def
      split: prod.splits)

lemma h264_Process_oversize_seeded:
  assumes pk: "RTPPackets tunit = Some (pkt # rest)" and ne: "encoder t = None"
    and big: "MarshalSize lib (remove_padding pkt) > udpMaxPayloadSize t"
  shows "h264_Process lib t tunit hasNonRTSPReaders =
     (case encoder_Init lib
             \<lparr>PayloadMaxSize = udpMaxPayloadSize t - 12,
              enc_PayloadType = h264_PayloadTyp (format t),
              enc_SSRC = Some (SSRC pkt),
              InitialSequenceNumber = Some (SequenceNumber pkt),
              PacketizationMode = h264_PacketizationMode (format t),
              MaxDONDiff = 0,
              unexported = encoder_zero lib\<rparr> of
        (e, Some err) \<Rightarrow>
          Inr (t\<lparr>format := h264_updateTrackParametersFromRTPPacket (format t) pkt, encoder := Some e\<rparr>,
               tunit\<lparr>RTPPackets := Some (remove_padding pkt # rest)\<rparr>, Some err)
      | (e, None) \<Rightarrow>
          h264_decode_remux_reencode lib
            (t\<lparr>format := h264_updateTrackParametersFromRTPPacket (format t) pkt, encoder := Some e\<rparr>) e
            (tunit\<lparr>RTPPackets := Some (remove_padding pkt # rest)\<rparr>) (remove_padding pkt))"
proof -
  let ?t1 = "t\<lparr>format := h264_updateTrackParametersFromRTPPacket (format t) pkt\<rparr>"
  let ?seed = "\<lparr>PayloadMaxSize = udpMaxPayloadSize t - 12,
              enc_PayloadType = h264_PayloadTyp (format t),
              enc_SSRC = Some (SSRC pkt),
              InitialSequenceNumber = Some (SequenceNumber pkt),
              PacketizationMode = h264_PacketizationMode (format t),
              MaxDONDiff = 0,
              unexported = encoder_zero lib\<rparr>"
  obtain e err where I: "encoder_Init lib ?seed = (e, err)"
    by (cases "encoder_Init lib ?seed")
  have C: "h264_createEncoder lib ?t1 (Some (SSRC pkt)) (Some (SequenceNumber pkt))
      = (?t1\<lparr>encoder := Some e\<rparr>, err)"
    by (simp add: h264_createEncoder_def h264_updateRTP_keeps I)
  from h264_Process_oversize [OF pk ne big, of hasNonRTSPReaders]
  obtain t2 e2 err2 where
    c: "h264_createEncoder lib ?t1 (Some (SSRC pkt)) (Some (SequenceNumber pkt)) = (t2, err2)"
    and e2: "encoder t2 = Some e2"
    and P: "h264_Process lib t tunit hasNonRTSPReaders =
         (case err2 of
            Some er \<Rightarrow> Inr (t2, tunit\<lparr>RTPPackets := Some (remove_padding pkt # rest)\<rparr>, Some er)
          | None \<Rightarrow>
              h264_decode_remux_reencode lib t2 e2
                (tunit\<lparr>RTPPackets := Some (remove_padding pkt # rest)\<rparr>) (remove_padding pkt))"
    by blast
  from c C have t2: "t2 = ?t1\<lparr>encoder := Some e\<rparr>" and er: "err2 = err" by simp_all
  with e2 have "e2 = e" by simp
  with P t2 er I show ?thesis
    by (cases err) simp_all
qed

lemma h264_decode_remux_reencode_encoder:
  assumes "encoder t = Some e" and "h264_decode_remux_reencode lib t e tunit pkt = Inr (t', u', r)"
  shows "encoder t' \<noteq> None"
  using assms
  by (auto simp: h264_decode_remux_reencode_def split: sum.splits prod.splits if_splits)

lemma h264_Process_oversize_encoder:
  assumes pk: "RTPPackets tunit = Some (pkt # rest)" and ne: "encoder t = None"
    and big: "MarshalSize lib (remove_padding pkt) > udpMaxPayloadSize t"
    and P: "h264_Process lib t tunit hasNonRTSPReaders = Inr (t', u', r)"
  shows "encoder t' \<noteq> None"
proof -
  let ?seed = "\<lparr>PayloadMaxSize = udpMaxPayloadSize t - 12,
              enc_PayloadType = h264_PayloadTyp (format t),
              enc_SSRC = Some (SSRC pkt),
              InitialSequenceNumber = Some (SequenceNumber pkt),
              PacketizationMode = h264_PacketizationMode (format t),
              MaxDONDiff = 0,
              unexported = encoder_zero lib\<rparr>"
  let ?t2 = "\<lambda>e. t\<lparr>format := h264_updateTrackParametersFromRTPPacket (format t) pkt, encoder := Some e\<rparr>"
  obtain e err where I: "encoder_Init lib ?seed = (e, err)"
    by (cases "encoder_Init lib ?seed")
  show ?thesis
  proof (cases err)
    case None
    with h264_Process_oversize_seeded [OF pk ne big, of hasNonRTSPReaders] I P
    have "h264_decode_remux_reencode lib (?t2 e) e
            (tunit\<lparr>RTPPackets := Some (remove_padding pkt # rest)\<rparr>) (remove_padding pkt)
          = Inr (t', u', r)" by simp
    from h264_decode_remux_reencode_encoder [OF _ this] show ?thesis by simp
  next
    case (Some er)
    with h264_Process_oversize_seeded [OF pk ne big, of hasNonRTSPReaders] I P
    show ?thesis by auto
  qed
qed

lemma h264_Process_keeps_encoder:
  assumes enc: "encoder t = Some e" and pk: "RTPPackets tunit = Some (pkt # rest)"
    and P: "h264_Process lib t tunit hasNonRTSPReaders = Inr (t', u', r)"
  shows "encoder t' \<noteq> None"
proof -
  let ?t1 = "t\<lparr>format := h264_updateTrackParametersFromRTPPacket (format t) pkt\<rparr>"
  have e1: "encoder ?t1 = Some e" using enc by simp
  from h264_Process_with_encoder [OF enc pk, of lib hasNonRTSPReaders] P
  have "h264_decode_remux_reencode lib ?t1 e tunit pkt = Inr (t', u', r)" by simp
  from h264_decode_remux_reencode_encoder [OF e1 this] show ?thesis .
qed








lemma h265_decode_then_encode:
  assumes enc: "encoder t = Some e"
  shows "(case h265_decode_from_RTP lib t tunit pkt hasNonRTSPReaders of
            Inl p \<Rightarrow> Inl p
          | Inr (t3, tunit3, Some r) \<Rightarrow> Inr (t3, tunit3, r)
          | Inr (t3, tunit3, None) \<Rightarrow>
              if encoder t3 = None then Inr (t3, tunit3, None)
              else h265_encode_into_RTP lib t3 tunit3)
       = h265_decode_remux_reencode lib t e tunit pkt"
proof (cases "decoder_or_create lib t")
  case (Inl err)
  then show ?thesis
    using enc by (simp add: h265_decode_from_RTP_def h265_decode_remux_reencode_def)
next
  case (Inr d)
  obtain d' r where D: "Decode lib d pkt = (d', r)" by (cases "Decode lib d pkt")
  show ?thesis
  proof (cases r)
    case (Inl err)
    then show ?thesis
      using enc Inr D
      by (simp add: h265_decode_from_RTP_def h265_decode_remux_reencode_def
          soft_decoder_error_def Let_def)
  next
    case au: (Inr au)
    show ?thesis
    proof (cases "h265_remuxAccessUnit (format t) au")
      case (Inl p)
      then show ?thesis
        using enc Inr D au
        by (simp add: h265_decode_from_RTP_def h265_decode_remux_reencode_def Let_def)
    next
      case R: (Inr au')
      show ?thesis
      proof (cases "elems au' = []")
        case True
        then show ?thesis
          using enc Inr D au R
          by (simp add: h265_decode_from_RTP_def h265_decode_remux_reencode_def Let_def
              h265_encode_into_RTP_def)
      next
        case False
        obtain e' q where E: "Encode lib e (elems au') = (e', q)" by (cases "Encode lib e (elems au')")
        show ?thesis
          using False enc Inr D au R E
          by (cases q)
             (simp_all add: h265_decode_from_RTP_def h265_decode_remux_reencode_def Let_def
              h265_encode_into_RTP_def)
      qed
    qed
  qed
qed

lemma h265_Process_with_encoder:
  assumes enc: "encoder t = Some e" and pk: "RTPPackets tunit = Some (pkt # rest)"
  shows "h265_Process lib t tunit hasNonRTSPReaders =
     h265_decode_remux_reencode lib
       (t\<lparr>format := h265_updateTrackParametersFromRTPPacket (format t) pkt\<rparr>) e tunit pkt"
proof -
  let ?t1 = "t\<lparr>format := h265_updateTrackParametersFromRTPPacket (format t) pkt\<rparr>"
  have u: "tunit\<lparr>RTPPackets := Some (pkt # rest)\<rparr> = tunit"
    using pk by simp
  have e1: "encoder ?t1 = Some e" using enc by simp
  have "h265_Process lib t tunit hasNonRTSPReaders =
      (case h265_decode_from_RTP lib ?t1 tunit pkt hasNonRTSPReaders of
         Inl p \<Rightarrow> Inl p
       | Inr (t3, tunit3, Some r) \<Rightarrow> Inr (t3, tunit3, r)
       | Inr (t3, tunit3, None) \<Rightarrow>
           if encoder t3 = None then Inr (t3, tunit3, None)
           else h265_encode_into_RTP lib t3 tunit3)"
    using enc pk by (simp add: h265_Process_def Let_def u)
  then show ?thesis
    by (simp only: h265_decode_then_encode [OF e1])
qed

lemma h265_Process_oversize:
  assumes pk: "RTPPackets tunit = Some (pkt # rest)" and ne: "encoder t = None"
    and big: "MarshalSize lib (remove_padding pkt) > udpMaxPayloadSize t"
  shows "\<exists>t2 e2 err.
     h265_createEncoder lib (t\<lparr>format := h265_updateTrackParametersFromRTPPacket (format t) pkt\<rparr>)
         (Some (SSRC pkt)) (Some (SequenceNumber pkt)) = (t2, err)
     \<and> encoder t2 = Some e2
     \<and> h265_Process lib t tunit hasNonRTSPReaders =
         (case err of
            Some er \<Rightarrow> Inr (t2, tunit\<lparr>RTPPackets := Some (remove_padding pkt # rest)\<rparr>, Some er)
          | None \<Rightarrow>
              h265_decode_remux_reencode lib t2 e2
                (tunit\<lparr>RTPPackets := Some (remove_padding pkt # rest)\<rparr>) (remove_padding pkt))"
proof -
  let ?t1 = "t\<lparr>format := h265_updateTrackParametersFromRTPPacket (format t) pkt\<rparr>"
  let ?u = "tunit\<lparr>RTPPackets := Some (remove_padding pkt # rest)\<rparr>"
  obtain t2 err where C: "h265_createEncoder lib ?t1 (Some (SSRC pkt)) (Some (SequenceNumber pkt)) = (t2, err)"
    by (cases "h265_createEncoder lib ?t1 (Some (SSRC pkt)) (Some (SequenceNumber pkt))")
  then obtain e2 where e2: "encoder t2 = Some e2"
    by (auto simp: h265_createEncoder_def split: prod.splits)
  have s: "SSRC (remove_padding pkt) = SSRC pkt"
    "SequenceNumber (remove_padding pkt) = SequenceNumber pkt"
    by (simp_all add: remove_padding_def)
  have P: "h265_Process lib t tunit hasNonRTSPReaders =
      (case err of
         Some er \<Rightarrow> Inr (t2, ?u, Some er)
       | None \<Rightarrow>
          (case h265_decode_from_RTP lib t2 ?u (remove_padding pkt) hasNonRTSPReaders of
             Inl p \<Rightarrow> Inl p
           | Inr (t3, tunit3, Some r) \<Rightarrow> Inr (t3, tunit3, r)
           | Inr (t3, tunit3, None) \<Rightarrow>
               if encoder t3 = None then Inr (t3, tunit3, None)
               else h265_encode_into_RTP lib t3 tunit3))"
    using pk ne big C by (cases err) (simp_all add: h265_Process_def Let_def s)
  have "h265_Process lib t tunit hasNonRTSPReaders =
      (case err of
         Some er \<Rightarrow> Inr (t2, ?u, Some er)
       | None \<Rightarrow> h265_decode_remux_reencode lib t2 e2 ?u (remove_padding pkt))"
    unfolding P by (simp only: h265_decode_then_encode [OF e2])
  with C e2 show ?thesis by blast
qed

lemma h265_updateRTP_keeps:
  "h265_PayloadTyp (h265_updateTrackParametersFromRTPPacket f pkt) = h265_PayloadTyp f"
  "h265_MaxDONDiff (h265_updateTrackParametersFromRTPPacket f pkt) = h265_MaxDONDiff f"
  by (simp_all add: h265_updateTrackParametersFromRTPPacket_def h265_SafeSetParams_def Let_def
      split: prod.splits)

lemma h265_Process_oversize_seeded:
  assumes pk: "RTPPackets tunit = Some (pkt # rest)" and ne: "encoder t = None"
    and big: "MarshalSize lib (remove_padding pkt) > udpMaxPayloadSize t"
  shows "h265_Process lib t tunit hasNonRTSPReaders =
     (case encoder_Init lib
             \<lparr>PayloadMaxSize = udpMaxPayloadSize t - 12,
              enc_PayloadType = h265_PayloadTyp (format t),
              enc_SSRC = Some (SSRC pkt),
              InitialSequenceNumber = Some (SequenceNumber pkt),
              PacketizationMode = 0,
              MaxDONDiff = h265_MaxDONDiff (format t),
              unexported = encoder_zero lib\<rparr> of
        (e, Some err) \<Rightarrow>
          Inr (t\<lparr>format := h265_updateTrackParametersFromRTPPacket (format t) pkt, encoder := Some e\<rparr>,
               tunit\<lparr>RTPPackets := Some (remove_padding pkt # rest)\<rparr>, Some err)
      | (e, None) \<Rightarrow>
          h265_decode_remux_reencode lib
            (t\<lparr>format := h265_updateTrackParametersFromRTPPacket (format t) pkt, encoder := Some e\<rparr>) e
            (tunit\<lparr>RTPPackets := Some (remove_padding pkt # rest)\<rparr>) (remove_padding pkt))"
proof -
  let ?t1 = "t\<lparr>format := h265_updateTrackParametersFromRTPPacket (format t) pkt\<rparr>"
  let ?seed = "\<lparr>PayloadMaxSize = udpMaxPayloadSize t - 12,
              enc_PayloadType = h265_PayloadTyp (format t),
              enc_SSRC = Some (SSRC pkt),
              InitialSequenceNumber = Some (SequenceNumber pkt),
              PacketizationMode = 0,
              MaxDONDiff = h265_MaxDONDiff (format t),
              unexported = encoder_zero lib\<rparr>"
  obtain e err where I: "encoder_Init lib ?seed = (e, err)"
    by (cases "encoder_Init lib ?seed")
  have C: "h265_createEncoder lib ?t1 (Some (SSRC pkt)) (Some (SequenceNumber pkt))
      = (?t1\<lparr>encoder := Some e\<rparr>, err)"
    by (simp add: h265_createEncoder_def h265_updateRTP_keeps I)
  from h265_Process_oversize [OF pk ne big, of hasNonRTSPReaders]
  obtain t2 e2 err2 where
    c: "h265_createEncoder lib ?t1 (Some (SSRC pkt)) (Some (SequenceNumber pkt)) = (t2, err2)"
    and e2: "encoder t2 = Some e2"
    and P: "h265_Process lib t tunit hasNonRTSPReaders =
         (case err2 of
            Some er \<Rightarrow> Inr (t2, tunit\<lparr>RTPPackets := Some (remove_padding pkt # rest)\<rparr>, Some er)
          | None \<Rightarrow>
              h265_decode_remux_reencode lib t2 e2
                (tunit\<lparr>RTPPackets := Some (remove_padding pkt # rest)\<rparr>) (remove_padding pkt))"
    by blast
  from c C have t2: "t2 = ?t1\<lparr>encoder := Some e\<rparr>" and er: "err2 = err" by simp_all
  with e2 have "e2 = e" by simp
  with P t2 er I show ?thesis
    by (cases err) simp_all
qed

lemma h265_decode_remux_reencode_encoder:
  assumes "encoder t = Some e" and "h265_decode_remux_reencode lib t e tunit pkt = Inr (t', u', r)"
  shows "encoder t' \<noteq> None"
  using assms
  by (auto simp: h265_decode_remux_reencode_def split: sum.splits prod.splits if_splits)

lemma h265_Process_oversize_encoder:
  assumes pk: "RTPPackets tunit = Some (pkt # rest)" and ne: "encoder t = None"
    and big: "MarshalSize lib (remove_padding pkt) > udpMaxPayloadSize t"
    and P: "h265_Process lib t tunit hasNonRTSPReaders = Inr (t', u', r)"
  shows "encoder t' \<noteq> None"
proof -
  let ?seed = "\<lparr>PayloadMaxSize = udpMaxPayloadSize t - 12,
              enc_PayloadType = h265_PayloadTyp (format t),
              enc_SSRC = Some (SSRC pkt),
              InitialSequenceNumber = Some (SequenceNumber pkt),
              PacketizationMode = 0,
              MaxDONDiff = h265_MaxDONDiff (format t),
              unexported = encoder_zero lib\<rparr>"
  let ?t2 = "\<lambda>e. t\<lparr>format := h265_updateTrackParametersFromRTPPacket (format t) pkt, encoder := Some e\<rparr>"
  obtain e err where I: "encoder_Init lib ?seed = (e, err)"
    by (cases "encoder_Init lib ?seed")
  show ?thesis
  proof (cases err)
    case None
    with h265_Process_oversize_seeded [OF pk ne big, of hasNonRTSPReaders] I P
    have "h265_decode_remux_reencode lib (?t2 e) e
            (tunit\<lparr>RTPPackets := Some (remove_padding pkt # rest)\<rparr>) (remove_padding pkt)
          = Inr (t', u', r)" by simp
    from h265_decode_remux_reencode_encoder [OF _ this] show ?thesis by simp
  next
    case (Some er)
    with h265_Process_oversize_seeded [OF pk ne big, of hasNonRTSPReaders] I P
    show ?thesis by auto
  qed
qed

lemma h265_Process_keeps_encoder:
  assumes enc: "encoder t = Some e" and pk: "RTPPackets tunit = Some (pkt # rest)"
    and P: "h265_Process lib t tunit hasNonRTSPReaders = Inr (t', u', r)"
  shows "encoder t' \<noteq> None"
proof -
  let ?t1 = "t\<lparr>format := h265_updateTrackParametersFromRTPPacket (format t) pkt\<rparr>"
  have e1: "encoder ?t1 = Some e" using enc by simp
  from h265_Process_with_encoder [OF enc pk, of lib hasNonRTSPReaders] P
  have "h265_decode_remux_reencode lib ?t1 e tunit pkt = Inr (t', u', r)" by simp
  from h265_decode_remux_reencode_encoder [OF e1 this] show ?thesis .
qed





section \<open>The claims about Process\<close>

text \<open>C5. Oversize re-packetization. When a unit with RTP packets is processed, no encoder exists
  and the first packet, its padding removed, is larger than \<^verbatim>\<open>udpMaxPayloadSize\<close>, the packet is
  not rejected: the processor hands to \<^verbatim>\<open>Init\<close> an encoder whose SSRC and initial sequence number
  are those of the packet (its other fields: the maximum payload size less the twelve bytes of the
  RTP header, the payload type of the format and its packetization mode or its maximum DON
  difference), keeps the encoder that \<^verbatim>\<open>Init\<close> leaves and, unless \<^verbatim>\<open>Init\<close> fails, decodes, remuxes
  and re-encodes the unit with it. Whenever an encoder exists, whatever the size of the packet
  and whoever reads, \<^verbatim>\<open>Process\<close> is decode, remux and re-encode, and the packets of the unit are
  replaced. In both cases the processor has an encoder when \<^verbatim>\<open>Process\<close> returns.\<close>

theorem oversize_repacketization:
  assumes "RTPPackets tunit = Some (pkt # rest)"
    and "encoder t4 = None" and "MarshalSize lib4 (remove_padding pkt) > udpMaxPayloadSize t4"
    and "encoder t5 = None" and "MarshalSize lib5 (remove_padding pkt) > udpMaxPayloadSize t5"
    and "RTPPackets tunit' = Some (pkt' # rest')"
    and "encoder s4 = Some e4" and "encoder s5 = Some e5"
  shows "h264_Process lib4 t4 tunit hasNonRTSPReaders =
           (case encoder_Init lib4
                   \<lparr>PayloadMaxSize = udpMaxPayloadSize t4 - 12,
                    enc_PayloadType = h264_PayloadTyp (format t4),
                    enc_SSRC = Some (SSRC pkt),
                    InitialSequenceNumber = Some (SequenceNumber pkt),
                    PacketizationMode = h264_PacketizationMode (format t4),
                    MaxDONDiff = 0,
                    unexported = encoder_zero lib4\<rparr> of
              (e, Some err) \<Rightarrow>
                Inr (t4\<lparr>format := h264_updateTrackParametersFromRTPPacket (format t4) pkt,
                        encoder := Some e\<rparr>,
                     tunit\<lparr>RTPPackets := Some (remove_padding pkt # rest)\<rparr>, Some err)
            | (e, None) \<Rightarrow>
                h264_decode_remux_reencode lib4
                  (t4\<lparr>format := h264_updateTrackParametersFromRTPPacket (format t4) pkt,
                      encoder := Some e\<rparr>) e
                  (tunit\<lparr>RTPPackets := Some (remove_padding pkt # rest)\<rparr>) (remove_padding pkt))
     \<and> h265_Process lib5 t5 tunit hasNonRTSPReaders =
           (case encoder_Init lib5
                   \<lparr>PayloadMaxSize = udpMaxPayloadSize t5 - 12,
                    enc_PayloadType = h265_PayloadTyp (format t5),
                    enc_SSRC = Some (SSRC pkt),
                    InitialSequenceNumber = Some (SequenceNumber pkt),
                    PacketizationMode = 0,
                    MaxDONDiff = h265_MaxDONDiff (format t5),
                    unexported = encoder_zero lib5\<rparr> of
              (e, Some err) \<Rightarrow>
                Inr (t5\<lparr>format := h265_updateTrackParametersFromRTPPacket (format t5) pkt,
                        encoder := Some e\<rparr>,
                     tunit\<lparr>RTPPackets := Some (remove_padding pkt # rest)\<rparr>, Some err)
            | (e, None) \<Rightarrow>
                h265_decode_remux_reencode lib5
                  (t5\<lparr>format := h265_updateTrackParametersFromRTPPacket (format t5) pkt,
                      encoder := Some e\<rparr>) e
                  (tunit\<lparr>RTPPackets := Some (remove_padding pkt # rest)\<rparr>) (remove_padding pkt))
     \<and> (h264_Process lib4 t4 tunit hasNonRTSPReaders = Inr (t4', u4, r4) \<longrightarrow> encoder t4' \<noteq> None)
     \<and> (h265_Process lib5 t5 tunit hasNonRTSPReaders = Inr (t5', u5, r5) \<longrightarrow> encoder t5' \<noteq> None)
     \<and> h264_Process lib4 s4 tunit' hasNonRTSPReaders' =
           h264_decode_remux_reencode lib4
             (s4\<lparr>format := h264_updateTrackParametersFromRTPPacket (format s4) pkt'\<rparr>) e4 tunit' pkt'
     \<and> h265_Process lib5 s5 tunit' hasNonRTSPReaders' =
           h265_decode_remux_reencode lib5
             (s5\<lparr>format := h265_updateTrackParametersFromRTPPacket (format s5) pkt'\<rparr>) e5 tunit' pkt'
     \<and> (h264_Process lib4 s4 tunit' hasNonRTSPReaders' = Inr (s4', v4, q4) \<longrightarrow> encoder s4' \<noteq> None)
     \<and> (h265_Process lib5 s5 tunit' hasNonRTSPReaders' = Inr (s5', v5, q5) \<longrightarrow> encoder s5' \<noteq> None)"
proof (intro conjI impI)
  show "h264_Process lib4 t4 tunit hasNonRTSPReaders =
           (case encoder_Init lib4
                   \<lparr>PayloadMaxSize = udpMaxPayloadSize t4 - 12,
                    enc_PayloadType = h264_PayloadTyp (format t4),
                    enc_SSRC = Some (SSRC pkt),
                    InitialSequenceNumber = Some (SequenceNumber pkt),
                    PacketizationMode = h264_PacketizationMode (format t4),
                    MaxDONDiff = 0,
                    unexported = encoder_zero lib4\<rparr> of
              (e, Some err) \<Rightarrow>
                Inr (t4\<lparr>format := h264_updateTrackParametersFromRTPPacket (format t4) pkt,
                        encoder := Some e\<rparr>,
                     tunit\<lparr>RTPPackets := Some (remove_padding pkt # rest)\<rparr>, Some err)
            | (e, None) \<Rightarrow>
                h264_decode_remux_reencode lib4
                  (t4\<lparr>format := h264_updateTrackParametersFromRTPPacket (format t4) pkt,
                      encoder := Some e\<rparr>) e
                  (tunit\<lparr>RTPPackets := Some (remove_padding pkt # rest)\<rparr>) (remove_padding pkt))"
    by (rule h264_Process_oversize_seeded [OF assms(1,2,3)])
  show "h265_Process lib5 t5 tunit hasNonRTSPReaders =
           (case encoder_Init lib5
                   \<lparr>PayloadMaxSize = udpMaxPayloadSize t5 - 12,
                    enc_PayloadType = h265_PayloadTyp (format t5),
                    enc_SSRC = Some (SSRC pkt),
                    InitialSequenceNumber = Some (SequenceNumber pkt),
                    PacketizationMode = 0,
                    MaxDONDiff = h265_MaxDONDiff (format t5),
                    unexported = encoder_zero lib5\<rparr> of
              (e, Some err) \<Rightarrow>
                Inr (t5\<lparr>format := h265_updateTrackParametersFromRTPPacket (format t5) pkt,
                        encoder := Some e\<rparr>,
                     tunit\<lparr>RTPPackets := Some (remove_padding pkt # rest)\<rparr>, Some err)
            | (e, None) \<Rightarrow>
                h265_decode_remux_reencode lib5
                  (t5\<lparr>format := h265_updateTrackParametersFromRTPPacket (format t5) pkt,
                      encoder := Some e\<rparr>) e
                  (tunit\<lparr>RTPPackets := Some (remove_padding pkt # rest)\<rparr>) (remove_padding pkt))"
    by (rule h265_Process_oversize_seeded [OF assms(1,4,5)])
  show "encoder t4' \<noteq> None" if "h264_Process lib4 t4 tunit hasNonRTSPReaders = Inr (t4', u4, r4)"
    by (rule h264_Process_oversize_encoder [OF assms(1,2,3) that])
  show "encoder t5' \<noteq> None" if "h265_Process lib5 t5 tunit hasNonRTSPReaders = Inr (t5', u5, r5)"
    by (rule h265_Process_oversize_encoder [OF assms(1,4,5) that])
  show "h264_Process lib4 s4 tunit' hasNonRTSPReaders' =
           h264_decode_remux_reencode lib4
             (s4\<lparr>format := h264_updateTrackParametersFromRTPPacket (format s4) pkt'\<rparr>) e4 tunit' pkt'"
    by (rule h264_Process_with_encoder [OF assms(7,6)])
  show "h265_Process lib5 s5 tunit' hasNonRTSPReaders' =
           h265_decode_remux_reencode lib5
             (s5\<lparr>format := h265_updateTrackParametersFromRTPPacket (format s5) pkt'\<rparr>) e5 tunit' pkt'"
    by (rule h265_Process_with_encoder [OF assms(8,6)])
  show "encoder s4' \<noteq> None" if "h264_Process lib4 s4 tunit' hasNonRTSPReaders' = Inr (s4', v4, q4)"
    by (rule h264_Process_keeps_encoder [OF assms(7,6) that])
  show "encoder s5' \<noteq> None" if "h265_Process lib5 s5 tunit' hasNonRTSPReaders' = Inr (s5', v5, q5)"
    by (rule h265_Process_keeps_encoder [OF assms(8,6) that])
qed

lemmas lib_example_simps =
  lib_h264_example_def lib_h265_example_def lib_example_def

theorem oversize_repacketization_witness:
  "RTPPackets (unit_example oversize_packet) = Some (oversize_packet # [])
   \<and> encoder (processor_example h264_format_example None) = None
   \<and> MarshalSize lib_h264_example (remove_padding oversize_packet)
       > udpMaxPayloadSize (processor_example h264_format_example None)
   \<and> encoder (processor_example h265_format_example None) = None
   \<and> MarshalSize lib_h265_example (remove_padding oversize_packet)
       > udpMaxPayloadSize (processor_example h265_format_example None)
   \<and> RTPPackets (unit_example small_packet) = Some (small_packet # [])
   \<and> MarshalSize lib_h264_example small_packet
       \<le> udpMaxPayloadSize (processor_example h264_format_example (Some encoder_example))
   \<and> encoder (processor_example h264_format_example (Some encoder_example)) = Some encoder_example
   \<and> encoder (processor_example h265_format_example (Some encoder_example)) = Some encoder_example
   \<and> SSRC oversize_packet = 563423 \<and> SequenceNumber oversize_packet = 123
   \<and> h264_Process lib_h264_example (processor_example h264_format_example None)
         (unit_example oversize_packet) False
       = Inr (\<lparr>udpMaxPayloadSize = 1472, format = h264_format_example,
               encoder = Some \<lparr>PayloadMaxSize = 1460, enc_PayloadType = 96, enc_SSRC = Some 563423,
                                InitialSequenceNumber = Some 123, PacketizationMode = 1,
                                MaxDONDiff = 0, unexported = ()\<rparr>,
               decoder = Some ()\<rparr>,
              \<lparr>RTPPackets = Some [rtp_packet_example (Payload oversize_packet)], NTP = 0, PTS = 0,
               AU = Some [Payload oversize_packet]\<rparr>,
              None)
   \<and> h265_Process lib_h265_example (processor_example h265_format_example None)
         (unit_example oversize_packet) False
       = Inr (\<lparr>udpMaxPayloadSize = 1472, format = h265_format_example,
               encoder = Some \<lparr>PayloadMaxSize = 1460, enc_PayloadType = 96, enc_SSRC = Some 563423,
                                InitialSequenceNumber = Some 123, PacketizationMode = 0,
                                MaxDONDiff = 0, unexported = ()\<rparr>,
               decoder = Some ()\<rparr>,
              \<lparr>RTPPackets = Some [rtp_packet_example (Payload oversize_packet)], NTP = 0, PTS = 0,
               AU = Some [Payload oversize_packet]\<rparr>,
              None)
   \<and> encoder \<lparr>udpMaxPayloadSize = 1472, format = h264_format_example,
               encoder = Some \<lparr>PayloadMaxSize = 1460, enc_PayloadType = 96, enc_SSRC = Some 563423,
                                InitialSequenceNumber = Some 123, PacketizationMode = 1,
                                MaxDONDiff = 0, unexported = ()\<rparr>,
               decoder = Some ()\<rparr> \<noteq> None
   \<and> h264_Process lib_h264_example (processor_example h264_format_example (Some encoder_example))
         (unit_example small_packet) False
       = Inr ((processor_example h264_format_example (Some encoder_example))\<lparr>decoder := Some ()\<rparr>,
              \<lparr>RTPPackets = Some [rtp_packet_example [0x67, 1], rtp_packet_example [0x68, 2],
                                    rtp_packet_example [0x65, 1]],
               NTP = 0, PTS = 0, AU = Some [[0x67, 1], [0x68, 2], [0x65, 1]]\<rparr>,
              None)
   \<and> encoder ((processor_example h264_format_example (Some encoder_example))\<lparr>decoder := Some ()\<rparr>)
       \<noteq> None"
proof -
  let ?t4 = "processor_example h264_format_example None"
  let ?t5 = "processor_example h265_format_example None"
  let ?s4 = "processor_example h264_format_example (Some encoder_example)"
  let ?s5 = "processor_example h265_format_example (Some encoder_example)"
  have h1: "RTPPackets (unit_example oversize_packet) = Some (oversize_packet # [])"
    and h6: "RTPPackets (unit_example small_packet) = Some (small_packet # [])"
    by (simp_all add: unit_example_def)
  have h2: "encoder ?t4 = None" and h4: "encoder ?t5 = None"
    and h7: "encoder ?s4 = Some encoder_example" and h8: "encoder ?s5 = Some encoder_example"
    by (simp_all add: processor_example_def)
  have h3: "MarshalSize lib_h264_example (remove_padding oversize_packet) > udpMaxPayloadSize ?t4"
    and h5: "MarshalSize lib_h265_example (remove_padding oversize_packet) > udpMaxPayloadSize ?t5"
    and sm: "MarshalSize lib_h264_example small_packet \<le> udpMaxPayloadSize ?s4"
    by (simp_all add: lib_example_simps processor_example_def remove_padding_def
        oversize_packet_def small_packet_def rtp_packet_example_def)
  note T = oversize_repacketization [where hasNonRTSPReaders = False and hasNonRTSPReaders' = False,
      OF h1 h2 h3 h4 h5 h6 h7 h8]
  have lib: "CreateDecoder lib_h264_example = (\<lambda>f. Inr ())"
    "setTimestamp lib_h264_example = (\<lambda>pkts old clockRate pts. pkts)"
    "encoder_Init lib_h264_example = (\<lambda>e. (e, None))"
    "encoder_zero lib_h264_example = ()"
    "Encode lib_h264_example = (\<lambda>e au. (e, Inr (map rtp_packet_example au)))"
    "CreateDecoder lib_h265_example = (\<lambda>f. Inr ())"
    "setTimestamp lib_h265_example = (\<lambda>pkts old clockRate pts. pkts)"
    "encoder_Init lib_h265_example = (\<lambda>e. (e, None))"
    "encoder_zero lib_h265_example = ()"
    "Encode lib_h265_example = (\<lambda>e au. (e, Inr (map rtp_packet_example au)))"
    by (simp_all add: lib_example_simps)
  \<comment> \<open>the small packet, with the encoder there\<close>
  have f: "h264_updateTrackParametersFromRTPPacket h264_format_example small_packet
      = h264_format_example"
    by (simp add: h264_updateTrackParametersFromRTPPacket_def rtpH264ExtractSPSPPS_def
        small_packet_def rtp_packet_example_def nalu_type_defs Let_def)
  have d: "Decode lib_h264_example () small_packet = ((), Inr [[0x65, 1]])"
    by (simp add: lib_example_simps small_packet_def rtp_packet_example_def)
  have r: "h264_remuxAccessUnit h264_format_example [[0x65, 1]]
      = Inr (Some [[0x67, 1], [0x68, 2], [0x65, 1]])"
    using h264_remux_refines [of "[[0x65, 1]]" h264_format_example]
    by (simp add: h264_remux_spec_def h264_remaining_def nalu_kind_defs nalu_type_defs
        h264_format_example_def)
  have small: "h264_Process lib_h264_example ?s4 (unit_example small_packet) False
       = Inr (?s4\<lparr>decoder := Some ()\<rparr>,
              \<lparr>RTPPackets = Some [rtp_packet_example [0x67, 1], rtp_packet_example [0x68, 2],
                                    rtp_packet_example [0x65, 1]],
               NTP = 0, PTS = 0, AU = Some [[0x67, 1], [0x68, 2], [0x65, 1]]\<rparr>,
              None)"
    using T [THEN conjunct2, THEN conjunct2, THEN conjunct2, THEN conjunct2, THEN conjunct1]
    by (simp add: h264_decode_remux_reencode_def decoder_or_create_def f d r lib
        processor_example_def unit_example_def)
  have small_enc: "encoder (?s4\<lparr>decoder := Some ()\<rparr>) \<noteq> None"
    by (rule T [THEN conjunct2, THEN conjunct2, THEN conjunct2, THEN conjunct2, THEN conjunct2,
          THEN conjunct2, THEN conjunct1, rule_format, OF small])
  \<comment> \<open>the oversize packet, with no encoder yet\<close>
  have f': "h264_updateTrackParametersFromRTPPacket h264_format_example oversize_packet
      = h264_format_example"
    by (simp add: h264_updateTrackParametersFromRTPPacket_def rtpH264ExtractSPSPPS_def
        oversize_packet_def rtp_packet_example_def nalu_type_defs Let_def)
  have f5': "h265_updateTrackParametersFromRTPPacket h265_format_example oversize_packet
      = h265_format_example"
    by (simp add: h265_updateTrackParametersFromRTPPacket_def rtpH265ExtractVPSSPSPPS_def
        oversize_packet_def rtp_packet_example_def nalu_type_defs Let_def)
  have rp: "remove_padding oversize_packet = oversize_packet"
    by (simp add: remove_padding_def oversize_packet_def rtp_packet_example_def)
  have d': "Decode lib_h264_example () oversize_packet = ((), Inr [Payload oversize_packet])"
    "Decode lib_h265_example () oversize_packet = ((), Inr [Payload oversize_packet])"
    by (simp_all add: lib_example_simps oversize_packet_def rtp_packet_example_def)
  have r': "h264_remuxAccessUnit h264_format_example [Payload oversize_packet]
      = Inr (Some [Payload oversize_packet])"
    using h264_remux_refines [of "[Payload oversize_packet]" h264_format_example]
    by (simp add: h264_remux_spec_def h264_remaining_def nalu_kind_defs nalu_type_defs
        h264_format_example_def oversize_packet_def rtp_packet_example_def)
  have r5': "h265_remuxAccessUnit h265_format_example [Payload oversize_packet]
      = Inr (Some [Payload oversize_packet])"
    using h265_remux_refines [of "[Payload oversize_packet]" h265_format_example]
    by (simp add: h265_remux_spec_def h265_remaining_def nalu_kind_defs nalu_type_defs
        h265_format_example_def oversize_packet_def rtp_packet_example_def)
  have ss: "SSRC oversize_packet = 563423" "SequenceNumber oversize_packet = 123"
    by (simp_all add: oversize_packet_def rtp_packet_example_def)
  have fm: "h264_PayloadTyp h264_format_example = 96" "h264_PacketizationMode h264_format_example = 1"
    "h265_PayloadTyp h265_format_example = 96" "h265_MaxDONDiff h265_format_example = 0"
    by (simp_all add: h264_format_example_def h265_format_example_def)
  have big: "h264_Process lib_h264_example ?t4 (unit_example oversize_packet) False
       = Inr (\<lparr>udpMaxPayloadSize = 1472, format = h264_format_example,
               encoder = Some \<lparr>PayloadMaxSize = 1460, enc_PayloadType = 96, enc_SSRC = Some 563423,
                                InitialSequenceNumber = Some 123, PacketizationMode = 1,
                                MaxDONDiff = 0, unexported = ()\<rparr>,
               decoder = Some ()\<rparr>,
              \<lparr>RTPPackets = Some [rtp_packet_example (Payload oversize_packet)], NTP = 0, PTS = 0,
               AU = Some [Payload oversize_packet]\<rparr>,
              None)"
    using T [THEN conjunct1]
    by (simp add: h264_decode_remux_reencode_def decoder_or_create_def
        f' rp d' r' ss fm lib processor_example_def unit_example_def)
  have big5: "h265_Process lib_h265_example ?t5 (unit_example oversize_packet) False
       = Inr (\<lparr>udpMaxPayloadSize = 1472, format = h265_format_example,
               encoder = Some \<lparr>PayloadMaxSize = 1460, enc_PayloadType = 96, enc_SSRC = Some 563423,
                                InitialSequenceNumber = Some 123, PacketizationMode = 0,
                                MaxDONDiff = 0, unexported = ()\<rparr>,
               decoder = Some ()\<rparr>,
              \<lparr>RTPPackets = Some [rtp_packet_example (Payload oversize_packet)], NTP = 0, PTS = 0,
               AU = Some [Payload oversize_packet]\<rparr>,
              None)"
    using T [THEN conjunct2, THEN conjunct1]
    by (simp add: h265_decode_remux_reencode_def decoder_or_create_def
        f5' rp d' r5' ss fm lib processor_example_def unit_example_def)
  have big_enc: "encoder \<lparr>udpMaxPayloadSize = 1472, format = h264_format_example,
               encoder = Some \<lparr>PayloadMaxSize = 1460, enc_PayloadType = 96, enc_SSRC = Some 563423,
                                InitialSequenceNumber = Some 123, PacketizationMode = 1,
                                MaxDONDiff = 0, unexported = ()\<rparr>,
               decoder = Some ()\<rparr> \<noteq> None"
    by (rule T [THEN conjunct2, THEN conjunct2, THEN conjunct1, rule_format, OF big])
  from h1 h2 h3 h4 h5 h6 sm h7 h8 ss big big5 big_enc small small_enc show ?thesis
    by (intro conjI)
qed



section \<open>Properties of the path\<close>

lemma take1_slash: "s \<noteq> [] \<Longrightarrow> (take (Suc 0) s = ''/'') = (hd s = CHR ''/'')"
  by (cases s) simp_all

lemma emit_fields [simp]:
  "conf (emit e pa) = conf pa"
  "name (emit e pa) = name pa"
  "source (emit e pa) = source pa"
  "stream (emit e pa) = stream pa"
  "readers (emit e pa) = readers pa"
  "describeRequestsOnHold (emit e pa) = describeRequestsOnHold pa"
  "readerAddRequestsOnHold (emit e pa) = readerAddRequestsOnHold pa"
  "onDemandCmd (emit e pa) = onDemandCmd pa"
  "onReadyCmd (emit e pa) = onReadyCmd pa"
  "onDemandStaticSourceState (emit e pa) = onDemandStaticSourceState pa"
  "onDemandPublisherState (emit e pa) = onDemandPublisherState pa"
  "effects (emit e pa) = effects pa @ [e]"
  by (simp_all add: emit_def)

text \<open>C7. Describe resolution order. For a path whose on-demand static source, if one is
  configured, is its source, \<^verbatim>\<open>handleDescribe\<close> answers in this order: the redirect URL of a
  redirect source; else the stream if it is not nil; else, with an on-demand static source or an
  on-demand publisher configured, it starts it if it is in the initial state and puts the request
  on hold; else the fallback, a fallback beginning with a slash being rewritten against the
  scheme, user and host of the URL of the request; else the error ``no one is publishing''.\<close>

theorem describe_resolution_order:
  assumes "HasOnDemandStaticSource (conf pa) \<longrightarrow> source pa = Some SourceStatic"
  shows "handleDescribe env req pa = Inr (describe_result env req pa)"
proof (cases "source pa = Some SourceRedirect")
  case True
  then show ?thesis
    by (simp add: handleDescribe_def describe_result_def describe_resolution_def)
next
  case nr: False
  show ?thesis
  proof (cases "stream pa")
    case (Some st)
    with nr show ?thesis
      by (simp add: handleDescribe_def describe_result_def describe_resolution_def)
  next
    case None
    show ?thesis
    proof (cases "HasOnDemandStaticSource (conf pa)")
      case True
      with assms have "source pa = Some SourceStatic" by simp
      with nr None True show ?thesis
        by (simp add: handleDescribe_def describe_result_def describe_resolution_def
            start_on_demand_def onDemandStaticSourceStart_def)
    next
      case ns: False
      show ?thesis
      proof (cases "HasOnDemandPublisher (conf pa)")
        case True
        with nr None ns show ?thesis
          by (simp add: handleDescribe_def describe_result_def describe_resolution_def
              start_on_demand_def onDemandPublisherStart_def Let_def)
      next
        case False
        with nr None ns show ?thesis
          by (simp add: handleDescribe_def describe_result_def describe_resolution_def
              take1_slash Let_def)
      qed
    qed
  qed
qed

lemmas path_example_defs =
  env_example_def conf_example_def conf_on_demand_camera_def conf_camera_def conf_fallback_def
  conf_regexp_def describe_req_example_def publisher_add_example_def newPath_def run_init_def
  emit_def

theorem describe_resolution_order_witness:
  "HasOnDemandStaticSource (conf (run_init (newPath conf_on_demand_camera ''cam'')))
   \<and> source (run_init (newPath conf_on_demand_camera ''cam'')) = Some SourceStatic
   \<and> handleDescribe env_example describe_req_example (run_init (newPath conf_on_demand_camera ''cam''))
       = Inr ((newPath conf_on_demand_camera ''cam'')
                \<lparr>source := Some SourceStatic,
                 describeRequestsOnHold := [describe_req_example],
                 onDemandStaticSourceState := pathOnDemandStateWaitingReady,
                 onDemandStaticSourceReadyTimer := Timer 10,
                 effects := [SourceStaticStart]\<rparr>)
   \<and> \<not> HasOnDemandStaticSource (conf (run_init (newPath conf_fallback ''cam'')))
   \<and> handleDescribe env_example describe_req_example (run_init (newPath conf_fallback ''cam''))
       = Inr ((newPath conf_fallback ''cam'')
                \<lparr>effects := [SendDescribeRes 1
                     \<lparr>describe_stream = None, describe_redirect = ''rtsp://host:8554/other'',
                      describe_err = None\<rparr>]\<rparr>)"
proof -
  let ?pa = "run_init (newPath conf_on_demand_camera ''cam'')"
  let ?pb = "run_init (newPath conf_fallback ''cam'')"
  have a: "HasOnDemandStaticSource (conf ?pa)" "source ?pa = Some SourceStatic"
    by (simp_all add: path_example_defs)
  have b: "\<not> HasOnDemandStaticSource (conf ?pb)"
    by (simp add: path_example_defs)
  have ha: "HasOnDemandStaticSource (conf ?pa) \<longrightarrow> source ?pa = Some SourceStatic"
    using a by simp
  have hb: "HasOnDemandStaticSource (conf ?pb) \<longrightarrow> source ?pb = Some SourceStatic"
    using b by simp
  have ra: "describe_result env_example describe_req_example ?pa
      = (newPath conf_on_demand_camera ''cam'')
                \<lparr>source := Some SourceStatic,
                 describeRequestsOnHold := [describe_req_example],
                 onDemandStaticSourceState := pathOnDemandStateWaitingReady,
                 onDemandStaticSourceReadyTimer := Timer 10,
                 effects := [SourceStaticStart]\<rparr>"
    by (simp add: describe_result_def describe_resolution_def start_on_demand_def path_example_defs)
  have rb: "describe_result env_example describe_req_example ?pb
      = (newPath conf_fallback ''cam'')
                \<lparr>effects := [SendDescribeRes 1
                     \<lparr>describe_stream = None, describe_redirect = ''rtsp://host:8554/other'',
                      describe_err = None\<rparr>]\<rparr>"
    by (simp add: describe_result_def describe_resolution_def path_example_defs)
  from describe_resolution_order [OF ha, of env_example describe_req_example]
    describe_resolution_order [OF hb, of env_example describe_req_example] a b
  show ?thesis
    unfolding ra rb by (intro conjI)
qed

lemma doPublisherRemove_effects:
  "effects (doPublisherRemove pa) =
     effects pa @
       (case stream pa of
          None \<Rightarrow> []
        | Some st \<Rightarrow>
            ParentPathSourceNotReady # ReadersClose (readers pa)
              # (if onReadyCmd pa then [OnReadyCmdClose] else []) @ [StreamClose st])"
  by (simp add: doPublisherRemove_def sourceSetNotReady_def emit_def Let_def split: option.splits)

lemma doPublisherRemove_fields:
  "source (doPublisherRemove pa) = None"
  "stream (doPublisherRemove pa) = None"
  "readers (doPublisherRemove pa) = (if stream pa = None then readers pa else {})"
  "conf (doPublisherRemove pa) = conf pa"
  "name (doPublisherRemove pa) = name pa"
  by (simp_all add: doPublisherRemove_def sourceSetNotReady_def emit_def Let_def split: option.splits)

lemma handlePublisherAdd_bound:
  assumes "Source (conf pa) = ''publisher''" and "source pa = Some (SourcePublisher p)"
  shows "\<exists>pa'. handlePublisherAdd req pa = Inr pa'
     \<and> (if DisablePublisherOverride (conf pa) then
          pa' = emit (SendPublisherAddRes (publisher_res req)
                        \<lparr>announce_path = False,
                         announce_err = Some (ErrAlreadyPublishing (name pa))\<rparr>) pa
          \<and> source pa' = Some (SourcePublisher p)
        else
          source pa' = Some (SourcePublisher (publisher_author req))
          \<and> stream pa' = None
          \<and> readers pa' = (if stream pa = None then readers pa else {})
          \<and> effects pa' =
              effects pa @ [PublisherClose p] @
                (case stream pa of
                   None \<Rightarrow> []
                 | Some st \<Rightarrow>
                     ParentPathSourceNotReady # ReadersClose (readers pa)
                       # (if onReadyCmd pa then [OnReadyCmdClose] else []) @ [StreamClose st])
                @ [SendPublisherAddRes (publisher_res req)
                     \<lparr>announce_path = True, announce_err = None\<rparr>])"
proof (cases "DisablePublisherOverride (conf pa)")
  case True
  with assms show ?thesis
    by (simp add: handlePublisherAdd_def emit_def)
next
  case False
  let ?pa1 = "doPublisherRemove (emit (PublisherClose p) pa)"
  have h: "handlePublisherAdd req pa =
      Inr (emit (SendPublisherAddRes (publisher_res req) \<lparr>announce_path = True, announce_err = None\<rparr>)
             (?pa1\<lparr>source := Some (SourcePublisher (publisher_author req))\<rparr>))"
    using assms False by (simp add: handlePublisherAdd_def)
  have e: "effects ?pa1 = effects pa @ [PublisherClose p] @
                (case stream pa of
                   None \<Rightarrow> []
                 | Some st \<Rightarrow>
                     ParentPathSourceNotReady # ReadersClose (readers pa)
                       # (if onReadyCmd pa then [OnReadyCmdClose] else []) @ [StreamClose st])"
    by (simp add: doPublisherRemove_effects split: option.splits)
  have f: "stream ?pa1 = None" "readers ?pa1 = (if stream pa = None then readers pa else {})"
    by (simp_all add: doPublisherRemove_fields)
  show ?thesis
    using False by (simp add: h e f)
qed

section \<open>What every step of the loop keeps\<close>

lemma conf_fold:
  assumes "\<And>x p. conf (f x p) = conf p"
  shows "conf (fold f xs pa) = conf pa"
  by (induction xs arbitrary: pa) (simp_all add: assms)

lemma conf_helpers [simp]:
  "conf (onDemandStaticSourceScheduleClose pa) = conf pa"
  "conf (onDemandPublisherStart pa) = conf pa"
  "conf (onDemandPublisherScheduleClose pa) = conf pa"
  "conf (doReaderRemove r pa) = conf pa"
  "conf (sourceSetNotReady pa) = conf pa"
  "conf (doPublisherRemove pa) = conf pa"
  "conf (handleReaderAddPost rq pa) = conf pa"
  "conf (handleAPIPathsGet res pa) = conf pa"
  by (simp_all add: onDemandStaticSourceScheduleClose_def onDemandPublisherStart_def
      onDemandPublisherScheduleClose_def doReaderRemove_def sourceSetNotReady_def
      doPublisherRemove_def handleReaderAddPost_def handleAPIPathsGet_def Let_def
      split: option.splits)

lemma conf_on_hold [simp]:
  "conf (answer_describes_on_hold res pa) = conf pa"
  "conf (fail_reader_adds_on_hold err pa) = conf pa"
  "conf (add_readers_on_hold pa) = conf pa"
  "conf (timed_out pa) = conf pa"
  by (simp_all add: answer_describes_on_hold_def fail_reader_adds_on_hold_def
      add_readers_on_hold_def timed_out_def conf_fold)

lemma conf_sourceSetReady [simp]:
  "conf (fst (sourceSetReady env pa ms g)) = conf pa"
  by (simp add: sourceSetReady_def Let_def split: sum.splits)

lemma conf_panicking:
  "onDemandStaticSourceStart pa = Inr pa' \<Longrightarrow> conf pa' = conf pa"
  "onDemandStaticSourceStop pa = Inr pa' \<Longrightarrow> conf pa' = conf pa"
  "onDemandPublisherStop pa = Inr pa' \<Longrightarrow> conf pa' = conf pa"
  by (auto simp: onDemandStaticSourceStart_def onDemandStaticSourceStop_def
      onDemandPublisherStop_def Let_def split: if_splits option.splits source.splits sum.splits)

lemma conf_handlers_total [simp]:
  "conf (handlePublisherRemove author res pa) = conf pa"
  "conf (handlePublisherStop author res pa) = conf pa"
  "conf (handleReaderRemove r res pa) = conf pa"
  by (simp_all add: handlePublisherRemove_def handlePublisherStop_def handleReaderRemove_def
      doReaderRemove_def Let_def)

lemma conf_handlePublisherStart [simp]:
  "conf (handlePublisherStart env author ms g res pa) = conf pa"
proof -
  obtain pa1 err where s: "sourceSetReady env pa ms g = (pa1, err)"
    by (cases "sourceSetReady env pa ms g")
  have "conf pa1 = conf pa"
    using conf_sourceSetReady [of env pa ms g] s by simp
  then show ?thesis
    by (cases err) (simp_all add: handlePublisherStart_def s Let_def)
qed

lemma conf_handlers_panicking:
  "handleDescribe env rq pa = Inr pa' \<Longrightarrow> conf pa' = conf pa"
  "handlePublisherAdd prq pa = Inr pa' \<Longrightarrow> conf pa' = conf pa"
  "handleReaderAdd rrq pa = Inr pa' \<Longrightarrow> conf pa' = conf pa"
    apply (auto simp: handleDescribe_def Let_def dest: conf_panicking(1)
      split: if_splits sum.splits)[1]
   apply (auto simp: handlePublisherAdd_def Let_def
      split: if_splits sum.splits option.splits source.splits prod.splits bool.splits)[1]
  apply (auto simp: handleReaderAdd_def Let_def dest: conf_panicking(1)
      split: if_splits sum.splits)[1]
  done

lemma run_step_conf:
  assumes "run_step env pa ev = Inr (pa', r)"
  shows "conf pa' = (case ev of ReloadConf newConf \<Rightarrow> newConf | _ \<Rightarrow> conf pa)"
proof (cases ev)
  case (SourceStaticSetReady ms g res)
  obtain pa1 err where s: "sourceSetReady env pa ms g = (pa1, err)"
    by (cases "sourceSetReady env pa ms g")
  have "conf pa1 = conf pa"
    using conf_sourceSetReady [of env pa ms g] s by simp
  then show ?thesis
    using assms SourceStaticSetReady s
    by (cases err) (auto simp: run_step_def Let_def)
next
  case (SourceStaticSetNotReady res)
  then show ?thesis
    using assms
    by (auto simp: run_step_def check_shouldClose_def Let_def dest!: conf_panicking(2)
        split: sum.splits if_splits)
qed (use assms in \<open>auto simp: run_step_def check_shouldClose_def Let_def
        dest!: conf_panicking conf_handlers_panicking split: sum.splits if_splits\<close>)

lemma source_fold:
  assumes "\<And>x p. source (f x p) = source p"
  shows "source (fold f xs pa) = source pa"
  by (induction xs arbitrary: pa) (simp_all add: assms)

lemma source_helpers [simp]:
  "source (onDemandStaticSourceScheduleClose pa) = source pa"
  "source (onDemandPublisherStart pa) = source pa"
  "source (onDemandPublisherScheduleClose pa) = source pa"
  "source (doReaderRemove r pa) = source pa"
  "source (sourceSetNotReady pa) = source pa"
  "source (doPublisherRemove pa) = None"
  "source (handleReaderAddPost rq pa) = source pa"
  "source (handleAPIPathsGet res pa) = source pa"
  by (simp_all add: onDemandStaticSourceScheduleClose_def onDemandPublisherStart_def
      onDemandPublisherScheduleClose_def doReaderRemove_def sourceSetNotReady_def
      doPublisherRemove_def handleReaderAddPost_def handleAPIPathsGet_def Let_def
      split: option.splits)

lemma source_on_hold [simp]:
  "source (answer_describes_on_hold res pa) = source pa"
  "source (fail_reader_adds_on_hold err pa) = source pa"
  "source (add_readers_on_hold pa) = source pa"
  "source (timed_out pa) = source pa"
  by (simp_all add: answer_describes_on_hold_def fail_reader_adds_on_hold_def
      add_readers_on_hold_def timed_out_def source_fold)

lemma source_sourceSetReady [simp]:
  "source (fst (sourceSetReady env pa ms g)) = source pa"
  by (simp add: sourceSetReady_def Let_def split: sum.splits)

lemma source_panicking:
  "onDemandStaticSourceStart pa = Inr pa' \<Longrightarrow> source pa' = source pa"
  "onDemandStaticSourceStop pa = Inr pa' \<Longrightarrow> source pa' = source pa"
  "onDemandPublisherStop pa = Inr pa' \<Longrightarrow> source pa' = None"
  by (auto simp: onDemandStaticSourceStart_def onDemandStaticSourceStop_def
      onDemandPublisherStop_def Let_def split: if_splits option.splits source.splits sum.splits)

lemma source_handlers_total:
  "source (handlePublisherRemove author res pa) = source pa
     \<or> source (handlePublisherRemove author res pa) = None"
  "source (handlePublisherStop author res pa) = source pa"
  "source (handleReaderRemove r res pa) = source pa"
  by (simp_all add: handlePublisherRemove_def handlePublisherStop_def handleReaderRemove_def
      doReaderRemove_def Let_def)

lemma source_handlePublisherStart [simp]:
  "source (handlePublisherStart env author ms g res pa) = source pa"
proof -
  obtain pa1 err where s: "sourceSetReady env pa ms g = (pa1, err)"
    by (cases "sourceSetReady env pa ms g")
  have "source pa1 = source pa"
    using source_sourceSetReady [of env pa ms g] s by simp
  then show ?thesis
    by (cases err) (simp_all add: handlePublisherStart_def s Let_def)
qed

lemma source_handlers_panicking:
  "handleDescribe env rq pa = Inr pa' \<Longrightarrow> source pa' = source pa"
  "handleReaderAdd rrq pa = Inr pa' \<Longrightarrow> source pa' = source pa"
   apply (auto simp: handleDescribe_def Let_def dest: source_panicking(1)
      split: if_splits sum.splits)[1]
  apply (auto simp: handleReaderAdd_def Let_def dest: source_panicking(1)
      split: if_splits sum.splits)[1]
  done

lemma source_handlePublisherAdd:
  assumes "handlePublisherAdd req pa = Inr pa'"
  shows "source pa' = source pa
     \<or> (Source (conf pa) = ''publisher'' \<and> source pa' = Some (SourcePublisher (publisher_author req)))"
  using assms
  by (auto simp: handlePublisherAdd_def Let_def
      split: if_splits sum.splits option.splits source.splits prod.splits bool.splits)

text \<open>A step of the loop keeps the source, unbinds it, or binds a publisher to a path that is
  configured for publishers.\<close>

lemma run_step_source:
  assumes "run_step env pa ev = Inr (pa', r)"
  shows "source pa' = source pa \<or> source pa' = None
     \<or> (Source (conf pa) = ''publisher'' \<and> (\<exists>p. source pa' = Some (SourcePublisher p)))"
proof (cases ev)
  case (SourceStaticSetReady ms g res)
  obtain pa1 err where s: "sourceSetReady env pa ms g = (pa1, err)"
    by (cases "sourceSetReady env pa ms g")
  have "source pa1 = source pa"
    using source_sourceSetReady [of env pa ms g] s by simp
  then show ?thesis
    using assms SourceStaticSetReady s
    by (cases err; cases "HasOnDemandStaticSource (conf pa1)") (auto simp: run_step_def Let_def)
next
  case (SourceStaticSetNotReady res)
  then show ?thesis
    using assms
    by (auto simp: run_step_def check_shouldClose_def Let_def dest!: source_panicking(2)
        split: sum.splits if_splits)
next
  case (PublisherAdd req)
  then show ?thesis
    using assms source_handlePublisherAdd [of req pa]
    by (auto simp: run_step_def split: sum.splits)
next
  case (PublisherRemove author res)
  then show ?thesis
    using assms source_handlers_total(1) [of author res pa]
    by (auto simp: run_step_def check_shouldClose_def)
qed (use assms in \<open>auto simp: run_step_def check_shouldClose_def Let_def source_handlers_total
        dest!: source_panicking source_handlers_panicking split: sum.splits if_splits\<close>)

lemma run_step_publisher_bound_ok:
  assumes ok: "publisher_bound_ok pa" and k: "keeps_Source (Source (conf pa)) ev"
    and s: "run_step env pa ev = Inr (pa', r)"
  shows "publisher_bound_ok pa' \<and> Source (conf pa') = Source (conf pa)"
proof -
  have c: "Source (conf pa') = Source (conf pa)"
    using run_step_conf [OF s] k by (cases ev) (simp_all add: keeps_Source_def)
  from run_step_source [OF s] ok c show ?thesis
    by (auto simp: publisher_bound_ok_def split: option.splits source.splits)
qed

lemma run_loop_publisher_bound_ok:
  "publisher_bound_ok pa \<Longrightarrow> list_all (keeps_Source (Source (conf pa))) evs \<Longrightarrow>
   run_loop env pa evs = Inr (pa', r) \<Longrightarrow> publisher_bound_ok pa'"
proof (induction evs arbitrary: pa)
  case Nil
  then show ?case by simp
next
  case (Cons ev evs)
  from Cons.prems(3) obtain pa1 r1 where s: "run_step env pa ev = Inr (pa1, r1)"
    by (auto split: sum.splits)
  from Cons.prems(2) have k: "keeps_Source (Source (conf pa)) ev"
    and ks: "list_all (keeps_Source (Source (conf pa))) evs"
    by simp_all
  from run_step_publisher_bound_ok [OF Cons.prems(1) k s]
  have ok1: "publisher_bound_ok pa1" and c: "Source (conf pa1) = Source (conf pa)" by simp_all
  show ?case
  proof (cases r1)
    case None
    with Cons.prems(3) s have "run_loop env pa1 evs = Inr (pa', r)" by simp
    from Cons.IH [OF ok1 _ this] ks c show ?thesis by simp
  next
    case (Some err)
    with Cons.prems(3) s have "pa' = pa1" by simp
    with ok1 show ?thesis by simp
  qed
qed

lemma run_init_publisher_bound_ok:
  "publisher_bound_ok (run_init (newPath cnf nm))"
  "conf (run_init (newPath cnf nm)) = cnf"
  by (simp_all add: publisher_bound_ok_def run_init_def newPath_def emit_def Let_def)

section \<open>Publisher override\<close>

text \<open>C8. Publisher override. In every state that the loop of \<^verbatim>\<open>run\<close> reaches from a new path
  (the configuration being reloaded only as the path manager does it), a publisher is bound only
  if the path is configured with source \<open>publisher\<close>. An add-publisher request at such a state
  with a publisher bound: when \<^verbatim>\<open>DisablePublisherOverride\<close> is false the bound publisher is closed
  and removed (the stream, if there is one, is closed and the readers are evicted), the author of
  the request becomes the source and the response carries the path; when it is true the
  response is an error and the path is otherwise unchanged, the publisher still bound. The source
  is one slot: it holds the old publisher or the new one, never both. (A path that is not
  configured with source \<open>publisher\<close>, where no publisher is ever bound, answers the request
  with an error and is otherwise unchanged.)\<close>

theorem publisher_override:
  "(publisher_bound_ok pa \<longrightarrow> source pa = Some (SourcePublisher p) \<longrightarrow>
      (\<exists>pa'. handlePublisherAdd req pa = Inr pa'
         \<and> (if DisablePublisherOverride (conf pa) then
              pa' = emit (SendPublisherAddRes (publisher_res req)
                            \<lparr>announce_path = False,
                             announce_err = Some (ErrAlreadyPublishing (name pa))\<rparr>) pa
              \<and> source pa' = Some (SourcePublisher p)
            else
              source pa' = Some (SourcePublisher (publisher_author req))
              \<and> stream pa' = None
              \<and> readers pa' = (if stream pa = None then readers pa else {})
              \<and> effects pa' =
                  effects pa @ [PublisherClose p] @
                    (case stream pa of
                       None \<Rightarrow> []
                     | Some st \<Rightarrow>
                         ParentPathSourceNotReady # ReadersClose (readers pa)
                           # (if onReadyCmd pa then [OnReadyCmdClose] else []) @ [StreamClose st])
                    @ [SendPublisherAddRes (publisher_res req)
                         \<lparr>announce_path = True, announce_err = None\<rparr>])))
   \<and> (list_all (keeps_Source (Source cnf)) evs \<longrightarrow>
        run_loop env (run_init (newPath cnf nm)) evs = Inr (pa1, r1) \<longrightarrow>
        publisher_bound_ok pa1)
   \<and> (Source (conf pb) \<noteq> ''publisher'' \<longrightarrow>
        handlePublisherAdd req pb =
          Inr (emit (SendPublisherAddRes (publisher_res req)
                       \<lparr>announce_path = False,
                        announce_err = Some (ErrSourceNotPublisher (name pb))\<rparr>) pb))"
proof (intro conjI impI)
  assume ok: "publisher_bound_ok pa" and b: "source pa = Some (SourcePublisher p)"
  then have "Source (conf pa) = ''publisher''"
    by (simp add: publisher_bound_ok_def)
  from handlePublisherAdd_bound [OF this b, of req]
  show "\<exists>pa'. handlePublisherAdd req pa = Inr pa'
         \<and> (if DisablePublisherOverride (conf pa) then
              pa' = emit (SendPublisherAddRes (publisher_res req)
                            \<lparr>announce_path = False,
                             announce_err = Some (ErrAlreadyPublishing (name pa))\<rparr>) pa
              \<and> source pa' = Some (SourcePublisher p)
            else
              source pa' = Some (SourcePublisher (publisher_author req))
              \<and> stream pa' = None
              \<and> readers pa' = (if stream pa = None then readers pa else {})
              \<and> effects pa' =
                  effects pa @ [PublisherClose p] @
                    (case stream pa of
                       None \<Rightarrow> []
                     | Some st \<Rightarrow>
                         ParentPathSourceNotReady # ReadersClose (readers pa)
                           # (if onReadyCmd pa then [OnReadyCmdClose] else []) @ [StreamClose st])
                    @ [SendPublisherAddRes (publisher_res req)
                         \<lparr>announce_path = True, announce_err = None\<rparr>])" .
next
  assume k: "list_all (keeps_Source (Source cnf)) evs"
    and l: "run_loop env (run_init (newPath cnf nm)) evs = Inr (pa1, r1)"
  from k have "list_all (keeps_Source (Source (conf (run_init (newPath cnf nm))))) evs"
    by (simp add: run_init_publisher_bound_ok(2))
  from run_loop_publisher_bound_ok [OF run_init_publisher_bound_ok(1) this l]
  show "publisher_bound_ok pa1" .
next
  assume "Source (conf pb) \<noteq> ''publisher''"
  then show "handlePublisherAdd req pb =
          Inr (emit (SendPublisherAddRes (publisher_res req)
                       \<lparr>announce_path = False,
                        announce_err = Some (ErrSourceNotPublisher (name pb))\<rparr>) pb)"
    by (simp add: handlePublisherAdd_def)
qed

theorem publisher_override_witness:
  "publisher_bound_ok path_publishing
   \<and> source path_publishing = Some (SourcePublisher 1)
   \<and> \<not> DisablePublisherOverride (conf path_publishing)
   \<and> (\<exists>pa'. handlePublisherAdd publisher_add_example path_publishing = Inr pa'
          \<and> source pa' = Some (SourcePublisher 2)
          \<and> stream pa' = None
          \<and> readers pa' = {}
          \<and> effects pa' =
              [PublisherClose 1, ParentPathSourceNotReady, ReadersClose {3, 4}, StreamClose 5,
               SendPublisherAddRes 7 \<lparr>announce_path = True, announce_err = None\<rparr>])
   \<and> publisher_bound_ok path_publishing_no_override
   \<and> source path_publishing_no_override = Some (SourcePublisher 1)
   \<and> DisablePublisherOverride (conf path_publishing_no_override)
   \<and> handlePublisherAdd publisher_add_example path_publishing_no_override
       = Inr (emit (SendPublisherAddRes 7
                      \<lparr>announce_path = False, announce_err = Some (ErrAlreadyPublishing ''live'')\<rparr>)
                path_publishing_no_override)
   \<and> list_all (keeps_Source (Source conf_example))
       [PublisherAdd publisher_add_example, ReloadConf conf_fallback]
   \<and> run_loop env_example (run_init (newPath conf_example ''live''))
         [PublisherAdd publisher_add_example, ReloadConf conf_fallback]
       = Inr ((newPath conf_fallback ''live'')
                \<lparr>source := Some (SourcePublisher 2),
                 effects := [SendPublisherAddRes 7 \<lparr>announce_path = True, announce_err = None\<rparr>]\<rparr>,
              None)
   \<and> publisher_bound_ok
       ((newPath conf_fallback ''live'')
          \<lparr>source := Some (SourcePublisher 2),
           effects := [SendPublisherAddRes 7 \<lparr>announce_path = True, announce_err = None\<rparr>]\<rparr>)
   \<and> Source (conf (run_init (newPath conf_camera ''cam''))) \<noteq> ''publisher''
   \<and> handlePublisherAdd publisher_add_example (run_init (newPath conf_camera ''cam''))
       = Inr (emit (SendPublisherAddRes 7
                      \<lparr>announce_path = False, announce_err = Some (ErrSourceNotPublisher ''cam'')\<rparr>)
                (run_init (newPath conf_camera ''cam'')))"
proof -
  let ?pn = "path_publishing_no_override"
  let ?evs = "[PublisherAdd publisher_add_example, ReloadConf conf_fallback]"
  let ?p1 = "(newPath conf_fallback ''live'')
                \<lparr>source := Some (SourcePublisher 2),
                 effects := [SendPublisherAddRes 7 \<lparr>announce_path = True, announce_err = None\<rparr>]\<rparr>"
  have a: "publisher_bound_ok path_publishing"
    and b: "source path_publishing = Some (SourcePublisher 1)"
    and c: "\<not> DisablePublisherOverride (conf path_publishing)"
    by (simp_all add: publisher_bound_ok_def path_publishing_def path_example_defs)
  have d: "stream path_publishing = Some 5" "readers path_publishing = {3, 4}"
    "effects path_publishing = []" "\<not> onReadyCmd path_publishing"
    "publisher_author publisher_add_example = 2" "publisher_res publisher_add_example = 7"
    by (simp_all add: path_publishing_def path_example_defs)
  have an: "publisher_bound_ok ?pn"
    and bn: "source ?pn = Some (SourcePublisher 1)"
    and cn: "DisablePublisherOverride (conf ?pn)"
    and dn: "name ?pn = ''live''"
    by (simp_all add: publisher_bound_ok_def path_publishing_no_override_def path_publishing_def
        path_example_defs)
  have e: "Source (conf (run_init (newPath conf_camera ''cam''))) \<noteq> ''publisher''"
    by (simp add: path_example_defs)
  have k: "list_all (keeps_Source (Source conf_example)) ?evs"
    by (simp add: keeps_Source_def path_example_defs)
  have l: "run_loop env_example (run_init (newPath conf_example ''live'')) ?evs = Inr (?p1, None)"
    by (simp add: run_step_def handlePublisherAdd_def path_example_defs)
  note T = publisher_override [of path_publishing 1 publisher_add_example conf_example ?evs
      env_example "''live''" ?p1 None "run_init (newPath conf_camera ''cam'')"]
  note Tn = publisher_override [of ?pn 1 publisher_add_example]
  have t1: "\<exists>pa'. handlePublisherAdd publisher_add_example path_publishing = Inr pa'
          \<and> source pa' = Some (SourcePublisher 2)
          \<and> stream pa' = None
          \<and> readers pa' = {}
          \<and> effects pa' =
              [PublisherClose 1, ParentPathSourceNotReady, ReadersClose {3, 4}, StreamClose 5,
               SendPublisherAddRes 7 \<lparr>announce_path = True, announce_err = None\<rparr>]"
    using T [THEN conjunct1, rule_format, OF a b] c by (simp add: d)
  have t1n: "handlePublisherAdd publisher_add_example ?pn
       = Inr (emit (SendPublisherAddRes 7
                      \<lparr>announce_path = False, announce_err = Some (ErrAlreadyPublishing ''live'')\<rparr>)
                ?pn)"
    using Tn [THEN conjunct1, rule_format, OF an bn] cn by (auto simp add: d dn)
  have t2: "publisher_bound_ok ?p1"
    by (rule T [THEN conjunct2, THEN conjunct1, rule_format, OF k l])
  have t3: "handlePublisherAdd publisher_add_example (run_init (newPath conf_camera ''cam''))
       = Inr (emit (SendPublisherAddRes 7
                      \<lparr>announce_path = False, announce_err = Some (ErrSourceNotPublisher ''cam'')\<rparr>)
                (run_init (newPath conf_camera ''cam'')))"
    using T [THEN conjunct2, THEN conjunct2, rule_format, OF e] by (simp add: path_example_defs)
  from a b c t1 an bn cn t1n k l t2 e t3 show ?thesis
    by (intro conjI)
qed

section \<open>Leaving the loop\<close>

lemma run_step_checked:
  assumes "checks_shouldClose ev" and "run_step env pa ev = Inr (pa', r)"
  shows "r = (if shouldClose pa' then Some ErrNotInUse else None)"
  using assms
  by (cases ev)
     (auto simp: run_step_def checks_shouldClose_def check_shouldClose_def Let_def
        split: sum.splits if_splits)

lemma run_step_unchecked:
  assumes "\<not> checks_shouldClose ev" and "ev \<noteq> CtxDone" and "run_step env pa ev = Inr (pa', r)"
  shows "r = None"
  using assms
  by (cases ev)
     (auto simp: run_step_def checks_shouldClose_def Let_def
        split: sum.splits if_splits prod.splits option.splits)

lemma run_step_not_in_use:
  assumes "run_step env pa ev = Inr (pa', Some ErrNotInUse)"
  shows "shouldClose pa' \<and> checks_shouldClose ev"
proof (cases "checks_shouldClose ev")
  case True
  from run_step_checked [OF True assms] True show ?thesis
    by (simp split: if_splits)
next
  case False
  have "ev \<noteq> CtxDone"
    using assms by (auto simp: run_step_def)
  from run_step_unchecked [OF False this assms] show ?thesis by simp
qed

lemma run_loop_static_name:
  "Regexp (conf pa) = None \<Longrightarrow> list_all keeps_static_name evs \<Longrightarrow>
   run_loop env pa evs = Inr (pa', r) \<Longrightarrow> r \<noteq> Some ErrNotInUse"
proof (induction evs arbitrary: pa)
  case Nil
  then show ?case by simp
next
  case (Cons ev evs)
  from Cons.prems(3) obtain pa1 r1 where s: "run_step env pa ev = Inr (pa1, r1)"
    by (auto split: sum.splits)
  from Cons.prems(2) have k: "keeps_static_name ev" and ks: "list_all keeps_static_name evs"
    by simp_all
  have c: "Regexp (conf pa1) = None"
    using run_step_conf [OF s] k Cons.prems(1)
    by (cases ev) (simp_all add: keeps_static_name_def)
  show ?case
  proof (cases r1)
    case None
    with Cons.prems(3) s have "run_loop env pa1 evs = Inr (pa', r)" by simp
    from Cons.IH [OF c ks this] show ?thesis .
  next
    case (Some err)
    with Cons.prems(3) s have e: "pa' = pa1" "r = Some err" by simp_all
    show ?thesis
    proof
      assume "r = Some ErrNotInUse"
      with e s Some have "run_step env pa ev = Inr (pa1, Some ErrNotInUse)" by simp
      from run_step_not_in_use [OF this] c show False
        by (simp add: shouldClose_def)
    qed
  qed
qed

text \<open>C9, as stated, fails: a path of a regular-expression entry that has just been created
  and first handles an API request satisfies the condition after that event, and the loop goes on
  to the next event.\<close>

theorem auto_destroy_unchecked_event_counterexample:
  "run_step env_example (run_init (newPath conf_regexp ''live/x'')) (APIPathsGet 9)
     = Inr ((newPath conf_regexp ''live/x'')\<lparr>effects := [SendAPIPathsGetRes 9]\<rparr>, None)
   \<and> Regexp (conf ((newPath conf_regexp ''live/x'')\<lparr>effects := [SendAPIPathsGetRes 9]\<rparr>)) \<noteq> None
   \<and> shouldClose ((newPath conf_regexp ''live/x'')\<lparr>effects := [SendAPIPathsGetRes 9]\<rparr>)
   \<and> run_loop env_example (run_init (newPath conf_regexp ''live/x''))
         [APIPathsGet 9, APIPathsGet 10]
     = Inr ((newPath conf_regexp ''live/x'')
              \<lparr>effects := [SendAPIPathsGetRes 9, SendAPIPathsGetRes 10]\<rparr>, None)"
  by (simp add: run_step_def handleAPIPathsGet_def shouldClose_def path_example_defs)

text \<open>C9, amended. After a timer event, a source-static-set-not-ready, describe,
  publisher-remove, publisher-stop or reader-add event, the loop returns ``not in use'' exactly
  when \<^verbatim>\<open>shouldClose\<close> holds, and no further event is processed; after the other events
  (reload-conf, source-static-set-ready, publisher-add, publisher-start, reader-remove, API get)
  the loop goes on without the check. A path whose configuration has no regular expression, and
  is reloaded only with such configurations, never leaves the loop with ``not in use''.\<close>

theorem auto_destroy:
  "(checks_shouldClose ev \<longrightarrow> run_step env pa ev = Inr (pa', r) \<longrightarrow>
      r = (if shouldClose pa' then Some ErrNotInUse else None))
   \<and> (run_step env pa ev = Inr (pa', Some err) \<longrightarrow>
        run_loop env pa (ev # evs) = Inr (pa', Some err))
   \<and> (\<not> checks_shouldClose ev2 \<longrightarrow> ev2 \<noteq> CtxDone \<longrightarrow> run_step env pa2 ev2 = Inr (pa2', r2) \<longrightarrow>
        r2 = None)
   \<and> (Regexp (conf pa0) = None \<longrightarrow> list_all keeps_static_name evs0 \<longrightarrow>
        run_loop env pa0 evs0 = Inr (pa1, r1) \<longrightarrow> r1 \<noteq> Some ErrNotInUse)"
  apply (intro conjI impI)
     apply (rule run_step_checked; assumption)
    apply simp
   apply (rule run_step_unchecked; assumption)
  apply (rule run_loop_static_name; assumption)
  done

theorem auto_destroy_witness:
  "checks_shouldClose (Describe describe_req_example)
   \<and> run_step env_example (run_init (newPath conf_regexp ''live/x'')) (Describe describe_req_example)
       = Inr ((newPath conf_regexp ''live/x'')\<lparr>effects := [no_one_publishing_res ''live/x'']\<rparr>,
              Some ErrNotInUse)
   \<and> shouldClose ((newPath conf_regexp ''live/x'')\<lparr>effects := [no_one_publishing_res ''live/x'']\<rparr>)
   \<and> run_loop env_example (run_init (newPath conf_regexp ''live/x''))
         [Describe describe_req_example, APIPathsGet 9]
       = Inr ((newPath conf_regexp ''live/x'')\<lparr>effects := [no_one_publishing_res ''live/x'']\<rparr>,
              Some ErrNotInUse)
   \<and> \<not> checks_shouldClose (APIPathsGet 9) \<and> APIPathsGet 9 \<noteq> CtxDone
   \<and> run_step env_example (run_init (newPath conf_regexp ''live/x'')) (APIPathsGet 9)
       = Inr ((newPath conf_regexp ''live/x'')\<lparr>effects := [SendAPIPathsGetRes 9]\<rparr>, None)
   \<and> Regexp (conf (run_init (newPath conf_example ''live''))) = None
   \<and> list_all keeps_static_name [Describe describe_req_example, ReloadConf conf_fallback, CtxDone]
   \<and> run_loop env_example (run_init (newPath conf_example ''live''))
         [Describe describe_req_example, ReloadConf conf_fallback, CtxDone]
       = Inr ((newPath conf_fallback ''live'')\<lparr>effects := [no_one_publishing_res ''live'']\<rparr>,
              Some ErrTerminated)
   \<and> Some ErrTerminated \<noteq> Some ErrNotInUse"
proof -
  let ?pr = "run_init (newPath conf_regexp ''live/x'')"
  let ?pr' = "(newPath conf_regexp ''live/x'')\<lparr>effects := [no_one_publishing_res ''live/x'']\<rparr>"
  let ?ps = "run_init (newPath conf_example ''live'')"
  let ?ps' = "(newPath conf_fallback ''live'')\<lparr>effects := [no_one_publishing_res ''live'']\<rparr>"
  let ?evs = "[Describe describe_req_example, ReloadConf conf_fallback, CtxDone]"
  have c1: "checks_shouldClose (Describe describe_req_example)"
    and c2: "\<not> checks_shouldClose (APIPathsGet 9)" and c3: "APIPathsGet 9 \<noteq> CtxDone"
    by (simp_all add: checks_shouldClose_def)
  have hd: "handleDescribe env_example describe_req_example ?pr = Inr ?pr'"
    by (simp add: handleDescribe_def no_one_publishing_res_def path_example_defs)
  have sc: "shouldClose ?pr'"
    by (simp add: shouldClose_def path_example_defs)
  have s1: "run_step env_example ?pr (Describe describe_req_example) = Inr (?pr', Some ErrNotInUse)"
    by (simp add: run_step_def hd check_shouldClose_def sc)
  have s2: "run_step env_example ?pr (APIPathsGet 9)
      = Inr ((newPath conf_regexp ''live/x'')\<lparr>effects := [SendAPIPathsGetRes 9]\<rparr>, None)"
    by (simp add: run_step_def handleAPIPathsGet_def path_example_defs)
  have r0: "Regexp (conf ?ps) = None"
    by (simp add: path_example_defs)
  have k: "list_all keeps_static_name ?evs"
    by (simp add: keeps_static_name_def path_example_defs)
  have l: "run_loop env_example ?ps ?evs = Inr (?ps', Some ErrTerminated)"
    by (simp add: run_step_def handleDescribe_def check_shouldClose_def shouldClose_def
        no_one_publishing_res_def path_example_defs)
  note T = auto_destroy [of "Describe describe_req_example" env_example ?pr ?pr' "Some ErrNotInUse"
      ErrNotInUse "[APIPathsGet 9]" "APIPathsGet 9" ?pr
      "(newPath conf_regexp ''live/x'')\<lparr>effects := [SendAPIPathsGetRes 9]\<rparr>" None
      ?ps ?evs ?ps' "Some ErrTerminated"]
  have t1: "Some ErrNotInUse = (if shouldClose ?pr' then Some ErrNotInUse else None)"
    by (rule T [THEN conjunct1, rule_format, OF c1 s1])
  have t2: "run_loop env_example ?pr [Describe describe_req_example, APIPathsGet 9]
      = Inr (?pr', Some ErrNotInUse)"
    by (rule T [THEN conjunct2, THEN conjunct1, rule_format, OF s1])
  have t3: "(None :: path_error option) = None"
    by (rule T [THEN conjunct2, THEN conjunct2, THEN conjunct1, rule_format, OF c2 c3 s2])
  have t4: "Some ErrTerminated \<noteq> Some ErrNotInUse"
    by (rule T [THEN conjunct2, THEN conjunct2, THEN conjunct2, rule_format, OF r0 k l])
  from c1 s1 sc t2 c2 c3 s2 r0 k l t4 show ?thesis
    by (intro conjI)
qed

end
